theory Spec2Isabelle
  imports Complex_Main
begin

section \<open>Python values held in slot maps\<close>

text \<open>
  A slot value is a Python scalar: \<open>None\<close>, a \<open>str\<close>, a \<open>bool\<close>, an \<open>int\<close> or a
  \<open>float\<close>. The only floats the extractor builds are \<open>float("d")\<close> and \<open>float("d.d")\<close>,
  and the only operations on them are truthiness and \<open>==\<close>, so a float is kept as the
  rational number it denotes.
\<close>

datatype pyval = PNone | PStr string | PBool bool | PInt int | PFloat rat

text \<open>Python truthiness (\<open>bool(v)\<close>, \<open>if v\<close>, \<open>not v\<close>, \<open>a or b\<close>).\<close>

fun truthy :: "pyval \<Rightarrow> bool" where
  "truthy PNone = False"
| "truthy (PStr s) = (s \<noteq> [])"
| "truthy (PBool b) = b"
| "truthy (PInt i) = (i \<noteq> 0)"
| "truthy (PFloat r) = (r \<noteq> 0)"

text \<open>
  Python \<open>==\<close> on scalars: \<open>bool\<close> is a subclass of \<open>int\<close> (\<open>False == 0\<close>,
  \<open>True == 1\<close>), numbers compare by value across \<open>int\<close> and \<open>float\<close>, and values of
  unrelated types are unequal.
\<close>

fun num_of :: "pyval \<Rightarrow> rat option" where
  "num_of (PBool b) = Some (if b then 1 else 0)"
| "num_of (PInt i) = Some (of_int i)"
| "num_of (PFloat r) = Some r"
| "num_of _ = None"

fun py_eq :: "pyval \<Rightarrow> pyval \<Rightarrow> bool" where
  "py_eq PNone PNone = True"
| "py_eq (PStr a) (PStr b) = (a = b)"
| "py_eq a b = (case (num_of a, num_of b) of (Some x, Some y) \<Rightarrow> x = y | _ \<Rightarrow> False)"

text \<open>\<open>v in (e1, e2, ...)\<close>: equality with some member of the tuple.\<close>

definition py_in :: "pyval \<Rightarrow> pyval list \<Rightarrow> bool" where
  "py_in v es = list_ex (py_eq v) es"

text \<open>The emptiness test of the slot merge: \<open>v not in (None, "", False)\<close>.\<close>

definition not_empty_value :: "pyval \<Rightarrow> bool" where
  "not_empty_value v = (\<not> py_in v [PNone, PStr [], PBool False])"

section \<open>Slot maps\<close>

text \<open>
  A slot map is a \<open>dict\<close> from slot names to scalars. Keys are unique and no operation
  below depends on insertion order, so it is a partial function. \<open>sget m k\<close> is
  \<open>m.get(k)\<close>: an absent key reads as \<open>None\<close>.
\<close>

type_synonym slots = "string \<rightharpoonup> pyval"

definition sget :: "slots \<Rightarrow> string \<Rightarrow> pyval" where
  "sget m k = (case m k of None \<Rightarrow> PNone | Some v \<Rightarrow> v)"

definition has_key :: "slots \<Rightarrow> string \<Rightarrow> bool" where
  "has_key m k = (m k \<noteq> None)"

section \<open>Dialogue state (features/context.py)\<close>

text \<open>
  Rows returned by the back ends are dictionaries whose contents the state never
  inspects; a row is kept as an association list. Time stamps (\<open>at\<close>) are omitted: they
  are read from the clock and no operation of the state branches on them.
\<close>

type_synonym row = "(string \<times> pyval) list"

text \<open>
  A knowledge-graph binding maps a variable to a dictionary whose \<open>value\<close> entry is a
  string; it is kept as the association list from variable to that string.
\<close>

type_synonym kg_row = "(string \<times> string) list"

record tool_event =
  ev_source :: string
  ev_subtype :: string
  ev_request :: row
  ev_response_rows :: "row list"
  ev_response_count :: nat
  ev_elapsed_ms :: int
  ev_error :: string

record turn =
  t_role :: string
  t_text :: string
  t_act_major :: "string option"
  t_act_subtype :: "string option"
  t_intent :: "string option"
  t_slots :: slots
  t_mood :: "string option"
  tool_events :: "tool_event list"

text \<open>The profile dictionary, one field per key of its default value.\<close>

record user_profile =
  up_tone :: string
  up_role :: "string option"
  up_role_level :: "int option"
  up_department :: "string option"
  up_name :: "string option"
  up_staff_id :: "int option"
  up_verified :: bool
  up_privacy_mode :: string
  up_price_band :: string
  up_verbosity :: string

text \<open>
  \<open>last_entities["venue"]\<close> is \<open>None\<close> or a dictionary with exactly the keys
  \<open>type\<close>, \<open>neighborhood\<close>, \<open>cuisine\<close>.
\<close>

record venue =
  v_type :: pyval
  v_neighborhood :: pyval
  v_cuisine :: pyval

record entities =
  le_person :: pyval
  le_place :: pyval
  le_venue :: "venue option"

record dialogue_state =
  slots :: slots
  user_profile :: user_profile
  history :: "turn list"
  db_enabled :: bool
  history_intents :: "string list"
  next_expected :: "string option"
  pending_action :: "row option"
  last_sentiment :: string
  asked_name_once :: bool
  last_kg_rows :: "kg_row list"
  kg_detail_cache :: "(string \<times> kg_row) list"
  topic_id :: "string option"
  last_entities :: entities
  recent_facts_kg :: "nat list"

text \<open>\<open>DialogueState()\<close>: every field at its default.\<close>

definition default_profile :: user_profile where
  "default_profile = \<lparr> up_tone = ''neutral'', up_role = Some ''employee'', up_role_level = None,
     up_department = None, up_name = None, up_staff_id = None, up_verified = False,
     up_privacy_mode = ''ask'', up_price_band = ''mid'', up_verbosity = ''normal'' \<rparr>"

definition new_state :: dialogue_state where
  "new_state = \<lparr> slots = Map.empty, user_profile = default_profile, history = [],
     db_enabled = False, history_intents = [], next_expected = None, pending_action = None,
     last_sentiment = ''neutral'', asked_name_once = False, last_kg_rows = [],
     kg_detail_cache = [], topic_id = None,
     last_entities = \<lparr> le_person = PNone, le_place = PNone, le_venue = None \<rparr>,
     recent_facts_kg = [] \<rparr>"

subsection \<open>add_user_turn\<close>

definition ephemeral :: "string list" where
  "ephemeral = [''act_subtype'', ''confirm'', ''cancel'']"

text \<open>
  The loop \<open>for k, v in slots.items(): ...\<close> writes \<open>self.slots[k] = v\<close> for every key
  that is not ephemeral and whose value passes the emptiness test; each key occurs once,
  so the result is the pointwise override below.
\<close>

definition merge_durable :: "slots \<Rightarrow> slots \<Rightarrow> slots" where
  "merge_durable durable cur =
     (\<lambda>k. case cur k of
            None \<Rightarrow> durable k
          | Some v \<Rightarrow> if k \<in> set ephemeral then durable k
                      else if not_empty_value v then Some v else durable k)"

text \<open>\<open>xs[-6:]\<close>: the last six elements, or all of them when there are fewer.\<close>

definition last6 :: "'a list \<Rightarrow> 'a list" where
  "last6 xs = drop (length xs - 6) xs"

definition add_user_turn ::
  "string \<Rightarrow> string \<Rightarrow> string option \<Rightarrow> string \<Rightarrow> slots \<Rightarrow> string \<Rightarrow> dialogue_state \<Rightarrow> dialogue_state" where
  "add_user_turn text act_major act_subtype intent sl mood st =
     st\<lparr> history := history st @
            [\<lparr> t_role = ''user'', t_text = text, t_act_major = Some act_major,
               t_act_subtype = act_subtype, t_intent = Some intent, t_slots = sl,
               t_mood = Some mood, tool_events = [] \<rparr>],
         slots := merge_durable (slots st) sl,
         history_intents := last6 (history_intents st @ [intent]) \<rparr>"

definition add_assistant_turn :: "string \<Rightarrow> slots \<Rightarrow> dialogue_state \<Rightarrow> dialogue_state" where
  "add_assistant_turn text sl st =
     st\<lparr> history := history st @
            [\<lparr> t_role = ''assistant'', t_text = text, t_act_major = None,
               t_act_subtype = None, t_intent = None, t_slots = sl,
               t_mood = None, tool_events = [] \<rparr>] \<rparr>"

subsection \<open>Tool events\<close>

definition boot_turn :: turn where
  "boot_turn = \<lparr> t_role = ''system'', t_text = ''boot'', t_act_major = None,
     t_act_subtype = None, t_intent = None, t_slots = Map.empty, t_mood = None,
     tool_events = [] \<rparr>"

definition attach_tool_event :: "tool_event \<Rightarrow> dialogue_state \<Rightarrow> dialogue_state" where
  "attach_tool_event ev st =
     (let h = (if history st = [] then [boot_turn] else history st);
          t = last h
      in st\<lparr> history := butlast h @ [t\<lparr> tool_events := tool_events t @ [ev] \<rparr>] \<rparr>)"

definition log_db_result :: "string \<Rightarrow> row \<Rightarrow> row list \<Rightarrow> int \<Rightarrow> string option \<Rightarrow>
    dialogue_state \<Rightarrow> dialogue_state" where
  "log_db_result sql params rows elapsed_ms error st =
     attach_tool_event
       \<lparr> ev_source = ''db'', ev_subtype = ''select'',
         ev_request = (''sql'', PStr sql) # params,
         ev_response_rows = rows, ev_response_count = length rows,
         ev_elapsed_ms = elapsed_ms,
         ev_error = (case error of None \<Rightarrow> [] | Some e \<Rightarrow> e) \<rparr> st"

text \<open>\<open>xs[-5:]\<close> for the rolling facts list.\<close>

definition last5 :: "'a list \<Rightarrow> 'a list" where
  "last5 xs = drop (length xs - 5) xs"

definition log_kg_result :: "string \<Rightarrow> kg_row list \<Rightarrow> int \<Rightarrow> string option \<Rightarrow>
    dialogue_state \<Rightarrow> dialogue_state" where
  "log_kg_result sparql bindings elapsed_ms error st =
     (let st1 = st\<lparr> last_kg_rows := bindings \<rparr>;
          st2 = attach_tool_event
                  \<lparr> ev_source = ''kg'', ev_subtype = ''sparql'',
                    ev_request = [(''query'', PStr sparql)],
                    ev_response_rows = map (map (\<lambda>(k, v). (k, PStr v))) bindings,
                    ev_response_count = length bindings,
                    ev_elapsed_ms = elapsed_ms,
                    ev_error = (case error of None \<Rightarrow> [] | Some e \<Rightarrow> e) \<rparr> st1
      in st2\<lparr> recent_facts_kg := last5 (recent_facts_kg st2 @ [length (last_kg_rows st2)]) \<rparr>)"

subsection \<open>Onboarding and identity\<close>

definition needs_onboarding :: "dialogue_state \<Rightarrow> bool" where
  "needs_onboarding st =
     (up_privacy_mode (user_profile st) = ''ask''
      \<and> \<not> up_verified (user_profile st)
      \<and> \<not> asked_name_once st)"

text \<open>\<open>a or b\<close> on optional strings: \<open>a\<close> when it is a non-empty string, else \<open>b\<close>.\<close>

definition str_or :: "string option \<Rightarrow> string option \<Rightarrow> string option" where
  "str_or a b = (case a of None \<Rightarrow> b | Some s \<Rightarrow> if s = [] then b else Some s)"

text \<open>\<open>bool(staff_id)\<close>: false for \<open>None\<close> and for the identifier \<open>0\<close>.\<close>

definition bool_of_id :: "int option \<Rightarrow> bool" where
  "bool_of_id i = (case i of None \<Rightarrow> False | Some n \<Rightarrow> n \<noteq> 0)"

definition update_user_identity ::
  "string option \<Rightarrow> int option \<Rightarrow> string option \<Rightarrow> int option \<Rightarrow> string option \<Rightarrow> string \<Rightarrow>
   dialogue_state \<Rightarrow> dialogue_state" where
  "update_user_identity name staff_id role role_level department privacy_mode st =
     (let up0 = user_profile st;
          up1 = up0\<lparr> up_name := str_or name (up_name up0),
                     up_staff_id := staff_id,
                     up_role := str_or role (up_role up0),
                     up_role_level := role_level,
                     up_department := department,
                     up_verified := bool_of_id staff_id,
                     up_privacy_mode := privacy_mode \<rparr>;
          asked = (if up_verified up1 \<or> privacy_mode = ''anonymous'' then True
                   else asked_name_once st);
          lvl = (case role_level of None \<Rightarrow> 99 | Some l \<Rightarrow> l);
          up2 = (if privacy_mode = ''anonymous'' \<or> \<not> up_verified up1
                 then up1\<lparr> up_tone := ''neutral'', up_verbosity := ''normal'', up_price_band := ''mid'' \<rparr>
                 else if lvl \<le> 2
                 then up1\<lparr> up_tone := ''formal'', up_verbosity := ''brief'', up_price_band := ''premium'' \<rparr>
                 else if lvl \<le> 4
                 then up1\<lparr> up_tone := ''neutral'', up_verbosity := ''normal'', up_price_band := ''mid'' \<rparr>
                 else up1\<lparr> up_tone := ''casual'', up_verbosity := ''detailed'', up_price_band := ''budget'' \<rparr>)
      in st\<lparr> user_profile := up2, asked_name_once := asked \<rparr>)"


section \<open>Text helpers\<close>

text \<open>
  Python strings are sequences of code points. The model covers the code points
  \<open>0..255\<close> (Latin-1), one \<open>char\<close> each. \<open>str.lower\<close> maps \<open>A-Z\<close> and the
  accented capitals \<open>0xC0-0xD6\<close>, \<open>0xD8-0xDE\<close> to the code point 32 above and leaves
  every other code point of this range alone.
\<close>

definition lower_char :: "char \<Rightarrow> char" where
  "lower_char c =
     (let n = (of_char c :: nat)
      in if (65 \<le> n \<and> n \<le> 90) \<or> (192 \<le> n \<and> n \<le> 214) \<or> (216 \<le> n \<and> n \<le> 222)
         then char_of (n + 32) else c)"

definition lower :: "string \<Rightarrow> string" where
  "lower s = map lower_char s"

primrec starts_with :: "string \<Rightarrow> string \<Rightarrow> bool" where
  "starts_with [] s = True"
| "starts_with (p # ps) s = (case s of [] \<Rightarrow> False | c # cs \<Rightarrow> p = c \<and> starts_with ps cs)"

text \<open>\<open>sub in s\<close> on strings: \<open>sub\<close> occurs as a contiguous substring.\<close>

primrec contains :: "string \<Rightarrow> string \<Rightarrow> bool" where
  "contains sub [] = (sub = [])"
| "contains sub (c # cs) = (starts_with sub (c # cs) \<or> contains sub cs)"

subsection \<open>Topic and entity tracking\<close>

text \<open>
  \<open>_topic_fingerprint\<close> joins \<open>str((k, slots.get(k)))\<close> over seven fixed keys and
  hashes the text with BLAKE2b. The first key is the literal \<open>"intent"\<close>, looked up in the
  slot map like the others; the \<open>intent\<close> argument is not read. The hash is an external
  library function: it is the parameter \<open>H\<close>, applied to the list of pairs that the
  joined text renders.
\<close>

type_synonym hashfn = "(string \<times> pyval) list \<Rightarrow> string"

definition fingerprint_keys :: "string list" where
  "fingerprint_keys = [''intent'', ''type'', ''neighborhood'', ''place'', ''person'', ''date'', ''time'']"

definition topic_fingerprint :: "hashfn \<Rightarrow> string \<Rightarrow> slots \<Rightarrow> string" where
  "topic_fingerprint H intent sl = H (map (\<lambda>k. (k, sget sl k)) fingerprint_keys)"

definition domain_intents :: "string list" where
  "domain_intents = [''food_search'', ''db_query'', ''place_info'']"

definition domain_keys :: "string list" where
  "domain_keys = [''type'', ''neighborhood'', ''cuisine'', ''near'',
     ''wifi'', ''outdoor'', ''veggie'', ''alcohol'',
     ''reservations'', ''payment'', ''open_now'',
     ''price_min'', ''price_max'', ''rating_min'', ''limit'', ''sort'',
     ''date'', ''time'', ''person'', ''place'']"

text \<open>The first block of \<open>update_topics_and_entities\<close>: last-write-wins entity memory.\<close>

definition track_entities :: "slots \<Rightarrow> entities \<Rightarrow> entities" where
  "track_entities sl le =
     (let le1 = (if truthy (sget sl ''person'') then le\<lparr> le_person := sget sl ''person'' \<rparr> else le);
          le2 = (if truthy (sget sl ''place'') then le1\<lparr> le_place := sget sl ''place'' \<rparr> else le1)
      in if truthy (sget sl ''type'') \<or> truthy (sget sl ''neighborhood'')
         then le2\<lparr> le_venue := Some \<lparr> v_type = sget sl ''type'',
                                       v_neighborhood = sget sl ''neighborhood'',
                                       v_cuisine = sget sl ''cuisine'' \<rparr> \<rparr>
         else le2)"

text \<open>The normal topic shift: pop every domain key and empty both caches.\<close>

definition clear_topic :: "dialogue_state \<Rightarrow> dialogue_state" where
  "clear_topic st =
     st\<lparr> slots := (\<lambda>k. if k \<in> set domain_keys then None else slots st k),
         last_kg_rows := [],
         kg_detail_cache := [],
         next_expected := None \<rparr>"

definition update_topics_and_entities :: "hashfn \<Rightarrow> string \<Rightarrow> slots \<Rightarrow> dialogue_state \<Rightarrow> dialogue_state" where
  "update_topics_and_entities H intent sl st =
     (let st1 = st\<lparr> last_entities := track_entities sl (last_entities st) \<rparr>;
          has_domain = list_ex (has_key sl) domain_keys;
          topical = (intent \<in> set domain_intents \<or> has_domain)
      in if \<not> topical then st1
         else
           let new_topic = topic_fingerprint H intent sl;
               shifted = (topic_id st1 \<noteq> None \<and> topic_id st1 \<noteq> Some new_topic);
               st2 = (if shifted
                      then (let introduced_conflict =
                                  list_ex (\<lambda>k. truthy (sget sl k)) [''type'', ''neighborhood'', ''cuisine'']
                            in if \<not> (intent = ''place_info'' \<and> \<not> introduced_conflict)
                               then clear_topic st1 else st1)
                      else st1)
           in st2\<lparr> topic_id := Some new_topic \<rparr>)"

subsection \<open>Reference resolution\<close>

text \<open>
  \<open>resolve_references\<close> writes into the dictionary it is given and returns it; it has
  no assignment to a field of the state. The model returns the augmented slot map
  together with the state the method leaves behind.
\<close>

definition resolve_references :: "string \<Rightarrow> slots \<Rightarrow> dialogue_state \<Rightarrow> slots \<times> dialogue_state" where
  "resolve_references text sl st =
     (let t = lower text;
          le = last_entities st;
          sl1 = (if (contains ''him'' t \<or> contains ''her'' t \<or> contains ''them'' t)
                    \<and> \<not> truthy (sget sl ''person'')
                 then (if truthy (le_person le) then sl(''person'' \<mapsto> le_person le) else sl)
                 else sl);
          sl2 = (if (contains ''there'' t \<or> contains ''that place'' t \<or> contains ''it'' t)
                    \<and> \<not> truthy (sget sl1 ''place'') \<and> \<not> truthy (sget sl1 ''neighborhood'')
                 then (case le_venue le of
                         None \<Rightarrow> sl1
                       | Some v \<Rightarrow>
                           let sa = (if truthy (v_neighborhood v)
                                     then sl1(''neighborhood'' \<mapsto> v_neighborhood v) else sl1)
                           in if truthy (v_type v) \<and> \<not> truthy (sget sa ''type'')
                              then sa(''type'' \<mapsto> v_type v) else sa)
                 else sl1)
      in (sl2, st))"

subsection \<open>The router's merge of durable and current slots (core/router.py, step 2)\<close>

text \<open>
  \<open>durable_mem\<close> copies the durable map without the three control keys; the loop then
  overrides it with every current-turn value that is not a control key and passes the
  emptiness test.
\<close>

definition durable_mem :: "slots \<Rightarrow> slots" where
  "durable_mem durable = (\<lambda>k. if k \<in> set [''confirm'', ''cancel'', ''act_subtype''] then None else durable k)"

definition merged_slots :: "slots \<Rightarrow> slots \<Rightarrow> slots" where
  "merged_slots durable cur =
     (\<lambda>k. case cur k of
            None \<Rightarrow> durable_mem durable k
          | Some v \<Rightarrow> if k \<notin> set [''confirm'', ''cancel'', ''act_subtype''] \<and> not_empty_value v
                      then Some v else durable_mem durable k)"

section \<open>Specification-side definitions\<close>

text \<open>
  The tier table as the specification words it: anonymous or unverified gives
  neutral/normal/mid; otherwise role level at most 2 gives formal/brief/premium, 3 to 4
  gives neutral/normal/mid, and 5 or more, or no role level, gives casual/detailed/budget.
\<close>

definition tier_table :: "bool \<Rightarrow> string \<Rightarrow> int option \<Rightarrow> string \<times> string \<times> string" where
  "tier_table verified privacy role_level =
     (if privacy = ''anonymous'' \<or> \<not> verified then (''neutral'', ''normal'', ''mid'')
      else case role_level of
             None \<Rightarrow> (''casual'', ''detailed'', ''budget'')
           | Some l \<Rightarrow> if l \<le> 2 then (''formal'', ''brief'', ''premium'')
                       else if 3 \<le> l \<and> l \<le> 4 then (''neutral'', ''normal'', ''mid'')
                       else (''casual'', ''detailed'', ''budget''))"

definition derived_prefs :: "dialogue_state \<Rightarrow> string \<times> string \<times> string" where
  "derived_prefs st =
     (up_tone (user_profile st), up_verbosity (user_profile st), up_price_band (user_profile st))"

text \<open>
  A state after a listing of bars: the durable map remembers \<open>type = "bar"\<close>, the cache
  holds the listed row, and the stored fingerprint is the BLAKE2b digest of the
  signature of \<open>{type: bar, neighborhood: Plaka}\<close>, the topic of the turn before.
\<close>

definition bar_listing_state :: dialogue_state where
  "bar_listing_state =
     new_state\<lparr> slots := [''type'' \<mapsto> PStr ''bar''],
                topic_id := Some ''588912d9876485ed'',
                last_kg_rows := [[(''label'', ''Bar 7'')]] \<rparr>"

text \<open>
  The four BLAKE2b digests (8 bytes, hexadecimal) used in the example, as a table; every
  other signature is sent to a string that is no digest.
\<close>

definition blake2b_known :: hashfn where
  "blake2b_known sg =
     (if sg = map (\<lambda>k. (k, sget [''type'' \<mapsto> PStr ''cafe'', ''neighborhood'' \<mapsto> PStr ''Plaka''] k)) fingerprint_keys
      then ''d26a8360d7aa629e''
      else if sg = map (\<lambda>k. (k, sget [''type'' \<mapsto> PStr ''bar'', ''neighborhood'' \<mapsto> PStr ''Plaka''] k)) fingerprint_keys
      then ''588912d9876485ed''
      else if sg = map (\<lambda>k. (k, sget [''type'' \<mapsto> PStr ''bar''] k)) fingerprint_keys
      then ''31fa5a260a8d95d5''
      else if sg = map (\<lambda>k. (k, sget Map.empty k)) fingerprint_keys
      then ''86937e246b3b224c''
      else ''unknown'')"

text \<open>
  The two turns that lead to \<open>bar_listing_state\<close>: "cafes in plaka", then "bars" and the
  listing the knowledge graph logs for it. Each turn is the router's sequence on the
  state: \<open>update_topics_and_entities\<close> on the merged map, then \<open>add_user_turn\<close>.
\<close>

definition cafes_in_plaka_slots :: slots where
  "cafes_in_plaka_slots = [''act_subtype'' \<mapsto> PStr ''STATE'', ''type'' \<mapsto> PStr ''cafe'',
                           ''neighborhood'' \<mapsto> PStr ''Plaka'']"

definition bars_slots :: slots where
  "bars_slots = [''act_subtype'' \<mapsto> PStr ''STATE'', ''type'' \<mapsto> PStr ''bar'']"

definition after_cafes :: dialogue_state where
  "after_cafes =
     add_user_turn ''cafes in plaka'' ''CONSTATIVE'' (Some ''STATE'') ''food_search''
       cafes_in_plaka_slots ''neutral''
       (update_topics_and_entities blake2b_known ''food_search''
          (merged_slots (slots new_state) cafes_in_plaka_slots) new_state)"

definition after_bars :: dialogue_state where
  "after_bars =
     log_kg_result ''SELECT ...'' [[(''label'', ''Bar 7'')]] 25 None
       (add_user_turn ''bars'' ''CONSTATIVE'' (Some ''STATE'') ''food_search'' bars_slots ''neutral''
          (update_topics_and_entities blake2b_known ''food_search''
             (merged_slots (slots after_cafes) bars_slots) after_cafes))"

definition pronoun_in :: "string \<Rightarrow> bool" where
  "pronoun_in text = (contains ''him'' (lower text) \<or> contains ''her'' (lower text) \<or> contains ''them'' (lower text))"

definition deictic_in :: "string \<Rightarrow> bool" where
  "deictic_in text = (contains ''there'' (lower text) \<or> contains ''that place'' (lower text) \<or> contains ''it'' (lower text))"

text \<open>A state that remembers the venue of "Find cheap bars in Kolonaki".\<close>

definition kolonaki_state :: dialogue_state where
  "kolonaki_state = new_state\<lparr> last_entities := \<lparr> le_person = PNone, le_place = PNone,
       le_venue = Some \<lparr> v_type = PStr ''bar'', v_neighborhood = PStr ''Kolonaki'', v_cuisine = PNone \<rparr> \<rparr> \<rparr>"

section \<open>Regular expressions (Python's \<open>re\<close>, the part the source uses)\<close>

text \<open>
  Character classes on the code points \<open>0..255\<close>, as Python's Unicode tables give them:
  \<open>\d\<close> is \<open>0-9\<close>; \<open>\s\<close> (also the white space of \<open>str.strip\<close> and \<open>str.split\<close>) is
  \<open>0x09-0x0D\<close>, \<open>0x1C-0x20\<close>, \<open>0x85\<close>, \<open>0xA0\<close>; \<open>\w\<close> is every alphanumeric code
  point and the underscore.
\<close>

definition upper_char :: "char \<Rightarrow> char" where
  "upper_char c =
     (let n = (of_char c :: nat)
      in if (97 \<le> n \<and> n \<le> 122) \<or> (224 \<le> n \<and> n \<le> 246) \<or> (248 \<le> n \<and> n \<le> 254)
         then char_of (n - 32) else c)"

definition is_digit :: "char \<Rightarrow> bool" where
  "is_digit c = (let n = (of_char c :: nat) in 48 \<le> n \<and> n \<le> 57)"

definition is_space :: "char \<Rightarrow> bool" where
  "is_space c =
     (let n = (of_char c :: nat)
      in (9 \<le> n \<and> n \<le> 13) \<or> (28 \<le> n \<and> n \<le> 32) \<or> n = 133 \<or> n = 160)"

definition is_word :: "char \<Rightarrow> bool" where
  "is_word c =
     (let n = (of_char c :: nat)
      in (48 \<le> n \<and> n \<le> 57) \<or> (65 \<le> n \<and> n \<le> 90) \<or> n = 95 \<or> (97 \<le> n \<and> n \<le> 122)
         \<or> n = 170 \<or> n = 178 \<or> n = 179 \<or> n = 181 \<or> n = 185 \<or> n = 186
         \<or> (188 \<le> n \<and> n \<le> 190) \<or> (192 \<le> n \<and> n \<le> 214) \<or> (216 \<le> n \<and> n \<le> 246)
         \<or> 248 \<le> n)"

datatype cset = CChar char | CRange char char | CDigit | CSpace | CWord

fun in_cset :: "char \<Rightarrow> cset \<Rightarrow> bool" where
  "in_cset d (CChar c) = (d = c)"
| "in_cset d (CRange a b) = ((of_char a :: nat) \<le> of_char d \<and> (of_char d :: nat) \<le> of_char b)"
| "in_cset d CDigit = is_digit d"
| "in_cset d CSpace = is_space d"
| "in_cset d CWord = is_word d"

text \<open>
  With \<open>re.I\<close> a literal matches a character with the same lower case, and a set
  matches a character whose lower case or upper case is in it.
\<close>

definition set_match :: "bool \<Rightarrow> cset list \<Rightarrow> char \<Rightarrow> bool" where
  "set_match ic cs d =
     (if ic then list_ex (in_cset (lower_char d)) cs \<or> list_ex (in_cset (upper_char d)) cs
      else list_ex (in_cset d) cs)"

definition lit_match :: "bool \<Rightarrow> char \<Rightarrow> char \<Rightarrow> bool" where
  "lit_match ic c d = (if ic then lower_char d = lower_char c else d = c)"

text \<open>
  The syntax: literals (\<open>Str\<close> is a run of literals), \<open>.\<close>, sets \<open>[...]\<close> and \<open>[^...]\<close>,
  sequence, alternation, the greedy quantifiers \<open>*\<close>, \<open>+\<close>, \<open>?\<close>, \<open>{lo,hi}\<close>, capturing
  groups numbered as \<open>re\<close> numbers them, \<open>\b\<close>, \<open>^\<close> and \<open>$\<close>.
\<close>

datatype rx =
    Lit char | Str string | AnyCh | Set "cset list" | NSet "cset list"
  | Eps | Seq rx rx | Alt rx rx
  | Star rx | Plus rx | Opt rx | Rep nat nat rx
  | Grp nat rx
  | WordB | Bol | Eol

text \<open>
  A matcher state: the character before the current position (none at the start of the
  text), the text still to be read, and the groups captured so far, newest first.
\<close>

record mst =
  prev :: "char option"
  rest :: string
  caps :: "(nat \<times> string) list"

text \<open>
  \<open>rx_run ic r m\<close> lists the states in which a match of \<open>r\<close> started at \<open>m\<close> can end,
  in the order in which the backtracking matcher of \<open>re\<close> tries them: the left branch of
  an alternation before the right one, one more round of a greedy quantifier before
  stopping. The first element is the match \<open>re\<close> reports at that start position.
\<close>

primrec str_run :: "bool \<Rightarrow> string \<Rightarrow> mst \<Rightarrow> mst list" where
  "str_run ic [] m = [m]"
| "str_run ic (c # cs) m =
     (case rest m of
        [] \<Rightarrow> []
      | d # ds \<Rightarrow> if lit_match ic c d then str_run ic cs (m\<lparr> prev := Some d, rest := ds \<rparr>) else [])"

definition one_char :: "(char \<Rightarrow> bool) \<Rightarrow> mst \<Rightarrow> mst list" where
  "one_char P m =
     (case rest m of
        [] \<Rightarrow> []
      | d # ds \<Rightarrow> if P d then [m\<lparr> prev := Some d, rest := ds \<rparr>] else [])"

definition word_before :: "mst \<Rightarrow> bool" where
  "word_before m = (case prev m of None \<Rightarrow> False | Some c \<Rightarrow> is_word c)"

definition word_after :: "mst \<Rightarrow> bool" where
  "word_after m = (case rest m of [] \<Rightarrow> False | c # _ \<Rightarrow> is_word c)"

text \<open>
  A round of \<open>*\<close> or \<open>+\<close> that reads nothing ends the repetition, so the number of rounds
  is at most the length of the remaining text, which is the fuel given to \<open>star_run\<close>.
\<close>

primrec star_run :: "(mst \<Rightarrow> mst list) \<Rightarrow> nat \<Rightarrow> mst \<Rightarrow> mst list" where
  "star_run f 0 m = [m]"
| "star_run f (Suc n) m =
     concat (map (star_run f n) (filter (\<lambda>m'. length (rest m') < length (rest m)) (f m))) @ [m]"

primrec rep_run :: "(mst \<Rightarrow> mst list) \<Rightarrow> nat \<Rightarrow> nat \<Rightarrow> mst \<Rightarrow> mst list" where
  "rep_run f 0 lo m = (if lo = 0 then [m] else [])"
| "rep_run f (Suc h) lo m =
     concat (map (rep_run f h (lo - 1)) (f m)) @ (if lo = 0 then [m] else [])"

primrec rx_run :: "bool \<Rightarrow> rx \<Rightarrow> mst \<Rightarrow> mst list" where
  "rx_run ic (Lit c) = one_char (lit_match ic c)"
| "rx_run ic (Str s) = str_run ic s"
| "rx_run ic AnyCh = one_char (\<lambda>d. d \<noteq> CHR 0x0A)"
| "rx_run ic (Set cs) = one_char (set_match ic cs)"
| "rx_run ic (NSet cs) = one_char (\<lambda>d. \<not> set_match ic cs d)"
| "rx_run ic Eps = (\<lambda>m. [m])"
| "rx_run ic (Seq a b) = (\<lambda>m. concat (map (rx_run ic b) (rx_run ic a m)))"
| "rx_run ic (Alt a b) = (\<lambda>m. rx_run ic a m @ rx_run ic b m)"
| "rx_run ic (Star a) = (\<lambda>m. star_run (rx_run ic a) (length (rest m)) m)"
| "rx_run ic (Plus a) =
     (\<lambda>m. concat (map (\<lambda>m'. star_run (rx_run ic a) (length (rest m')) m') (rx_run ic a m)))"
| "rx_run ic (Opt a) = (\<lambda>m. rx_run ic a m @ [m])"
| "rx_run ic (Rep lo hi a) = rep_run (rx_run ic a) hi lo"
| "rx_run ic (Grp n a) =
     (\<lambda>m. map (\<lambda>m'. m'\<lparr> caps := (n, take (length (rest m) - length (rest m')) (rest m)) # caps m' \<rparr>)
               (rx_run ic a m))"
| "rx_run ic WordB = (\<lambda>m. if word_before m \<noteq> word_after m then [m] else [])"
| "rx_run ic Bol = (\<lambda>m. if prev m = None then [m] else [])"
| "rx_run ic Eol = (\<lambda>m. if rest m = [] \<or> rest m = [CHR 0x0A] then [m] else [])"

text \<open>A pattern character that no modelled text contains.\<close>

definition no_char :: rx where
  "no_char = NSet [CRange (CHR 0x00) (CHR 0xFF)]"

definition seqs :: "rx list \<Rightarrow> rx" where
  "seqs rs = foldr Seq rs Eps"

primrec alts :: "rx list \<Rightarrow> rx" where
  "alts [] = no_char"
| "alts (r # rs) = (if rs = [] then r else Alt r (alts rs))"

text \<open>
  \<open>pattern.search(s)\<close>: the first match at the leftmost position that has one. The
  result is the state at the end of the match; \<open>m_start\<close> is the number of characters
  before it.
\<close>

record found =
  m_start :: nat
  m_end :: mst

primrec search_from :: "bool \<Rightarrow> rx \<Rightarrow> nat \<Rightarrow> char option \<Rightarrow> string \<Rightarrow> found option" where
  "search_from ic r i p [] =
     (case rx_run ic r \<lparr> prev = p, rest = [], caps = [] \<rparr> of
        [] \<Rightarrow> None
      | m # _ \<Rightarrow> Some \<lparr> m_start = i, m_end = m \<rparr>)"
| "search_from ic r i p (c # cs) =
     (case rx_run ic r \<lparr> prev = p, rest = c # cs, caps = [] \<rparr> of
        [] \<Rightarrow> search_from ic r (Suc i) (Some c) cs
      | m # _ \<Rightarrow> Some \<lparr> m_start = i, m_end = m \<rparr>)"

definition rx_search :: "bool \<Rightarrow> rx \<Rightarrow> string \<Rightarrow> found option" where
  "rx_search ic r s = search_from ic r 0 None s"

text \<open>\<open>bool(PAT.search(s))\<close> for a pattern compiled with \<open>re.I\<close>.\<close>

definition matches :: "rx \<Rightarrow> string \<Rightarrow> bool" where
  "matches r s = (rx_search True r s \<noteq> None)"

text \<open>\<open>m.group(n)\<close>: \<open>None\<close> when the group took no part in the match.\<close>

definition grp :: "found \<Rightarrow> nat \<Rightarrow> string option" where
  "grp m n = map_of (caps (m_end m)) n"

text \<open>\<open>re.fullmatch\<close>: the first way to match from the start that reads the whole text.\<close>

definition rx_fullmatch :: "bool \<Rightarrow> rx \<Rightarrow> string \<Rightarrow> found option" where
  "rx_fullmatch ic r s =
     (case filter (\<lambda>m. rest m = []) (rx_run ic r \<lparr> prev = None, rest = s, caps = [] \<rparr>) of
        [] \<Rightarrow> None
      | m # _ \<Rightarrow> Some \<lparr> m_start = 0, m_end = m \<rparr>)"

text \<open>
  \<open>pattern.sub(repl, s)\<close>: every match, found left to right and not overlapping an
  earlier one, is replaced by \<open>repl\<close>. Every pattern it is used with needs at least one
  character to match, so the rule of \<open>re.sub\<close> for empty matches is not modelled: an
  empty match replaces nothing. \<open>skip\<close> counts the characters of the current match that
  are still to be dropped.
\<close>

primrec sub_walk :: "bool \<Rightarrow> rx \<Rightarrow> string \<Rightarrow> char option \<Rightarrow> nat \<Rightarrow> string \<Rightarrow> string" where
  "sub_walk ic r repl p skip [] = []"
| "sub_walk ic r repl p skip (c # cs) =
     (if 0 < skip then sub_walk ic r repl (Some c) (skip - 1) cs
      else case rx_run ic r \<lparr> prev = p, rest = c # cs, caps = [] \<rparr> of
             [] \<Rightarrow> c # sub_walk ic r repl (Some c) 0 cs
           | m # _ \<Rightarrow>
               let n = length (c # cs) - length (rest m)
               in if n = 0 then c # sub_walk ic r repl (Some c) 0 cs
                  else repl @ sub_walk ic r repl (Some c) (n - 1) cs)"

definition rx_sub :: "bool \<Rightarrow> rx \<Rightarrow> string \<Rightarrow> string \<Rightarrow> string" where
  "rx_sub ic r repl s = sub_walk ic r repl None 0 s"

subsection \<open>String methods\<close>

text \<open>\<open>s.strip()\<close>.\<close>

definition lstrip :: "string \<Rightarrow> string" where
  "lstrip s = dropWhile is_space s"

definition strip :: "string \<Rightarrow> string" where
  "strip s = rev (dropWhile is_space (rev (dropWhile is_space s)))"

text \<open>A text that is empty or neither starts nor ends with white space: a fixed point of \<open>strip\<close>.\<close>

definition clean_edges :: "string \<Rightarrow> bool" where
  "clean_edges s = (s = [] \<or> (\<not> is_space (hd s) \<and> \<not> is_space (last s)))"

text \<open>\<open>s.split()\<close>: the maximal runs of characters that are not white space.\<close>

primrec split_acc :: "string \<Rightarrow> string \<Rightarrow> string list" where
  "split_acc cur [] = (if cur = [] then [] else [rev cur])"
| "split_acc cur (c # cs) =
     (if is_space c then (if cur = [] then split_acc [] cs else rev cur # split_acc [] cs)
      else split_acc (c # cur) cs)"

definition split_ws :: "string \<Rightarrow> string list" where
  "split_ws s = split_acc [] s"

text \<open>
  \<open>s.title()\<close>: a letter is put in upper case when the character before it is not a
  letter, in lower case otherwise.
\<close>

definition is_alpha :: "char \<Rightarrow> bool" where
  "is_alpha c =
     (let n = (of_char c :: nat)
      in (65 \<le> n \<and> n \<le> 90) \<or> (97 \<le> n \<and> n \<le> 122) \<or> n = 170 \<or> n = 181 \<or> n = 186
         \<or> (192 \<le> n \<and> n \<le> 214) \<or> (216 \<le> n \<and> n \<le> 246) \<or> 248 \<le> n)"

primrec title_from :: "bool \<Rightarrow> string \<Rightarrow> string" where
  "title_from after_letter [] = []"
| "title_from after_letter (c # cs) =
     (if is_alpha c
      then (if after_letter then lower_char c else upper_char c) # title_from True cs
      else c # title_from False cs)"

definition title :: "string \<Rightarrow> string" where
  "title s = title_from False s"

subsection \<open>Conversions that can raise\<close>

datatype error = TypeError | ValueError

definition digit_val :: "char \<Rightarrow> int" where
  "digit_val c = int (of_char c) - 48"

definition digits_val :: "string \<Rightarrow> int" where
  "digits_val s = foldl (\<lambda>acc c. 10 * acc + digit_val c) 0 s"

text \<open>
  \<open>int(x)\<close> for \<open>x\<close> a captured group: \<open>TypeError\<close> when \<open>x\<close> is \<open>None\<close>, the decimal value
  when \<open>x\<close> is a non-empty string of digits (all a group of digits can hold).
\<close>

definition py_int :: "string option \<Rightarrow> error + int" where
  "py_int x =
     (case x of
        None \<Rightarrow> Inl TypeError
      | Some s \<Rightarrow> if s \<noteq> [] \<and> list_all is_digit s then Inr (digits_val s) else Inl ValueError)"

text \<open>\<open>float(x)\<close> for the group \<open>\d(?:\.\d)?\<close>: one digit, or digit, point, digit.\<close>

definition py_float :: "string option \<Rightarrow> error + rat" where
  "py_float x =
     (case x of
        None \<Rightarrow> Inl TypeError
      | Some s \<Rightarrow>
          (case s of
             [a] \<Rightarrow> if is_digit a then Inr (of_int (digit_val a)) else Inl ValueError
           | [a, p, b] \<Rightarrow>
               if is_digit a \<and> p = CHR ''.'' \<and> is_digit b
               then Inr (of_int (digit_val a) + of_int (digit_val b) / 10)
               else Inl ValueError
           | _ \<Rightarrow> Inl ValueError))"

subsection \<open>Patterns of features/speech_acts.py\<close>

text \<open>
  Each pattern is the source's regular expression, written as a term of \<open>rx\<close>. All of
  them are compiled with \<open>re.I\<close>. A line \<open>r"..."\<close> quotes the source text; a code
  point above U+00FF is written \<open><U+XXXX>\<close> there and becomes \<open>no_char\<close> in the
  term (inside a character set it is dropped), since no modelled text contains it.
\<close>

definition VENUE_PATTERNS :: "(rx \<times> string) list" where
  "VENUE_PATTERNS =
    [(seqs [WordB, Str ''restaurant'', Opt (Lit (CHR ''s'')), WordB], ''restaurant''),
     (seqs [WordB, Str ''resto'', WordB], ''restaurant''),
     (seqs [WordB, Str ''resturant'', WordB], ''restaurant''),
     (seqs [WordB, Str ''restaraunt'', WordB], ''restaurant''),
     (seqs [WordB, Str ''eat'', alts [Str ''ery'', Str ''eries''], WordB], ''restaurant''),
     (seqs [WordB, Str ''diner'', Opt (Lit (CHR ''s'')), WordB], ''restaurant''),
     (seqs [WordB, Str ''steakhouse'', Opt (Lit (CHR ''s'')), WordB], ''restaurant''),
     (seqs [WordB, Str ''pizzeria'', Opt (Lit (CHR ''s'')), WordB], ''restaurant''),
     (alts [seqs [WordB, Str ''trattoria'', Opt (Lit (CHR ''s'')), WordB], seqs [WordB,
      Str ''trattorie'', WordB]], ''restaurant''),
     (alts [seqs [WordB, Str ''osteria'', Opt (Lit (CHR ''s'')), WordB], seqs [WordB,
      Str ''osterie'', WordB]], ''restaurant''),
     (alts [seqs [WordB, Str ''taverna'', Opt (Lit (CHR ''s'')), WordB], seqs [WordB,
      Str ''tavern'', Opt (Lit (CHR ''s'')), WordB], seqs [WordB, Str ''taverna'', WordB]],
      ''restaurant''),
     (alts [seqs [WordB, Str ''grill'', Star (Set [CSpace]), Str ''house'',
      Opt (Lit (CHR ''s'')), WordB], seqs [WordB, Str ''grill'', Opt (Lit (CHR ''s'')), WordB]],
      ''restaurant''),
     (seqs [WordB, Str ''roasterie'', Opt (Lit (CHR ''s'')), WordB], ''restaurant''),
     (seqs [WordB, Str ''fast'', Star (Set [CSpace]), Str ''food'', WordB], ''restaurant''),
     (alts [seqs [WordB, Str ''take'', Opt (Set [CChar (CHR ''-''), CSpace]), Str ''away'',
      Opt (Lit (CHR ''s'')), WordB], seqs [WordB, Str ''takeout'', Opt (Lit (CHR ''s'')),
      WordB]], ''restaurant''),
     (alts [seqs [WordB, Str ''souvlak'', alts [Lit (CHR ''i''), Str ''ia''], WordB],
      seqs [WordB, Str ''gyr'', Opt (Lit (CHR ''o'')), Opt (Lit (CHR ''s'')), WordB],
      seqs [WordB, Str ''kebab'', Opt (Lit (CHR ''s'')), WordB], seqs [WordB, Str ''meze'',
      Opt (Grp 1 (Str ''dopolio'')), WordB], seqs [WordB, Str ''mezz'', Opt (Lit (CHR ''e'')),
      WordB]], ''restaurant''),
     (seqs [WordB, Str ''brasserie'', Opt (Lit (CHR ''s'')), WordB], ''restaurant''),
     (seqs [WordB, Str ''bistro'', Opt (Lit (CHR ''s'')), WordB], ''restaurant''),
     (seqs [WordB, Str ''food'', WordB], ''restaurant''),
     (seqs [WordB, Str ''caf'', alts [Lit (CHR ''e''), Lit (CHR 0xE9)], Opt (Lit (CHR ''s'')),
      WordB], ''cafe''),
     (seqs [WordB, Str ''coffee'', Star (Set [CSpace]), Str ''shop'', Opt (Lit (CHR ''s'')),
      WordB], ''cafe''),
     (seqs [WordB, Str ''coffee'', Opt (Lit (CHR ''s'')), WordB], ''cafe''),
     (seqs [WordB, Str ''espresso'', Star (Set [CSpace]), Str ''bar'', Opt (Lit (CHR ''s'')),
      WordB], ''cafe''),
     (alts [seqs [WordB, Str ''brunch'', WordB], seqs [WordB, Str ''breakfast'', WordB]],
      ''cafe''),
     (alts [seqs [WordB, Str ''bakerie'', Opt (Lit (CHR ''s'')), WordB], seqs [WordB,
      Str ''patisserie'', Opt (Lit (CHR ''s'')), WordB], seqs [WordB, Str ''pastry'',
      Star (Set [CSpace]), Str ''shop'', Opt (Lit (CHR ''s'')), WordB], seqs [WordB,
      Str ''confectioner'', Opt (Lit (CHR ''y'')), WordB]], ''cafe''),
     (alts [seqs [WordB, Str ''gelateria'', Opt (Lit (CHR ''s'')), WordB], seqs [WordB,
      Str ''ice'', Star (Set [CSpace]), Str ''cream'', WordB], seqs [WordB, Str ''dessert'',
      Star (Set [CSpace]), Str ''bar'', Opt (Lit (CHR ''s'')), WordB], seqs [WordB,
      Str ''creperie'', Opt (Lit (CHR ''s'')), WordB], seqs [WordB, Str ''bagel'',
      Opt (Lit (CHR ''s'')), WordB], seqs [WordB, Str ''donut'', Opt (Lit (CHR ''s'')), WordB]],
      ''cafe''),
     (seqs [WordB, Str ''cafeteria'', Opt (Lit (CHR ''s'')), WordB], ''cafe''),
     (seqs [WordB, Str ''bar'', Opt (Lit (CHR ''s'')), WordB], ''bar''),
     (seqs [WordB, Str ''pub'', Opt (Lit (CHR ''s'')), WordB], ''bar''),
     (alts [seqs [WordB, Str ''brewer'', alts [Lit (CHR ''y''), Str ''ies''], WordB],
      seqs [WordB, Str ''taproom'', Opt (Lit (CHR ''s'')), WordB]], ''bar''),
     (seqs [WordB, Str ''wine'', Star (Set [CSpace]), Str ''bar'', Opt (Lit (CHR ''s'')),
      WordB], ''bar''),
     (alts [seqs [WordB, Str ''cocktail'', Star (Set [CSpace]), Str ''bar'',
      Opt (Lit (CHR ''s'')), WordB], seqs [WordB, Str ''cocktail'', Opt (Lit (CHR ''s'')),
      WordB]], ''bar''),
     (seqs [WordB, Str ''outlet'', WordB, Star AnyCh, WordB, Str ''drink'',
      Opt (Lit (CHR ''s'')), WordB], ''bar''),
     (alts [seqs [WordB, Str ''ouzeri'', Opt (Lit (CHR ''s'')), WordB], seqs [WordB,
      Str ''ouzeries'', WordB], seqs [WordB, Str ''ouzeria'', Opt (Lit (CHR ''s'')), WordB]],
      ''bar''),
     (seqs [WordB, Str ''lounge'', Opt (Lit (CHR ''s'')), WordB], ''bar'')]"

definition NEIGHBORHOOD_ALIASES :: "(rx \<times> string) list" where
  "NEIGHBORHOOD_ALIASES =
    [(seqs [WordB, Str ''syntagma'', Opt (Grp 1 (seqs [Plus (Set [CSpace]), Str ''square''])),
      WordB], ''Syntagma''),
     (alts [seqs [WordB, Str ''pl'', Lit (CHR 0xE1), Str ''ka'', WordB], seqs [WordB,
      Str ''plaka'', WordB]], ''Plaka''),
     (seqs [WordB, Str ''monastiraki'', WordB], ''Monastiraki''),
     (seqs [WordB, Str ''kolonaki'', WordB], ''Kolonaki''),
     (alts [seqs [WordB, Str ''koukaki'', WordB], seqs [WordB, Str ''kukaki'', WordB]],
      ''Koukaki''),
     (alts [seqs [WordB, Str ''exarcheia'', WordB], seqs [WordB, Str ''exarchia'', WordB]],
      ''Exarchia''),
     (alts [seqs [WordB, Str ''psiri'', WordB], seqs [WordB, Str ''psyrri'', WordB]],
      ''Psyrri'')]"

text \<open>\<^verbatim>\<open>r"\b(wifi|wi[-\s]?fi|internet)\b"\<close>\<close>

definition WIFI_PAT :: rx where
  "WIFI_PAT =
     seqs [WordB, Grp 1 (alts [Str ''wifi'', seqs [Str ''wi'', Opt (Set [CChar (CHR ''-''),
     CSpace]), Str ''fi''], Str ''internet'']), WordB]"

text \<open>\<^verbatim>\<open>r"\b(outdoor|outside|terrace|patio|garden|sidewalk|veranda)\b"\<close>\<close>

definition OUTDOOR_PAT :: rx where
  "OUTDOOR_PAT =
     seqs [WordB, Grp 1 (alts [Str ''outdoor'', Str ''outside'', Str ''terrace'', Str ''patio'',
     Str ''garden'', Str ''sidewalk'', Str ''veranda'']), WordB]"

text \<open>\<^verbatim>\<open>r"\b(vegan|vegetarian|veg[-\s]?friendly)\b"\<close>\<close>

definition VEGGIE_PAT :: rx where
  "VEGGIE_PAT =
     seqs [WordB, Grp 1 (alts [Str ''vegan'', Str ''vegetarian'', seqs [Str ''veg'',
     Opt (Set [CChar (CHR ''-''), CSpace]), Str ''friendly'']]), WordB]"

text \<open>\<^verbatim>\<open>r"\b(alcohol|drinks?|cocktails?|beer|wine)\b"\<close>\<close>

definition ALCO_PAT :: rx where
  "ALCO_PAT =
     seqs [WordB, Grp 1 (alts [Str ''alcohol'', seqs [Str ''drink'', Opt (Lit (CHR ''s''))],
     seqs [Str ''cocktail'', Opt (Lit (CHR ''s''))], Str ''beer'', Str ''wine'']), WordB]"

text \<open>\<^verbatim>\<open>r"\b(reservations?|book|table|reserve)\b"\<close>\<close>

definition RES_PAT :: rx where
  "RES_PAT =
     seqs [WordB, Grp 1 (alts [seqs [Str ''reservation'', Opt (Lit (CHR ''s''))], Str ''book'',
     Str ''table'', Str ''reserve'']), WordB]"

text \<open>\<^verbatim>\<open>r"\b(cash|visa|mastercard|amex|american express|paypal|card|cards)\b"\<close>\<close>

definition PAY_PAT :: rx where
  "PAY_PAT =
     seqs [WordB, Grp 1 (alts [Str ''cash'', Str ''visa'', Str ''mastercard'', Str ''amex'',
     Str ''american express'', Str ''paypal'', Str ''card'', Str ''cards'']), WordB]"

text \<open>\<^verbatim>\<open>r"\b(open now|open\s*(right\s*)?now|hours|opening)\b"\<close>\<close>

definition OPEN_NOW_PAT :: rx where
  "OPEN_NOW_PAT =
     seqs [WordB, Grp 1 (alts [Str ''open now'', seqs [Str ''open'', Star (Set [CSpace]),
     Opt (Grp 2 (seqs [Str ''right'', Star (Set [CSpace])])), Str ''now''], Str ''hours'',
     Str ''opening'']), WordB]"

text \<open>\<^verbatim>\<open>r"\bnear(by)?\b|\bclose\s*to\b|near me|nearby|close by|around here"\<close>\<close>

definition NEAR_PAT :: rx where
  "NEAR_PAT =
     alts [seqs [WordB, Str ''near'', Opt (Grp 1 (Str ''by'')), WordB], seqs [WordB,
     Str ''close'', Star (Set [CSpace]), Str ''to'', WordB], Str ''near me'', Str ''nearby'',
     Str ''close by'', Str ''around here'']"

text \<open>\<^verbatim>\<open>r"(?:under|below|<|<=|up to|no more than)\s*(\d{1,3})\s*<U+20AC>?\s*"\<close>\<close>

definition PRICE_MAX_PAT :: rx where
  "PRICE_MAX_PAT =
     seqs [alts [Str ''under'', Str ''below'', Lit (CHR ''<''), Str ''<='', Str ''up to'',
     Str ''no more than''], Star (Set [CSpace]), Grp 1 (Rep 1 3 (Set [CDigit])),
     Star (Set [CSpace]), Opt no_char, Star (Set [CSpace])]"

text \<open>\<^verbatim>\<open>r"(\d{1,3})\s*[-<U+2013>]\s*(\d{1,3})\s*<U+20AC>?\s*"\<close>\<close>

definition PRICE_RANGE_PAT :: rx where
  "PRICE_RANGE_PAT =
     seqs [Grp 1 (Rep 1 3 (Set [CDigit])), Star (Set [CSpace]), Set [CChar (CHR ''-'')],
     Star (Set [CSpace]), Grp 2 (Rep 1 3 (Set [CDigit])), Star (Set [CSpace]), Opt no_char,
     Star (Set [CSpace])]"

text \<open>\<^verbatim>\<open>r"(?:rating|stars?)[^\d]{0,6}(\d(?:\.\d)?)"\<close>\<close>

definition RATING_MIN_PAT :: rx where
  "RATING_MIN_PAT =
     seqs [alts [Str ''rating'', seqs [Str ''star'', Opt (Lit (CHR ''s''))]],
     Rep 0 6 (NSet [CDigit]), Grp 1 (seqs [Set [CDigit], Opt (seqs [Lit (CHR ''.''),
     Set [CDigit]])])]"

text \<open>\<^verbatim>\<open>r"\btop\s*(\d{1,2})\b|\bfirst\s*(\d{1,2})\b|\bnext\s*(\d{1,2})\b"\<close>\<close>

definition LIMIT_PAT :: rx where
  "LIMIT_PAT =
     alts [seqs [WordB, Str ''top'', Star (Set [CSpace]), Grp 1 (Rep 1 2 (Set [CDigit])),
     WordB], seqs [WordB, Str ''first'', Star (Set [CSpace]), Grp 2 (Rep 1 2 (Set [CDigit])),
     WordB], seqs [WordB, Str ''next'', Star (Set [CSpace]), Grp 3 (Rep 1 2 (Set [CDigit])),
     WordB]]"

text \<open>\<^verbatim>\<open>r"\b(best|top|highest[-\s]?rated)\b"\<close>\<close>

definition SORT_BEST_PAT :: rx where
  "SORT_BEST_PAT =
     seqs [WordB, Grp 1 (alts [Str ''best'', Str ''top'', seqs [Str ''highest'',
     Opt (Set [CChar (CHR ''-''), CSpace]), Str ''rated'']]), WordB]"

text \<open>\<^verbatim>\<open>r"\b(cheap|cheapest|budget|value|affordable|inexpensive|low[-\s]?cost|good value)\b"\<close>\<close>

definition SORT_CHEAP_PAT :: rx where
  "SORT_CHEAP_PAT =
     seqs [WordB, Grp 1 (alts [Str ''cheap'', Str ''cheapest'', Str ''budget'', Str ''value'',
     Str ''affordable'', Str ''inexpensive'', seqs [Str ''low'', Opt (Set [CChar (CHR ''-''),
     CSpace]), Str ''cost''], Str ''good value'']), WordB]"

definition CUISINE_PATTERNS :: "(string \<times> rx) list" where
  "CUISINE_PATTERNS =
    [(''italian'', seqs [WordB, Str ''italian'', WordB]),
     (''greek'', seqs [WordB, Str ''greek'', WordB]),
     (''japanese'', alts [seqs [WordB, Str ''japanese'', WordB], seqs [WordB, Str ''sushi'',
      WordB]]),
     (''mexican'', seqs [WordB, Str ''mexican'', WordB]),
     (''indian'', seqs [WordB, Str ''indian'', WordB]),
     (''thai'', seqs [WordB, Str ''thai'', WordB]),
     (''chinese'', seqs [WordB, Str ''chinese'', WordB]),
     (''mediterranean'', seqs [WordB, Str ''mediterranean'', WordB]),
     (''seafood'', seqs [WordB, Str ''sea'', Star (Set [CSpace]), Str ''food'', WordB]),
     (''pizza'', seqs [WordB, Str ''pizza'', WordB]),
     (''burgers'', seqs [WordB, Str ''burger'', Opt (Lit (CHR ''s'')), WordB]),
     (''vegan'', seqs [WordB, Str ''vegan'', WordB]),
     (''vegetarian'', seqs [WordB, Str ''vegetarian'', WordB]),
     (''middle eastern'', alts [seqs [WordB, Str ''middle'', Plus (Set [CSpace]),
      Str ''eastern'', WordB], seqs [WordB, Str ''lebanese'', WordB], seqs [WordB,
      Str ''turkish'', WordB]])]"

text \<open>\<^verbatim>\<open>r"\b(tasks?|todo|appointments?|meeting|schedule|calendar|staff|assign|resched|reschedule)\b"\<close>\<close>

definition DB_HARD :: rx where
  "DB_HARD =
     seqs [WordB, Grp 1 (alts [seqs [Str ''task'', Opt (Lit (CHR ''s''))], Str ''todo'',
     seqs [Str ''appointment'', Opt (Lit (CHR ''s''))], Str ''meeting'', Str ''schedule'',
     Str ''calendar'', Str ''staff'', Str ''assign'', Str ''resched'', Str ''reschedule'']),
     WordB]"

text \<open>\<^verbatim>\<open>r"\b(yes|yeah|yep|correct|do it|go ahead|sounds good|ok(ay)?|please proceed)\b"\<close>\<close>

definition CONFIRM_PAT :: rx where
  "CONFIRM_PAT =
     seqs [WordB, Grp 1 (alts [Str ''yes'', Str ''yeah'', Str ''yep'', Str ''correct'',
     Str ''do it'', Str ''go ahead'', Str ''sounds good'', seqs [Str ''ok'',
     Opt (Grp 2 (Str ''ay''))], Str ''please proceed'']), WordB]"

text \<open>\<^verbatim>\<open>r"\b(cancel(?:\s*(?:it|that))?|never[\s\-]?mind|nvm|stop|abort|undo|don'?t\s+(?:do|proceed)|do\s+not\s+(?:do|proceed))\b"\<close>\<close>

definition CANCEL_PAT :: rx where
  "CANCEL_PAT =
     seqs [WordB, Grp 1 (alts [seqs [Str ''cancel'', Opt (seqs [Star (Set [CSpace]),
     alts [Str ''it'', Str ''that'']])], seqs [Str ''never'', Opt (Set [CSpace,
     CChar (CHR ''-'')]), Str ''mind''], Str ''nvm'', Str ''stop'', Str ''abort'', Str ''undo'',
     seqs [Str ''don'', Opt (Lit (CHR 0x27)), Lit (CHR ''t''), Plus (Set [CSpace]),
     alts [Str ''do'', Str ''proceed'']], seqs [Str ''do'', Plus (Set [CSpace]), Str ''not'',
     Plus (Set [CSpace]), alts [Str ''do'', Str ''proceed'']]]), WordB]"

text \<open>\<^verbatim>\<open>r"^(show|find|list|give|tell|check|lookup|look up|filter|summarize|book|schedule|add|create|send|draft)\b"\<close>\<close>

definition IMPERATIVE_VERBS :: rx where
  "IMPERATIVE_VERBS =
     seqs [Bol, Grp 1 (alts [Str ''show'', Str ''find'', Str ''list'', Str ''give'',
     Str ''tell'', Str ''check'', Str ''lookup'', Str ''look up'', Str ''filter'',
     Str ''summarize'', Str ''book'', Str ''schedule'', Str ''add'', Str ''create'',
     Str ''send'', Str ''draft'']), WordB]"

text \<open>\<^verbatim>\<open>r"\b(hey|hello|hi|good\s*(morning|evening|afternoon))\b"\<close>\<close>

definition GREET_PAT :: rx where
  "GREET_PAT =
     seqs [WordB, Grp 1 (alts [Str ''hey'', Str ''hello'', Str ''hi'', seqs [Str ''good'',
     Star (Set [CSpace]), Grp 2 (alts [Str ''morning'', Str ''evening'', Str ''afternoon''])]]),
     WordB]"

text \<open>\<^verbatim>\<open>r"\b(bye|good\s*bye|see\s*you|later|good\s*night)\b"\<close>\<close>

definition GOODBYE_PAT :: rx where
  "GOODBYE_PAT =
     seqs [WordB, Grp 1 (alts [Str ''bye'', seqs [Str ''good'', Star (Set [CSpace]),
     Str ''bye''], seqs [Str ''see'', Star (Set [CSpace]), Str ''you''], Str ''later'',
     seqs [Str ''good'', Star (Set [CSpace]), Str ''night'']]), WordB]"

text \<open>\<^verbatim>\<open>r"\b(yes|y|indeed|of course|correct|sure|okay|ok|sounds good)\b"\<close>\<close>

definition AFFIRM_PAT :: rx where
  "AFFIRM_PAT =
     seqs [WordB, Grp 1 (alts [Str ''yes'', Lit (CHR ''y''), Str ''indeed'', Str ''of course'',
     Str ''correct'', Str ''sure'', Str ''okay'', Str ''ok'', Str ''sounds good'']), WordB]"

text \<open>\<^verbatim>\<open>r"\b(no|n|never|not really|nope|cancel|stop)\b"\<close>\<close>

definition DENY_PAT :: rx where
  "DENY_PAT =
     seqs [WordB, Grp 1 (alts [Str ''no'', Lit (CHR ''n''), Str ''never'', Str ''not really'',
     Str ''nope'', Str ''cancel'', Str ''stop'']), WordB]"

text \<open>\<^verbatim>\<open>r"\b(perfect|great|amazing|wonderful|very good|super|fantastic|happy)\b"\<close>\<close>

definition MOOD_GREAT_PAT :: rx where
  "MOOD_GREAT_PAT =
     seqs [WordB, Grp 1 (alts [Str ''perfect'', Str ''great'', Str ''amazing'',
     Str ''wonderful'', Str ''very good'', Str ''super'', Str ''fantastic'', Str ''happy'']),
     WordB]"

text \<open>\<^verbatim>\<open>r"\b(horrible|sad|unhappy|not good|disappointed|annoyed|frustrated|upset|tired|stressed)\b"\<close>\<close>

definition MOOD_UNHAPPY_PAT :: rx where
  "MOOD_UNHAPPY_PAT =
     seqs [WordB, Grp 1 (alts [Str ''horrible'', Str ''sad'', Str ''unhappy'', Str ''not good'',
     Str ''disappointed'', Str ''annoyed'', Str ''frustrated'', Str ''upset'', Str ''tired'',
     Str ''stressed'']), WordB]"

text \<open>\<^verbatim>\<open>r"\b(are you a (bot|human)\??|am i talking to (a )?(bot|human)\??)\b"\<close>\<close>

definition BOT_CHALLENGE_PAT :: rx where
  "BOT_CHALLENGE_PAT =
     seqs [WordB, Grp 1 (alts [seqs [Str ''are you a '', Grp 2 (alts [Str ''bot'',
     Str ''human'']), Opt (Lit (CHR ''?''))], seqs [Str ''am i talking to '',
     Opt (Grp 3 (Str ''a '')), Grp 4 (alts [Str ''bot'', Str ''human'']),
     Opt (Lit (CHR ''?''))]]), WordB]"

text \<open>\<^verbatim>\<open>r"\b(thanks?|thank you|appreciate it)\b"\<close>\<close>

definition THANKS_PAT :: rx where
  "THANKS_PAT =
     seqs [WordB, Grp 1 (alts [seqs [Str ''thank'', Opt (Lit (CHR ''s''))], Str ''thank you'',
     Str ''appreciate it'']), WordB]"

text \<open>\<^verbatim>\<open>r"\b(sorry|my bad|apologies|pardon)\b"\<close>\<close>

definition APOLOGY_PAT :: rx where
  "APOLOGY_PAT =
     seqs [WordB, Grp 1 (alts [Str ''sorry'', Str ''my bad'', Str ''apologies'',
     Str ''pardon'']), WordB]"

text \<open>\<^verbatim>\<open>r"\b(i ('?ll|will|shall|can)\s*(do|handle|fix|take care))\b"\<close>\<close>

definition PROMISE_PAT :: rx where
  "PROMISE_PAT =
     seqs [WordB, Grp 1 (seqs [Str ''i '', Grp 2 (alts [seqs [Opt (Lit (CHR 0x27)), Str ''ll''],
     Str ''will'', Str ''shall'', Str ''can'']), Star (Set [CSpace]), Grp 3 (alts [Str ''do'',
     Str ''handle'', Str ''fix'', Str ''take care''])]), WordB]"

text \<open>\<^verbatim>\<open>r"\b(let('?s)?|we could|we should)\s+(do|go|book|plan|organize|schedule)\b"\<close>\<close>

definition PLAN_PAT :: rx where
  "PLAN_PAT =
     seqs [WordB, Grp 1 (alts [seqs [Str ''let'', Opt (Grp 2 (seqs [Opt (Lit (CHR 0x27)),
     Lit (CHR ''s'')]))], Str ''we could'', Str ''we should'']), Plus (Set [CSpace]),
     Grp 3 (alts [Str ''do'', Str ''go'', Str ''book'', Str ''plan'', Str ''organize'',
     Str ''schedule'']), WordB]"

text \<open>\<^verbatim>\<open>r"\b(order|book|schedule|create|add|assign|find|show|send|set up|make)\b"\<close>\<close>

definition ORDER_PAT :: rx where
  "ORDER_PAT =
     seqs [WordB, Grp 1 (alts [Str ''order'', Str ''book'', Str ''schedule'', Str ''create'',
     Str ''add'', Str ''assign'', Str ''find'', Str ''show'', Str ''send'', Str ''set up'',
     Str ''make'']), WordB]"

text \<open>\<^verbatim>\<open>r"\?$|^\s*(can|could|would|will|do|does|did|how|what|when|where|why|which|who)\b"\<close>\<close>

definition QUESTION_PAT :: rx where
  "QUESTION_PAT =
     alts [seqs [Lit (CHR ''?''), Eol], seqs [Bol, Star (Set [CSpace]),
     Grp 1 (alts [Str ''can'', Str ''could'', Str ''would'', Str ''will'', Str ''do'',
     Str ''does'', Str ''did'', Str ''how'', Str ''what'', Str ''when'', Str ''where'',
     Str ''why'', Str ''which'', Str ''who'']), WordB]]"

text \<open>\<^verbatim>\<open>r"\bnot\s+great\b" (line 227, compiled without re.I)\<close>\<close>

definition NOT_GREAT_PAT :: rx where
  "NOT_GREAT_PAT =
     seqs [WordB, Str ''not'', Plus (Set [CSpace]), Str ''great'', WordB]"

subsection \<open>Typo normalisation and extractors\<close>

definition typo_fixes :: "(string \<times> string) list" where
  "typo_fixes =
    [(''reastaurant'', ''restaurant''),
     (''restarant'', ''restaurant''),
     (''restauratn'', ''restaurant''),
     (''cusine'', ''cuisine''),
     (''cuisne'', ''cuisine''),
     (''cusiune'', ''cuisine''),
     (''kolonakii'', ''kolonaki''),
     (''psiri'', ''psyrri''),
     (''exarcheia'', ''exarchia''),
     (''kukaki'', ''koukaki'')]"

text \<open>
  \<open>_normalize_typos\<close>: for each fix in turn,
  \<^verbatim>\<open>re.sub(rf"\b{re.escape(wrong)}\b", right, low, flags=re.I)\<close>.
\<close>

definition normalize_typos :: "string \<Rightarrow> string" where
  "normalize_typos s =
     foldl (\<lambda>low (wrong, right). rx_sub True (seqs [WordB, Str wrong, WordB]) right low) s typo_fixes"

text \<open>
  The extractors \<open>_extract_type\<close>, \<open>_extract_neighborhood\<close>, \<open>_extract_cuisine\<close> (the
  prefix \<open>p_\<close> stands for the leading underscore): the label of the first pattern of the
  table that matches.
\<close>

definition p_extract_type :: "string \<Rightarrow> string option" where
  "p_extract_type t = map_option snd (find (\<lambda>(pat, canon). matches pat t) VENUE_PATTERNS)"

definition p_extract_neighborhood :: "string \<Rightarrow> string option" where
  "p_extract_neighborhood t = map_option snd (find (\<lambda>(pat, canon). matches pat t) NEIGHBORHOOD_ALIASES)"

definition p_extract_cuisine :: "string \<Rightarrow> string option" where
  "p_extract_cuisine t = map_option (\<lambda>(canon, pat). title canon) (find (\<lambda>(canon, pat). matches pat t) CUISINE_PATTERNS)"

subsection \<open>decide_act_and_intent\<close>

definition venue_cues :: "string list" where
  "venue_cues = [''bar'', ''cafe'', ''restaurant'', ''coffee'', ''lunch'', ''dinner'', ''drinks'']"

text \<open>The local function \<open>pure_ack\<close>, with the variables it closes over as arguments.\<close>

definition pure_ack :: "string \<Rightarrow> bool \<Rightarrow> bool \<Rightarrow> bool \<Rightarrow> rx \<Rightarrow> bool" where
  "pure_ack ul is_question is_request has_domain pat =
     (if \<not> matches pat ul then False
      else if is_question \<or> is_request \<or> has_domain then False
      else length (split_ws ul) \<le> 6)"

definition decide_act_and_intent :: "string \<Rightarrow> string \<times> string \<times> string" where
  "decide_act_and_intent utterance =
     (let u = strip utterance;
          ul = lower u;
          venue_type = p_extract_type ul;
          venue_like = (venue_type \<noteq> None \<or> list_ex (\<lambda>k. contains k ul) venue_cues);
          db_like = matches DB_HARD ul;
          has_domain = (db_like \<or> venue_like \<or> matches OPEN_NOW_PAT ul \<or> matches NEAR_PAT ul);
          is_question = matches QUESTION_PAT ul;
          is_request = (matches ORDER_PAT ul \<or> matches IMPERATIVE_VERBS ul);
          is_affirm = matches AFFIRM_PAT ul;
          is_deny = matches DENY_PAT ul;
          ack = pure_ack ul is_question is_request has_domain;
          intent =
            (if db_like then ''db_query''
             else if venue_like \<or> matches OPEN_NOW_PAT ul \<or> matches NEAR_PAT ul then ''food_search''
             else if ack GREET_PAT then ''greet''
             else if ack GOODBYE_PAT then ''goodbye''
             else if ack THANKS_PAT then ''thanks''
             else if ack APOLOGY_PAT then ''apology''
             else if is_affirm then ''affirm''
             else if is_deny then ''deny''
             else if matches MOOD_UNHAPPY_PAT ul \<or> rx_search False NOT_GREAT_PAT ul \<noteq> None
               then ''mood_unhappy''
             else if matches MOOD_GREAT_PAT ul then ''mood_great''
             else if matches BOT_CHALLENGE_PAT ul then ''bot_challenge''
             else ''generic'');
          act =
            (if is_question then (''DIRECTIVE'', ''ASK'')
             else if is_request then (''DIRECTIVE'', ''REQUEST'')
             else if is_affirm then (''CONSTATIVE'', ''CONFIRM'')
             else if is_deny then (''CONSTATIVE'', ''DENY'')
             else if ack GREET_PAT then (''ACKNOWLEDGMENT'', ''GREET'')
             else if ack THANKS_PAT then (''ACKNOWLEDGMENT'', ''THANK'')
             else if ack APOLOGY_PAT then (''ACKNOWLEDGMENT'', ''APOLOGIZE'')
             else if ack GOODBYE_PAT then (''ACKNOWLEDGMENT'', ''GOODBYE'')
             else if matches PLAN_PAT ul then (''COMMISSIVE'', ''PLAN'')
             else if matches PROMISE_PAT ul then (''COMMISSIVE'', ''PROMISE'')
             else (''CONSTATIVE'', ''STATE''))
      in (fst act, snd act, intent))"

subsection \<open>analyze\<close>

definition CANON_TYPES :: "string list" where
  "CANON_TYPES = [''restaurant'', ''cafe'', ''bar'']"

definition smalltalk_intents :: "string list" where
  "smalltalk_intents = [''greet'', ''goodbye'', ''affirm'', ''deny'', ''mood_great'', ''mood_unhappy'',
                        ''bot_challenge'', ''thanks'', ''apology'']"

text \<open>\<open>if PAT.search(ul): slots[k] = v\<close>.\<close>

definition set_if :: "bool \<Rightarrow> string \<Rightarrow> pyval \<Rightarrow> slots \<Rightarrow> slots" where
  "set_if b k v sl = (if b then sl(k \<mapsto> v) else sl)"

text \<open>Venue type, neighbourhood, proximity, cuisine and the seven feature flags.\<close>

definition venue_slots :: "string \<Rightarrow> slots \<Rightarrow> slots" where
  "venue_slots ul sl0 =
     (let sl1 = (case p_extract_type ul of
                   None \<Rightarrow> sl0
                 | Some vt \<Rightarrow> if vt \<in> set CANON_TYPES then sl0(''type'' \<mapsto> PStr vt) else sl0);
          sl2 = (case p_extract_neighborhood ul of
                   None \<Rightarrow> sl1
                 | Some hood \<Rightarrow> if hood \<noteq> [] then sl1(''neighborhood'' \<mapsto> PStr hood) else sl1);
          sl3 = set_if (matches NEAR_PAT ul) ''near'' (PStr ''HQ'') sl2;
          sl4 = (case p_extract_cuisine ul of
                   None \<Rightarrow> sl3
                 | Some c \<Rightarrow> if c \<noteq> [] then sl3(''cuisine'' \<mapsto> PStr c) else sl3);
          sl5 = set_if (matches WIFI_PAT ul) ''wifi'' (PBool True) sl4;
          sl6 = set_if (matches OUTDOOR_PAT ul) ''outdoor'' (PBool True) sl5;
          sl7 = set_if (matches VEGGIE_PAT ul) ''veggie'' (PBool True) sl6;
          sl8 = set_if (matches ALCO_PAT ul) ''alcohol'' (PBool True) sl7;
          sl9 = set_if (matches RES_PAT ul) ''reservations'' (PBool True) sl8;
          sl10 = set_if (matches PAY_PAT ul) ''payment'' (PBool True) sl9
      in set_if (matches OPEN_NOW_PAT ul) ''open_now'' (PBool True) sl10)"

text \<open>
  Price, rating and limit. Each \<open>int(...)\<close> can raise; the \<open>float(...)\<close> of the rating
  is inside \<open>try ... except Exception: pass\<close>.
\<close>

definition price_max_slot :: "string \<Rightarrow> slots \<Rightarrow> error + slots" where
  "price_max_slot ul sl =
     (case rx_search True PRICE_MAX_PAT ul of
        None \<Rightarrow> Inr sl
      | Some m \<Rightarrow> (case py_int (grp m 1) of
                     Inl e \<Rightarrow> Inl e
                   | Inr n \<Rightarrow> Inr (sl(''price_max'' \<mapsto> PInt n))))"

definition price_range_slot :: "string \<Rightarrow> slots \<Rightarrow> error + slots" where
  "price_range_slot ul sl =
     (case rx_search True PRICE_RANGE_PAT ul of
        None \<Rightarrow> Inr sl
      | Some m \<Rightarrow> (case py_int (grp m 1) of
                     Inl e \<Rightarrow> Inl e
                   | Inr lo \<Rightarrow> (case py_int (grp m 2) of
                                  Inl e \<Rightarrow> Inl e
                                | Inr hi \<Rightarrow> Inr (sl(''price_min'' \<mapsto> PInt lo, ''price_max'' \<mapsto> PInt hi)))))"

definition rating_min_slot :: "string \<Rightarrow> slots \<Rightarrow> slots" where
  "rating_min_slot ul sl =
     (case rx_search True RATING_MIN_PAT ul of
        None \<Rightarrow> sl
      | Some m \<Rightarrow> (case py_float (grp m 1) of
                     Inl e \<Rightarrow> sl
                   | Inr r \<Rightarrow> sl(''rating_min'' \<mapsto> PFloat r)))"

text \<open>
  \<^verbatim>\<open>slots["limit"] = int(m.group(1) or m.group(2))\<close>: the third group, the one of
  \<open>next N\<close>, is not read.
\<close>

definition limit_slot :: "string \<Rightarrow> slots \<Rightarrow> error + slots" where
  "limit_slot ul sl =
     (case rx_search True LIMIT_PAT ul of
        None \<Rightarrow> Inr sl
      | Some m \<Rightarrow> (case py_int (str_or (grp m 1) (grp m 2)) of
                     Inl e \<Rightarrow> Inl e
                   | Inr n \<Rightarrow> Inr (sl(''limit'' \<mapsto> PInt n))))"

definition sort_slot :: "string \<Rightarrow> slots \<Rightarrow> slots" where
  "sort_slot ul sl =
     (if matches SORT_BEST_PAT ul then sl(''sort'' \<mapsto> PStr ''best'')
      else if matches SORT_CHEAP_PAT ul then sl(''sort'' \<mapsto> PStr ''cheap'')
      else sl)"

definition anaphora_tokens :: "string list" where
  "anaphora_tokens = [''there'', ''more'', ''another'']"

text \<open>
  The anaphora block: on a generic turn with a continuation token and a remembered
  venue, the intent becomes \<open>food_search\<close> and type, neighbourhood and sort are taken from
  the state for the keys the turn has not set.
\<close>

definition anaphora :: "string \<Rightarrow> dialogue_state option \<Rightarrow> string \<Rightarrow> slots \<Rightarrow> string \<times> slots" where
  "anaphora ul state intent sl =
     (case state of
        None \<Rightarrow> (intent, sl)
      | Some st \<Rightarrow>
          if intent = ''generic'' \<and> list_ex (\<lambda>tok. contains tok ul) anaphora_tokens
          then (case le_venue (last_entities st) of
                  None \<Rightarrow> (intent, sl)
                | Some le \<Rightarrow>
                    let sa = (if truthy (v_type le) \<and> \<not> has_key sl ''type''
                              then sl(''type'' \<mapsto> v_type le) else sl);
                        sb = (if truthy (v_neighborhood le) \<and> \<not> has_key sa ''neighborhood''
                              then sa(''neighborhood'' \<mapsto> v_neighborhood le) else sa);
                        sc = (if truthy (sget (slots st) ''sort'') \<and> \<not> has_key sb ''sort''
                              then sb(''sort'' \<mapsto> sget (slots st) ''sort'') else sb)
                    in (''food_search'', sc))
          else (intent, sl))"

text \<open>
  \<open>analyze(text, state)\<close> returns \<open>(act_major, intent, slots)\<close> or raises; an exception
  is the left summand.
\<close>

definition analyze :: "string \<Rightarrow> dialogue_state option \<Rightarrow> error + (string \<times> string \<times> slots)" where
  "analyze text state =
     (let t = normalize_typos (strip text);
          ul = lower t;
          sl0 = set_if (matches CANCEL_PAT ul) ''cancel'' (PBool True)
                  (set_if (matches CONFIRM_PAT ul) ''confirm'' (PBool True) Map.empty);
          d = decide_act_and_intent t;
          act_major = fst d;
          act_subtype = fst (snd d);
          intent = snd (snd d);
          sl1 = sl0(''act_subtype'' \<mapsto> PStr act_subtype)
      in if intent \<in> set smalltalk_intents then Inr (act_major, intent, sl1)
         else
           (case price_max_slot ul (venue_slots ul sl1) of
              Inl e \<Rightarrow> Inl e
            | Inr sl2 \<Rightarrow>
                (case price_range_slot ul sl2 of
                   Inl e \<Rightarrow> Inl e
                 | Inr sl3 \<Rightarrow>
                     (case limit_slot ul (rating_min_slot ul sl3) of
                        Inl e \<Rightarrow> Inl e
                      | Inr sl4 \<Rightarrow>
                          let a = anaphora ul state intent (sort_slot ul sl4);
                              intent' = (if matches DB_HARD ul then ''db_query'' else fst a)
                          in Inr (act_major, intent', snd a)))))"

text \<open>
  The intents that \<open>decide_act_and_intent\<close> and \<open>analyze\<close> assign, in the order of
  their assignments in the source.
\<close>

definition classifier_intents :: "string list" where
  "classifier_intents = [''db_query'', ''food_search'', ''greet'', ''goodbye'', ''thanks'', ''apology'',
     ''affirm'', ''deny'', ''mood_unhappy'', ''mood_great'', ''bot_challenge'', ''generic'']"


subsection \<open>Patterns of features/repairs.py\<close>

text \<open>\<^verbatim>\<open>r"\buh+\b|\bum+\b|\berm+\b|\bwell[, ]\b|\bok(ay)?,?\b|\bsort of\b|\bkinda\b|\bperhaps\b|\bmaybe\b|\bi guess\b" (the members of HEDGES joined by "|", re.I)\<close>\<close>

definition HEDGES_PAT :: rx where
  "HEDGES_PAT =
     alts [seqs [WordB, Lit (CHR ''u''), Plus (Lit (CHR ''h'')), WordB], seqs [WordB,
     Lit (CHR ''u''), Plus (Lit (CHR ''m'')), WordB], seqs [WordB, Str ''er'',
     Plus (Lit (CHR ''m'')), WordB], seqs [WordB, Str ''well'', Set [CChar (CHR '',''),
     CChar (CHR '' '')], WordB], seqs [WordB, Str ''ok'', Opt (Grp 1 (Str ''ay'')),
     Opt (Lit (CHR '','')), WordB], seqs [WordB, Str ''sort of'', WordB], seqs [WordB,
     Str ''kinda'', WordB], seqs [WordB, Str ''perhaps'', WordB], seqs [WordB, Str ''maybe'',
     WordB], seqs [WordB, Str ''i guess'', WordB]]"

text \<open>\<^verbatim>\<open>r"\bi mean\b|\bsorry(,)? i meant\b|\bto clarify\b|\bactually\b" (the members of REPAIR_LEADS joined by "|", re.I)\<close>\<close>

definition REPAIR_PAT :: rx where
  "REPAIR_PAT =
     alts [seqs [WordB, Str ''i mean'', WordB], seqs [WordB, Str ''sorry'',
     Opt (Grp 1 (Lit (CHR '',''))), Str '' i meant'', WordB], seqs [WordB, Str ''to clarify'',
     WordB], seqs [WordB, Str ''actually'', WordB]]"

text \<open>\<^verbatim>\<open>r"\s+"\<close>\<close>

definition MULTI_SPACE :: rx where
  "MULTI_SPACE =
     Plus (Set [CSpace])"

subsection \<open>Patterns of core/router.py\<close>

text \<open>
  The name patterns share the group \<open>(?P<name>...)\<close>, group 1 of each pattern. The
  seven lead-in patterns are compiled with \<open>re.I\<close>; the two fall-back patterns and the
  two token shapes of \<open>_looks_like_name\<close> are case sensitive.
\<close>

text \<open>\<^verbatim>\<open>r"(?P<name>(?:[A-Za-z]\.|[A-Za-z][a-z]+(?:[-'][A-Za-z][a-z]+)*)(?:\s+(?:[A-Za-z]\.|[A-Za-z][a-z]+(?:[-'][A-Za-z][a-z]+)*)){1,3})"\<close>\<close>

definition FLEX_NAME_GROUP :: rx where
  "FLEX_NAME_GROUP =
     Grp 1 (seqs [alts [seqs [Set [CRange (CHR ''A'') (CHR ''Z''),
     CRange (CHR ''a'') (CHR ''z'')], Lit (CHR ''.'')],
     seqs [Set [CRange (CHR ''A'') (CHR ''Z''), CRange (CHR ''a'') (CHR ''z'')],
     Plus (Set [CRange (CHR ''a'') (CHR ''z'')]), Star (seqs [Set [CChar (CHR ''-''),
     CChar (CHR 0x27)], Set [CRange (CHR ''A'') (CHR ''Z''), CRange (CHR ''a'') (CHR ''z'')],
     Plus (Set [CRange (CHR ''a'') (CHR ''z'')])])]], Rep 1 3 (seqs [Plus (Set [CSpace]),
     alts [seqs [Set [CRange (CHR ''A'') (CHR ''Z''), CRange (CHR ''a'') (CHR ''z'')],
     Lit (CHR ''.'')], seqs [Set [CRange (CHR ''A'') (CHR ''Z''),
     CRange (CHR ''a'') (CHR ''z'')], Plus (Set [CRange (CHR ''a'') (CHR ''z'')]),
     Star (seqs [Set [CChar (CHR ''-''), CChar (CHR 0x27)], Set [CRange (CHR ''A'') (CHR ''Z''),
     CRange (CHR ''a'') (CHR ''z'')], Plus (Set [CRange (CHR ''a'') (CHR ''z'')])])]]])])"

text \<open>\<^verbatim>\<open>r"(?P<name>(?:[A-Z]\.|[A-Z][a-z]+(?:[-'][A-Z][a-z]+)*)(?:\s+(?:[A-Z]\.|[A-Z][a-z]+(?:[-'][A-Z][a-z]+)*)){1,3})"\<close>\<close>

definition CAP_NAME_GROUP :: rx where
  "CAP_NAME_GROUP =
     Grp 1 (seqs [alts [seqs [Set [CRange (CHR ''A'') (CHR ''Z'')], Lit (CHR ''.'')],
     seqs [Set [CRange (CHR ''A'') (CHR ''Z'')], Plus (Set [CRange (CHR ''a'') (CHR ''z'')]),
     Star (seqs [Set [CChar (CHR ''-''), CChar (CHR 0x27)],
     Set [CRange (CHR ''A'') (CHR ''Z'')], Plus (Set [CRange (CHR ''a'') (CHR ''z'')])])]],
     Rep 1 3 (seqs [Plus (Set [CSpace]), alts [seqs [Set [CRange (CHR ''A'') (CHR ''Z'')],
     Lit (CHR ''.'')], seqs [Set [CRange (CHR ''A'') (CHR ''Z'')],
     Plus (Set [CRange (CHR ''a'') (CHR ''z'')]), Star (seqs [Set [CChar (CHR ''-''),
     CChar (CHR 0x27)], Set [CRange (CHR ''A'') (CHR ''Z'')],
     Plus (Set [CRange (CHR ''a'') (CHR ''z'')])])]]])])"

text \<open>
  \<^verbatim>\<open>rf"\bmy name is\s+{_FLEX_NAME_GROUP}\b"\<close>
  \<^verbatim>\<open>rf"\bi am\s+{_FLEX_NAME_GROUP}\b"\<close>
  \<^verbatim>\<open>rf"\bi['<U+2019>]m\s+{_FLEX_NAME_GROUP}\b"\<close>
  \<^verbatim>\<open>rf"\bthis is\s+{_FLEX_NAME_GROUP}\b"\<close>
  \<^verbatim>\<open>rf"\bcall me\s+{_FLEX_NAME_GROUP}\b"\<close>
  \<^verbatim>\<open>rf"\bfull name\s*(?:is|:)\s*{_FLEX_NAME_GROUP}\b"\<close>
  \<^verbatim>\<open>rf"\bname\s*[:\-]\s*{_FLEX_NAME_GROUP}\b"\<close>
\<close>

definition NAME_PATTERNS :: "rx list" where
  "NAME_PATTERNS =
    [seqs [WordB, Str ''my name is'', Plus (Set [CSpace]), FLEX_NAME_GROUP, WordB],
     seqs [WordB, Str ''i am'', Plus (Set [CSpace]), FLEX_NAME_GROUP, WordB],
     seqs [WordB, Lit (CHR ''i''), Set [CChar (CHR 0x27)], Lit (CHR ''m''),
      Plus (Set [CSpace]), FLEX_NAME_GROUP, WordB],
     seqs [WordB, Str ''this is'', Plus (Set [CSpace]), FLEX_NAME_GROUP, WordB],
     seqs [WordB, Str ''call me'', Plus (Set [CSpace]), FLEX_NAME_GROUP, WordB],
     seqs [WordB, Str ''full name'', Star (Set [CSpace]), alts [Str ''is'', Lit (CHR '':'')],
      Star (Set [CSpace]), FLEX_NAME_GROUP, WordB],
     seqs [WordB, Str ''name'', Star (Set [CSpace]), Set [CChar (CHR '':''),
      CChar (CHR ''-'')], Star (Set [CSpace]), FLEX_NAME_GROUP, WordB]]"

text \<open>\<^verbatim>\<open>rf"^{_CAP_NAME_GROUP}$"\<close>\<close>

definition FALLBACK_TWO_TOKENS :: rx where
  "FALLBACK_TWO_TOKENS =
     seqs [Bol, CAP_NAME_GROUP, Eol]"

text \<open>\<^verbatim>\<open>rf"^{_CAP_NAME_GROUP}\s+(?:speaking|here)\b"\<close>\<close>

definition FALLBACK_LEADING_NAME :: rx where
  "FALLBACK_LEADING_NAME =
     seqs [Bol, CAP_NAME_GROUP, Plus (Set [CSpace]), alts [Str ''speaking'', Str ''here''],
     WordB]"

text \<open>\<^verbatim>\<open>r"[A-Z]\."\<close>\<close>

definition NAMEY_INITIAL :: rx where
  "NAMEY_INITIAL =
     seqs [Set [CRange (CHR ''A'') (CHR ''Z'')], Lit (CHR ''.'')]"

text \<open>\<^verbatim>\<open>r"[A-Z][a-z]+(?:[-'][A-Z][a-z]+)*"\<close>\<close>

definition NAMEY_WORD :: rx where
  "NAMEY_WORD =
     seqs [Set [CRange (CHR ''A'') (CHR ''Z'')], Plus (Set [CRange (CHR ''a'') (CHR ''z'')]),
     Star (seqs [Set [CChar (CHR ''-''), CChar (CHR 0x27)],
     Set [CRange (CHR ''A'') (CHR ''Z'')], Plus (Set [CRange (CHR ''a'') (CHR ''z'')])])]"

text \<open>\<^verbatim>\<open>r"\b(?:more info|details?|tell me more|what about)\b" (re.I)\<close>\<close>

definition DETAIL_PAT :: rx where
  "DETAIL_PAT =
     seqs [WordB, alts [Str ''more info'', seqs [Str ''detail'', Opt (Lit (CHR ''s''))],
     Str ''tell me more'', Str ''what about''], WordB]"

text \<open>\<^verbatim>\<open>r"\b(\d{1,5})\b" (case sensitive)\<close>\<close>

definition NUM_IN_LABEL :: rx where
  "NUM_IN_LABEL =
     seqs [WordB, Grp 1 (Rep 1 5 (Set [CDigit])), WordB]"

section \<open>Input repair (features/repairs.py)\<close>

text \<open>
  \<open>apply_self_repair\<close> keeps the text after the first repair lead (unless the text
  contains "never mind"), replaces every hedge by a blank, collapses white space and
  strips the result. \<open>t[m.end():]\<close> is the text the match leaves unread.
\<close>

definition apply_self_repair :: "string \<Rightarrow> string \<times> bool" where
  "apply_self_repair text =
     (if text = [] then (text, False)
      else
        let t = (case rx_search True REPAIR_PAT text of
                   None \<Rightarrow> text
                 | Some m \<Rightarrow> if \<not> contains ''never mind'' (lower text) then rest (m_end m) else text);
            t2 = strip (rx_sub False MULTI_SPACE '' '' (rx_sub True HEDGES_PAT '' '' t))
        in (t2, t2 \<noteq> text))"

section \<open>Mood (features/sentiment.py)\<close>

definition LEX_POS :: "string list" where
  "LEX_POS = [''great'', ''awesome'', ''amazing'', ''wonderful'', ''perfect'', ''fantastic'', ''love'',
              ''happy'', ''glad'', ''cool'', ''nice'', ''excellent'']"

definition LEX_NEG :: "string list" where
  "LEX_NEG = [''angry'', ''annoyed'', ''frustrated'', ''upset'', ''tired'', ''exhausted'', ''stressed'',
              ''sad'', ''terrible'', ''horrible'', ''awful'', ''hate'', ''bad'', ''disappointed'']"

definition NEGATORS :: "string list" where
  "NEGATORS = [''not'', ''no'', ''never'', ''hardly'', ''barely'', ''scarcely'']"

definition BOOSTERS :: "string list" where
  "BOOSTERS = [''very'', ''so'', ''really'', ''extremely'', ''super'']"

definition DIMINISH :: "string list" where
  "DIMINISH = [''slightly'', ''a bit'', ''somewhat'', ''kinda'', ''sort of'']"

text \<open>\<open>_tokenize\<close>: \<open>t.replace("!", " ! ").lower().split()\<close>.\<close>

definition tokenize :: "string \<Rightarrow> string list" where
  "tokenize t = split_ws (lower (concat (map (\<lambda>c. if c = CHR ''!'' then '' ! '' else [c]) t)))"

text \<open>
  The scan of the (at most three) tokens before a sentiment word: a negator flips
  \<open>negated\<close>, a booster adds a quarter to \<open>boost\<close>, a diminisher takes a quarter off.
\<close>

primrec scan_modifiers :: "string list \<Rightarrow> bool \<times> rat \<Rightarrow> bool \<times> rat" where
  "scan_modifiers [] nb = nb"
| "scan_modifiers (ww # ws) nb =
     scan_modifiers ws
       (if ww \<in> set NEGATORS then (\<not> fst nb, snd nb)
        else if ww \<in> set BOOSTERS then (fst nb, snd nb + 1/4)
        else if ww \<in> set DIMINISH then (fst nb, snd nb - 1/4)
        else nb)"

text \<open>
  The loop of \<open>_score\<close>: \<open>before\<close> holds the tokens already read, newest first, so
  \<open>rev (take 3 before)\<close> is \<open>tokens[max(0, i-3):i]\<close>.
\<close>

primrec score_loop :: "string list \<Rightarrow> string list \<Rightarrow> rat \<Rightarrow> rat" where
  "score_loop before [] s = s"
| "score_loop before (w # ws) s =
     (let val = (if w \<in> set LEX_POS then 1 else if w \<in> set LEX_NEG then -1 else (0::rat))
      in if val = 0 then score_loop (w # before) ws s
         else
           let nb = scan_modifiers (rev (take 3 before)) (False, 1);
               val' = (if fst nb then - val else val)
           in score_loop (w # before) ws (s + val' * snd nb))"

text \<open>
  The score is a float in the source. Every sum it forms is a multiple of \<open>0.25\<close> plus,
  possibly, \<open>0.2\<close>, and no such value is within rounding distance of the thresholds, so
  the comparisons agree with the exact ones on rationals.
\<close>

definition score :: "string list \<Rightarrow> rat" where
  "score tokens =
     (let s0 = score_loop [] tokens 0;
          s1 = (if ''!'' \<in> set tokens then s0 + 1/5 else s0);
          s2 = (if s1 > 5/2 then 5/2 else s1);
          s3 = (if s2 < - (5/2) then - (5/2) else s2)
      in s3 / (5/2))"

definition get_mood :: "string \<Rightarrow> string" where
  "get_mood text =
     (let t = strip text
      in if t = [] then ''neutral''
         else let s = score (tokenize t)
              in if s > 3/20 then ''positive''
                 else if s < - (3/20) then ''negative''
                 else ''neutral'')"

section \<open>The router (core/router.py)\<close>

subsection \<open>Name capture\<close>

text \<open>
  \<open>_looks_like_name\<close>: some token of the candidate is an initial or a capitalised word.
\<close>

definition looks_like_name :: "string \<Rightarrow> bool" where
  "looks_like_name name =
     list_ex (\<lambda>t. rx_fullmatch False NAMEY_INITIAL t \<noteq> None \<or> rx_fullmatch False NAMEY_WORD t \<noteq> None)
             (split_ws (strip name))"

text \<open>\<open>s.split(sep)\<close> for a one-character separator, and \<open>sep.join(parts)\<close>.\<close>

primrec split_on_acc :: "char \<Rightarrow> string \<Rightarrow> string \<Rightarrow> string list" where
  "split_on_acc sep cur [] = [rev cur]"
| "split_on_acc sep cur (c # cs) =
     (if c = sep then rev cur # split_on_acc sep [] cs else split_on_acc sep (c # cur) cs)"

definition split_on :: "char \<Rightarrow> string \<Rightarrow> string list" where
  "split_on sep s = split_on_acc sep [] s"

primrec join :: "string \<Rightarrow> string list \<Rightarrow> string" where
  "join sep [] = []"
| "join sep (p # ps) = (if ps = [] then p else p @ sep @ join sep ps)"

text \<open>
  \<open>cap_token\<close> calls itself on the parts of a token split at \<open>-\<close>, and on the parts of
  those split at an apostrophe; a part has no separator left, so the recursion is three
  levels deep: \<open>cap_plain\<close> for a part without separators, \<open>cap_apos\<close> above it,
  \<open>cap_token\<close> on top. Each level starts with the same two tests. The letters that
  reach \<open>upper\<close> here are ASCII letters.
\<close>

definition is_initial :: "string \<Rightarrow> bool" where
  "is_initial tok = (case tok of [a, b] \<Rightarrow> b = CHR ''.'' \<and> is_alpha a | _ \<Rightarrow> False)"

definition cap_plain :: "string \<Rightarrow> string" where
  "cap_plain tok =
     (case tok of
        [] \<Rightarrow> []
      | a # as \<Rightarrow> if is_initial tok then [upper_char a, CHR ''.'']
                  else upper_char a # lower as)"

definition cap_apos :: "string \<Rightarrow> string" where
  "cap_apos tok =
     (case tok of
        [] \<Rightarrow> []
      | a # as \<Rightarrow> if is_initial tok then [upper_char a, CHR ''.'']
                  else if CHR 0x27 \<in> set tok then join [CHR 0x27] (map cap_plain (split_on (CHR 0x27) tok))
                  else upper_char a # lower as)"

definition cap_token :: "string \<Rightarrow> string" where
  "cap_token tok =
     (case tok of
        [] \<Rightarrow> []
      | a # as \<Rightarrow> if is_initial tok then [upper_char a, CHR ''.'']
                  else if CHR ''-'' \<in> set tok then join ''-'' (map cap_apos (split_on (CHR ''-'') tok))
                  else if CHR 0x27 \<in> set tok then join [CHR 0x27] (map cap_plain (split_on (CHR 0x27) tok))
                  else upper_char a # lower as)"

text \<open>\<open>w.strip(",.;:!?")\<close>.\<close>

definition strip_punct :: "string \<Rightarrow> string" where
  "strip_punct w =
     rev (dropWhile (\<lambda>c. c \<in> set '',.;:!?'') (rev (dropWhile (\<lambda>c. c \<in> set '',.;:!?'') w)))"

definition normalize_name :: "string \<Rightarrow> string" where
  "normalize_name s =
     join '' '' (map cap_token (filter (\<lambda>p. p \<noteq> []) (map strip_punct (split_ws (strip s)))))"

text \<open>
  \<open>_extract_full_name\<close>: the first lead-in pattern (in list order) that matches and whose
  captured name looks like one; else the two fall-backs on the stripped text.
\<close>

primrec first_lead_in :: "rx list \<Rightarrow> string \<Rightarrow> string option" where
  "first_lead_in [] text = None"
| "first_lead_in (pat # pats) text =
     (case rx_search True pat text of
        None \<Rightarrow> first_lead_in pats text
      | Some m \<Rightarrow>
          (case grp m 1 of
             None \<Rightarrow> first_lead_in pats text
           | Some g \<Rightarrow> let candidate = strip g
                       in if looks_like_name candidate then Some (normalize_name candidate)
                          else first_lead_in pats text))"

definition extract_full_name :: "string \<Rightarrow> string option" where
  "extract_full_name text =
     (if text = [] then None
      else case first_lead_in NAME_PATTERNS text of
             Some n \<Rightarrow> Some n
           | None \<Rightarrow>
               (case rx_search False FALLBACK_TWO_TOKENS (strip text) of
                  Some m \<Rightarrow> map_option normalize_name (grp m 1)
                | None \<Rightarrow>
                    (case rx_search False FALLBACK_LEADING_NAME (strip text) of
                       Some m \<Rightarrow> map_option normalize_name (grp m 1)
                     | None \<Rightarrow> None)))"

definition mentions_anonymous :: "string \<Rightarrow> bool" where
  "mentions_anonymous text =
     list_ex (\<lambda>k. contains k (lower text))
       [''stay anonymous'', ''skip name'', ''don'' @ [CHR 0x27] @ ''t save my name'', ''be anonymous'',
        ''anonymous'']"

subsection \<open>Payload and canned replies\<close>

text \<open>
  Of the payload the router reads the message list; a message is its role and its
  content (\<open>m.get("content", "")\<close>).
\<close>

record message =
  m_role :: string
  m_content :: string

text \<open>\<open>_latest_user\<close>: the content of the last message whose role is \<open>user\<close>.\<close>

definition latest_user :: "message list \<Rightarrow> string" where
  "latest_user msgs =
     (case filter (\<lambda>m. m_role m = ''user'') (rev msgs) of [] \<Rightarrow> [] | m # _ \<Rightarrow> m_content m)"

text \<open>
  \<open>_ack_for_level\<close> picks one of four tables by seniority and looks the subtype up in
  it. The reply texts hold typographic characters; a reply is named by its table and
  its entry (\<open>default\<close> for a subtype that is not a key).
\<close>

datatype ack_table = AckNoLevel | AckFormal | AckNeutral | AckCasual

definition ack_keys :: "string list" where
  "ack_keys = [''GREET'', ''THANK'', ''GOODBYE'', ''APOLOGIZE'']"

definition ack_for_level :: "string \<Rightarrow> int option \<Rightarrow> ack_table \<times> string" where
  "ack_for_level subtype lvl =
     (let entry = (if subtype \<in> set ack_keys then subtype else ''default'')
      in case lvl of
           None \<Rightarrow> (AckNoLevel, entry)
         | Some l \<Rightarrow> if l \<le> 2 then (AckFormal, entry)
                     else if 3 \<le> l \<and> l \<le> 4 then (AckNeutral, entry)
                     else (AckCasual, entry))"

definition quick_ack :: "string \<Rightarrow> user_profile \<Rightarrow> ack_table \<times> string" where
  "quick_ack subtype up = ack_for_level subtype (up_role_level up)"

datatype reply =
    OnboardingPrompt
  | QuickAck "ack_table \<times> string"
  | Confirmed
  | StaffDeflection
  | LLMStream "string option" "string option"

subsection \<open>Answering from the cached rows\<close>

text \<open>\<open>(b.get(k) or {}).get("value")\<close>.\<close>

definition binding_value :: "kg_row \<Rightarrow> string \<Rightarrow> string option" where
  "binding_value b k = map_of b k"

definition row_label :: "kg_row \<Rightarrow> string" where
  "row_label b =
     strip (case str_or (binding_value b ''label'')
                  (str_or (binding_value b ''name'') (binding_value b ''place'')) of
              None \<Rightarrow> [] | Some s \<Rightarrow> s)"

text \<open>\<open>[w for w in re.split(r"\W+", t) if w]\<close>: the maximal runs of word characters.\<close>

primrec word_runs_acc :: "string \<Rightarrow> string \<Rightarrow> string list" where
  "word_runs_acc cur [] = (if cur = [] then [] else [rev cur])"
| "word_runs_acc cur (c # cs) =
     (if \<not> is_word c then (if cur = [] then word_runs_acc [] cs else rev cur # word_runs_acc [] cs)
      else word_runs_acc (c # cur) cs)"

definition word_runs :: "string \<Rightarrow> string list" where
  "word_runs s = word_runs_acc [] s"

text \<open>
  The loop over the rows: a row without label is skipped; a label that contains the
  number of the request is taken at once (\<open>break\<close>); a label that contains every
  alphabetic token longer than three characters becomes the current best.
\<close>

primrec pick_row :: "string option \<Rightarrow> string list \<Rightarrow> kg_row list \<Rightarrow> kg_row option \<Rightarrow> kg_row option" where
  "pick_row target_num tokens [] best = best"
| "pick_row target_num tokens (b # bs) best =
     (let label = row_label b; lab_low = lower label
      in if label = [] then pick_row target_num tokens bs best
         else if (case target_num of None \<Rightarrow> False | Some n \<Rightarrow> n \<noteq> [] \<and> contains n lab_low)
         then Some b
         else if tokens \<noteq> []
                 \<and> list_all (\<lambda>w. contains w lab_low)
                      (filter (\<lambda>w. w \<noteq> [] \<and> list_all is_alpha w \<and> 3 < length w) tokens)
         then pick_row target_num tokens bs (Some b)
         else pick_row target_num tokens bs best)"

text \<open>
  \<open>_try_answer_from_kg_cache\<close> formats one line from the row it picks and returns
  \<open>None\<close> when it picks none. The model returns the picked row; the text built from it
  is never empty.
\<close>

definition row_truthy :: "kg_row option \<Rightarrow> bool" where
  "row_truthy b = (case b of None \<Rightarrow> False | Some r \<Rightarrow> r \<noteq> [])"

definition try_answer_from_kg_cache :: "string \<Rightarrow> kg_row list \<Rightarrow> kg_row option" where
  "try_answer_from_kg_cache user_text rows =
     (case rows of
        [] \<Rightarrow> None
      | r0 # _ \<Rightarrow>
          let t = lower user_text;
              target_num = (case rx_search False NUM_IN_LABEL t of None \<Rightarrow> None | Some m \<Rightarrow> grp m 1);
              best = pick_row target_num (word_runs t) rows None;
              best' = (if \<not> row_truthy best \<and> matches DETAIL_PAT t then Some r0 else best)
          in if \<not> row_truthy best' then None else best')"

subsection \<open>Collaborators\<close>

text \<open>
  The staff directory, the knowledge-graph client and the database client reach
  services outside the program. Each is a parameter of the router. A staff row has the
  columns \<open>id\<close>, \<open>name\<close>, \<open>role\<close>, \<open>role_level\<close>, \<open>department\<close>. The two data-source clients
  return their summary and act on the state only through the calls listed in
  \<open>backend_effect\<close>: \<open>log_kg_result\<close>, \<open>log_db_result\<close>, the assignment to
  \<open>last_kg_rows\<close> and the entries written to \<open>kg_detail_cache\<close>.
\<close>

record staff =
  s_id :: "int option"
  s_name :: "string option"
  s_role :: "string option"
  s_role_level :: "int option"
  s_department :: "string option"

datatype backend_effect =
    LogKg string "kg_row list" int "string option"
  | LogDb string row "row list" int "string option"
  | SetLastKgRows "kg_row list"
  | CacheDetail string kg_row

fun apply_effect :: "backend_effect \<Rightarrow> dialogue_state \<Rightarrow> dialogue_state" where
  "apply_effect (LogKg sparql rows ms err) st = log_kg_result sparql rows ms err st"
| "apply_effect (LogDb sql params rows ms err) st = log_db_result sql params rows ms err st"
| "apply_effect (SetLastKgRows rows) st = st\<lparr> last_kg_rows := rows \<rparr>"
| "apply_effect (CacheDetail iri detail) st =
     st\<lparr> kg_detail_cache := (iri, detail) # filter (\<lambda>(k, v). k \<noteq> iri) (kg_detail_cache st) \<rparr>"

definition apply_effects :: "backend_effect list \<Rightarrow> dialogue_state \<Rightarrow> dialogue_state" where
  "apply_effects es st = foldl (\<lambda>s e. apply_effect e s) st es"

record collaborators =
  hash8 :: hashfn
  lookup_staff_by_name_exact :: "string \<Rightarrow> staff option"
  answer_with_kg :: "message list \<Rightarrow> string \<Rightarrow> slots \<Rightarrow> dialogue_state \<Rightarrow> string option \<times> backend_effect list"
  answer_with_db :: "message list \<Rightarrow> string \<Rightarrow> slots \<Rightarrow> dialogue_state \<Rightarrow> string option \<times> backend_effect list"

datatype call = CallStaffLookup string | CallKG | CallDB | CallLLM

subsection \<open>route_request\<close>

definition KG_INTENTS :: "string list" where
  "KG_INTENTS = [''food_search'', ''place_info'']"

definition DB_INTENTS :: "string list" where
  "DB_INTENTS = [''check_tasks'', ''free_slots'', ''db_query'']"

definition SMALLTALK_INTENTS :: "string list" where
  "SMALLTALK_INTENTS = [''greet'', ''thanks'', ''apology'', ''goodbye'']"

definition last_domain_intents :: "string list" where
  "last_domain_intents = [''food_search'', ''place_info'', ''db_query'', ''check_tasks'', ''free_slots'']"

text \<open>
  Step 1a: when a name is captured and the database is enabled, the staff directory is
  asked and the profile updated. The result is the new state and \<open>just_verified\<close>.
\<close>

definition verify_identity :: "collaborators \<Rightarrow> string option \<Rightarrow> dialogue_state \<Rightarrow> dialogue_state \<times> bool" where
  "verify_identity co name st =
     (case name of
        None \<Rightarrow> (st, False)
      | Some n \<Rightarrow>
          if n \<noteq> [] \<and> db_enabled st
          then (let found = lookup_staff_by_name_exact co n;
                    sid = (case found of None \<Rightarrow> None | Some s \<Rightarrow> s_id s);
                    has_id = bool_of_id sid
                in (update_user_identity
                      (case found of None \<Rightarrow> Some n | Some s \<Rightarrow> s_name s)
                      sid
                      (case found of None \<Rightarrow> None | Some s \<Rightarrow> s_role s)
                      (case found of None \<Rightarrow> None | Some s \<Rightarrow> s_role_level s)
                      (case found of None \<Rightarrow> None | Some s \<Rightarrow> s_department s)
                      (if has_id then ''identified'' else up_privacy_mode (user_profile st))
                      st,
                    has_id))
          else (st, False))"

text \<open>
  \<open>next((i for i in reversed(state.history_intents) if i in last_domain_intents), None)\<close>.
\<close>

definition prev_domain :: "dialogue_state \<Rightarrow> string option" where
  "prev_domain st = find (\<lambda>i. i \<in> set last_domain_intents) (rev (history_intents st))"

definition effective_intent_of :: "string \<Rightarrow> bool \<Rightarrow> string option \<Rightarrow> string" where
  "effective_intent_of intent identity_only prev_dom =
     (case prev_dom of
        None \<Rightarrow> intent
      | Some p \<Rightarrow> if intent = ''generic'' \<and> identity_only \<and> p \<noteq> [] then p else intent)"

text \<open>\<open>act_sub = slots.get("act_subtype")\<close> as the optional string the turn record holds.\<close>

definition str_of :: "pyval \<Rightarrow> string option" where
  "str_of v = (case v of PStr s \<Rightarrow> Some s | _ \<Rightarrow> None)"

definition quick_ack_subtypes :: "pyval list" where
  "quick_ack_subtypes = [PStr ''GREET'', PStr ''THANK'', PStr ''GOODBYE'', PStr ''APOLOGIZE'']"

text \<open>\<open>if state.pending_action\<close>: a dictionary is truthy when it is not empty.\<close>

definition pending_truthy :: "dialogue_state \<Rightarrow> bool" where
  "pending_truthy st = (case pending_action st of None \<Rightarrow> False | Some d \<Rightarrow> d \<noteq> [])"

text \<open>
  Step 3d, the tool calls: the cached rows first, the knowledge graph if they gave
  nothing and the intent is knowledge-graph backed, the database if the intent is
  database backed and the database is enabled. The result is the two summaries handed
  to the prompt, the state and the calls made.
\<close>

definition dispatch_tools ::
  "collaborators \<Rightarrow> message list \<Rightarrow> string \<Rightarrow> string \<Rightarrow> slots \<Rightarrow> dialogue_state \<Rightarrow>
   (bool \<times> string option \<times> string option) \<times> dialogue_state \<times> call list" where
  "dispatch_tools co payload user_text effective_intent merged st =
     (let cached = (if matches DETAIL_PAT user_text \<and> last_kg_rows st \<noteq> []
                    then row_truthy (try_answer_from_kg_cache user_text (last_kg_rows st))
                    else False);
          kg = (if \<not> cached \<and> effective_intent \<in> set KG_INTENTS
                then (let r = answer_with_kg co payload user_text merged st
                      in (fst r, apply_effects (snd r) st, [CallKG]))
                else (None, st, []));
          st1 = fst (snd kg);
          db = (if effective_intent \<in> set DB_INTENTS \<and> db_enabled st1
                then (let r = answer_with_db co payload user_text merged st1
                      in (fst r, apply_effects (snd r) st1, [CallDB]))
                else (None, st1, []))
      in ((cached, fst kg, fst db), fst (snd db), snd (snd kg) @ snd (snd db)))"

text \<open>
  \<open>route_request(payload, state)\<close> in three stages, in the order of the source.

  Stage 1, classification: self-repair, \<open>analyze\<close>, \<open>resolve_references\<close>. The result
  is the text that was classified, the act, the intent and the slot map of the turn, or
  the exception that \<open>analyze\<close> raised. Nothing has been written to the state yet.
\<close>

definition classify :: "message list \<Rightarrow> dialogue_state \<Rightarrow> error + (string \<times> string \<times> string \<times> slots)" where
  "classify payload state =
     (let user_text = latest_user payload;
          clean_text = fst (apply_self_repair user_text);
          text_for_classification = (if clean_text \<noteq> [] then clean_text else user_text)
      in case analyze text_for_classification (Some state) of
           Inl e \<Rightarrow> Inl e
         | Inr (act_major, intent, slots0) \<Rightarrow>
             Inr (text_for_classification, act_major, intent,
                  fst (resolve_references user_text slots0 state)))"

text \<open>
  Stage 2, bookkeeping: name capture and verification, the effective intent, the merge
  of durable and current slots, topic tracking, and the user turn appended to the
  history.
\<close>

record tracked =
  tr_state :: dialogue_state
  tr_effective_intent :: string
  tr_merged :: slots
  tr_calls :: "call list"

definition track_turn ::
  "collaborators \<Rightarrow> string \<Rightarrow> string \<Rightarrow> string \<Rightarrow> string \<Rightarrow> slots \<Rightarrow> dialogue_state \<Rightarrow> tracked" where
  "track_turn co user_text text_for_classification act_major intent sl state =
     (let act_sub = sget sl ''act_subtype'';
          mood = get_mood text_for_classification;
          name = extract_full_name user_text;
          name_calls = (case name of
                          None \<Rightarrow> []
                        | Some n \<Rightarrow> if n \<noteq> [] \<and> db_enabled state then [CallStaffLookup n] else []);
          st1 = fst (verify_identity co name state);
          identity_only = ((case name of None \<Rightarrow> False | Some n \<Rightarrow> n \<noteq> []) \<or> mentions_anonymous user_text);
          effective_intent = effective_intent_of intent identity_only (prev_domain st1);
          merged = merged_slots (slots st1) sl;
          st2 = update_topics_and_entities (hash8 co) effective_intent merged st1;
          st3 = add_user_turn user_text act_major (str_of act_sub) intent sl mood st2
      in \<lparr> tr_state = st3, tr_effective_intent = effective_intent, tr_merged = merged,
           tr_calls = name_calls \<rparr>)"

text \<open>
  Stage 3, the gates in their order (onboarding, quick acknowledgment, cancellation,
  confirmation, the anonymous staff gate) and, past them, the tool calls and the hand-off
  to the language model. The code between the gates and the tool calls composes the
  prompt from reads of the state; of the prompt the reply keeps the two summaries
  (\<open>kg_result\<close> is the collaborator's summary, or the marker \<open>cache\<close> when the cached
  rows answered).
\<close>

definition respond ::
  "collaborators \<Rightarrow> message list \<Rightarrow> string \<Rightarrow> string \<Rightarrow> slots \<Rightarrow> tracked \<Rightarrow>
   reply \<times> dialogue_state \<times> call list" where
  "respond co payload user_text intent sl tr =
     (let st3 = tr_state tr;
          act_sub = sget sl ''act_subtype''
      in if needs_onboarding st3 \<and> intent \<notin> set SMALLTALK_INTENTS
         then (OnboardingPrompt, st3\<lparr> asked_name_once := True \<rparr>, tr_calls tr)
         else if py_in act_sub quick_ack_subtypes
         then (QuickAck (quick_ack (case str_of act_sub of None \<Rightarrow> [] | Some s \<Rightarrow> s) (user_profile st3)),
               st3, tr_calls tr)
         else if truthy (sget sl ''cancel'')
         then (QuickAck (quick_ack ''APOLOGIZE'' (user_profile st3)),
               st3\<lparr> pending_action := None \<rparr>, tr_calls tr)
         else if truthy (sget sl ''confirm'') \<and> pending_truthy st3
         then (Confirmed, st3\<lparr> pending_action := None \<rparr>, tr_calls tr)
         else if up_privacy_mode (user_profile st3) = ''anonymous''
                 \<and> (contains ''staff'' (lower user_text) \<or> contains ''employee'' (lower user_text))
                 \<and> tr_effective_intent tr \<in> set DB_INTENTS
         then (StaffDeflection, st3, tr_calls tr)
         else
           let d = dispatch_tools co payload user_text (tr_effective_intent tr) (tr_merged tr) st3;
               cached = fst (fst d);
               kg_result = (if cached then Some ''cache'' else fst (snd (fst d)));
               db_result = snd (snd (fst d))
           in (LLMStream kg_result db_result, fst (snd d), tr_calls tr @ snd (snd d) @ [CallLLM]))"

definition route_request ::
  "collaborators \<Rightarrow> message list \<Rightarrow> dialogue_state \<Rightarrow> error + (reply \<times> dialogue_state \<times> call list)" where
  "route_request co payload state =
     (case classify payload state of
        Inl e \<Rightarrow> Inl e
      | Inr (text_for_classification, act_major, intent, sl) \<Rightarrow>
          Inr (respond co payload (latest_user payload) intent sl
                 (track_turn co (latest_user payload) text_for_classification act_major intent sl state)))"

text \<open>
  A session: the payloads of successive turns routed on one state. A turn on which
  \<open>route_request\<close> raises leaves the state as it was and has no reply.
\<close>

primrec run_session :: "collaborators \<Rightarrow> message list list \<Rightarrow> dialogue_state \<Rightarrow> reply option list \<times> dialogue_state" where
  "run_session co [] st = ([], st)"
| "run_session co (p # ps) st =
     (case route_request co p st of
        Inl e \<Rightarrow> (None # fst (run_session co ps st), snd (run_session co ps st))
      | Inr r \<Rightarrow> (Some (fst r) # fst (run_session co ps (fst (snd r))),
                  snd (run_session co ps (fst (snd r)))))"

text \<open>
  The effective intents that the turns of a session hand to
  \<open>update_topics_and_entities\<close>, in order; a turn on which \<open>analyze\<close> raises hands
  none.
\<close>

primrec topic_intents :: "collaborators \<Rightarrow> message list list \<Rightarrow> dialogue_state \<Rightarrow> string list" where
  "topic_intents co [] st = []"
| "topic_intents co (p # ps) st =
     (case classify p st of
        Inl e \<Rightarrow> topic_intents co ps st
      | Inr c \<Rightarrow>
          tr_effective_intent (track_turn co (latest_user p) (fst c) (fst (snd c)) (fst (snd (snd c)))
                                 (snd (snd (snd c))) st)
          # topic_intents co ps (snd (run_session co [p] st)))"

text \<open>What a router invocation extracted and what it returned, read off its result.\<close>

definition turn_slots :: "message list \<Rightarrow> dialogue_state \<Rightarrow> slots" where
  "turn_slots payload st =
     (case classify payload st of Inl e \<Rightarrow> Map.empty | Inr c \<Rightarrow> snd (snd (snd c)))"

definition reply_of :: "error + (reply \<times> dialogue_state \<times> call list) \<Rightarrow> reply option" where
  "reply_of r = (case r of Inl e \<Rightarrow> None | Inr x \<Rightarrow> Some (fst x))"

definition state_of :: "error + (reply \<times> dialogue_state \<times> call list) \<Rightarrow> dialogue_state option" where
  "state_of r = (case r of Inl e \<Rightarrow> None | Inr x \<Rightarrow> Some (fst (snd x)))"

text \<open>
  How the state of a session can change after a given point: by router invocations, by
  the public operations of the state, and by the field writes the repository performs
  from outside the class, a replacement of the whole profile included. No rule resets
  \<open>asked_name_once\<close>: no code does.
\<close>

inductive evolves :: "collaborators \<Rightarrow> dialogue_state \<Rightarrow> dialogue_state \<Rightarrow> bool" for co :: collaborators where
  e_refl: "evolves co st st"
| e_route: "evolves co st st1 \<Longrightarrow> route_request co p st1 = Inr (rep, st2, cs) \<Longrightarrow> evolves co st st2"
| e_user_turn: "evolves co st st1 \<Longrightarrow> evolves co st (add_user_turn tx am asub intent sl mood st1)"
| e_assistant_turn: "evolves co st st1 \<Longrightarrow> evolves co st (add_assistant_turn tx sl st1)"
| e_log_db: "evolves co st st1 \<Longrightarrow> evolves co st (log_db_result sql params rows ms err st1)"
| e_log_kg: "evolves co st st1 \<Longrightarrow> evolves co st (log_kg_result sparql bindings ms err st1)"
| e_identity: "evolves co st st1 \<Longrightarrow> evolves co st (update_user_identity n sid r rl d pm st1)"
| e_topics: "evolves co st st1 \<Longrightarrow> evolves co st (update_topics_and_entities H intent sl st1)"
| e_profile: "evolves co st st1 \<Longrightarrow> evolves co st (st1\<lparr> user_profile := up \<rparr>)"
| e_pending: "evolves co st st1 \<Longrightarrow> evolves co st (st1\<lparr> pending_action := pa \<rparr>)"
| e_kg_rows: "evolves co st st1 \<Longrightarrow> evolves co st (st1\<lparr> last_kg_rows := rows \<rparr>)"
| e_kg_cache: "evolves co st st1 \<Longrightarrow> evolves co st (st1\<lparr> kg_detail_cache := c \<rparr>)"
| e_db_enabled: "evolves co st st1 \<Longrightarrow> evolves co st (st1\<lparr> db_enabled := b \<rparr>)"

section \<open>Example sessions\<close>

text \<open>
  Collaborators in the manner of the demo harness (tests/demo_linguistics.py): a staff
  directory with its two entries, a knowledge graph that logs two rows, a database that
  logs two rows.
\<close>

definition demo_staff :: "string \<Rightarrow> staff option" where
  "demo_staff name =
     (if name = ''Danielle Smith''
      then Some \<lparr> s_id = Some 7, s_name = Some ''Danielle Smith'', s_role = Some ''Head of Ops'',
                  s_role_level = Some 3, s_department = Some ''Operations'' \<rparr>
      else if name = ''Alex Johnson''
      then Some \<lparr> s_id = Some 12, s_name = Some ''Alex Johnson'', s_role = Some ''Engineer'',
                  s_role_level = Some 6, s_department = Some ''Engineering'' \<rparr>
      else None)"

definition demo_kg :: "message list \<Rightarrow> string \<Rightarrow> slots \<Rightarrow> dialogue_state \<Rightarrow> string option \<times> backend_effect list" where
  "demo_kg payload user_text sl st =
     (Some ''Demo A, Demo B'', [LogKg ''SPARQL ...'' [[(''name'', ''A'')], [(''name'', ''B'')]] 25 None])"

definition demo_db :: "message list \<Rightarrow> string \<Rightarrow> slots \<Rightarrow> dialogue_state \<Rightarrow> string option \<times> backend_effect list" where
  "demo_db payload user_text sl st =
     (Some ''#101 Prepare Q3 report, #102 Ops sync'',
      [LogDb ''SELECT ...'' []
         [[(''id'', PInt 101), (''task'', PStr ''Prepare Q3 report'')],
          [(''id'', PInt 102), (''task'', PStr ''Ops sync'')]] 12 None])"

definition demo :: collaborators where
  "demo = \<lparr> hash8 = blake2b_known, lookup_staff_by_name_exact = demo_staff,
            answer_with_kg = demo_kg, answer_with_db = demo_db \<rparr>"

definition user_says :: "string \<Rightarrow> message list" where
  "user_says s = [\<lparr> m_role = ''user'', m_content = s \<rparr>]"

text \<open>A fresh session in which an action awaits confirmation, as the demo harness sets it.\<close>

definition pending_state :: dialogue_state where
  "pending_state = new_state\<lparr> pending_action := Some [(''kind'', PStr ''send_summary'')] \<rparr>"

text \<open>The same after \<open>update_user_identity(None, None, None, None, None, "anonymous")\<close>.\<close>

definition anonymous_pending_state :: dialogue_state where
  "anonymous_pending_state = update_user_identity None None None None None ''anonymous'' pending_state"

text \<open>The slot maps extracted from "stop" and from "sorry nvm".\<close>

definition stop_slots :: slots where
  "stop_slots = [''cancel'' \<mapsto> PBool True, ''act_subtype'' \<mapsto> PStr ''DENY'']"

definition nvm_slots :: slots where
  "nvm_slots = [''cancel'' \<mapsto> PBool True, ''act_subtype'' \<mapsto> PStr ''APOLOGIZE'']"

section \<open>Evaluation\<close>

text \<open>
  The character functions, tabulated: one equation per code point, proved from the
  definitions. As code equations they let \<open>code_simp\<close> classify a character in one step.
\<close>

lemma lower_char_table [code]:
  "lower_char (CHR 0x00) = CHR 0x00" "lower_char (CHR 0x01) = CHR 0x01"
  "lower_char (CHR 0x02) = CHR 0x02" "lower_char (CHR 0x03) = CHR 0x03"
  "lower_char (CHR 0x04) = CHR 0x04" "lower_char (CHR 0x05) = CHR 0x05"
  "lower_char (CHR 0x06) = CHR 0x06" "lower_char (CHR 0x07) = CHR 0x07"
  "lower_char (CHR 0x08) = CHR 0x08" "lower_char (CHR 0x09) = CHR 0x09"
  "lower_char (CHR 0x0A) = CHR 0x0A" "lower_char (CHR 0x0B) = CHR 0x0B"
  "lower_char (CHR 0x0C) = CHR 0x0C" "lower_char (CHR 0x0D) = CHR 0x0D"
  "lower_char (CHR 0x0E) = CHR 0x0E" "lower_char (CHR 0x0F) = CHR 0x0F"
  "lower_char (CHR 0x10) = CHR 0x10" "lower_char (CHR 0x11) = CHR 0x11"
  "lower_char (CHR 0x12) = CHR 0x12" "lower_char (CHR 0x13) = CHR 0x13"
  "lower_char (CHR 0x14) = CHR 0x14" "lower_char (CHR 0x15) = CHR 0x15"
  "lower_char (CHR 0x16) = CHR 0x16" "lower_char (CHR 0x17) = CHR 0x17"
  "lower_char (CHR 0x18) = CHR 0x18" "lower_char (CHR 0x19) = CHR 0x19"
  "lower_char (CHR 0x1A) = CHR 0x1A" "lower_char (CHR 0x1B) = CHR 0x1B"
  "lower_char (CHR 0x1C) = CHR 0x1C" "lower_char (CHR 0x1D) = CHR 0x1D"
  "lower_char (CHR 0x1E) = CHR 0x1E" "lower_char (CHR 0x1F) = CHR 0x1F"
  "lower_char (CHR '' '') = CHR '' ''" "lower_char (CHR ''!'') = CHR ''!''"
  "lower_char (CHR 0x22) = CHR 0x22" "lower_char (CHR ''#'') = CHR ''#''"
  "lower_char (CHR ''$'') = CHR ''$''" "lower_char (CHR ''%'') = CHR ''%''"
  "lower_char (CHR ''&'') = CHR ''&''" "lower_char (CHR 0x27) = CHR 0x27"
  "lower_char (CHR ''('') = CHR ''(''" "lower_char (CHR '')'') = CHR '')''"
  "lower_char (CHR ''*'') = CHR ''*''" "lower_char (CHR ''+'') = CHR ''+''"
  "lower_char (CHR '','') = CHR '',''" "lower_char (CHR ''-'') = CHR ''-''"
  "lower_char (CHR ''.'') = CHR ''.''" "lower_char (CHR ''/'') = CHR ''/''"
  "lower_char (CHR ''0'') = CHR ''0''" "lower_char (CHR ''1'') = CHR ''1''"
  "lower_char (CHR ''2'') = CHR ''2''" "lower_char (CHR ''3'') = CHR ''3''"
  "lower_char (CHR ''4'') = CHR ''4''" "lower_char (CHR ''5'') = CHR ''5''"
  "lower_char (CHR ''6'') = CHR ''6''" "lower_char (CHR ''7'') = CHR ''7''"
  "lower_char (CHR ''8'') = CHR ''8''" "lower_char (CHR ''9'') = CHR ''9''"
  "lower_char (CHR '':'') = CHR '':''" "lower_char (CHR '';'') = CHR '';''"
  "lower_char (CHR ''<'') = CHR ''<''" "lower_char (CHR ''='') = CHR ''=''"
  "lower_char (CHR ''>'') = CHR ''>''" "lower_char (CHR ''?'') = CHR ''?''"
  "lower_char (CHR ''@'') = CHR ''@''" "lower_char (CHR ''A'') = CHR ''a''"
  "lower_char (CHR ''B'') = CHR ''b''" "lower_char (CHR ''C'') = CHR ''c''"
  "lower_char (CHR ''D'') = CHR ''d''" "lower_char (CHR ''E'') = CHR ''e''"
  "lower_char (CHR ''F'') = CHR ''f''" "lower_char (CHR ''G'') = CHR ''g''"
  "lower_char (CHR ''H'') = CHR ''h''" "lower_char (CHR ''I'') = CHR ''i''"
  "lower_char (CHR ''J'') = CHR ''j''" "lower_char (CHR ''K'') = CHR ''k''"
  "lower_char (CHR ''L'') = CHR ''l''" "lower_char (CHR ''M'') = CHR ''m''"
  "lower_char (CHR ''N'') = CHR ''n''" "lower_char (CHR ''O'') = CHR ''o''"
  "lower_char (CHR ''P'') = CHR ''p''" "lower_char (CHR ''Q'') = CHR ''q''"
  "lower_char (CHR ''R'') = CHR ''r''" "lower_char (CHR ''S'') = CHR ''s''"
  "lower_char (CHR ''T'') = CHR ''t''" "lower_char (CHR ''U'') = CHR ''u''"
  "lower_char (CHR ''V'') = CHR ''v''" "lower_char (CHR ''W'') = CHR ''w''"
  "lower_char (CHR ''X'') = CHR ''x''" "lower_char (CHR ''Y'') = CHR ''y''"
  "lower_char (CHR ''Z'') = CHR ''z''" "lower_char (CHR ''['') = CHR ''[''"
  "lower_char (CHR 0x5C) = CHR 0x5C" "lower_char (CHR '']'') = CHR '']''"
  "lower_char (CHR ''^'') = CHR ''^''" "lower_char (CHR ''_'') = CHR ''_''"
  "lower_char (CHR 0x60) = CHR 0x60" "lower_char (CHR ''a'') = CHR ''a''"
  "lower_char (CHR ''b'') = CHR ''b''" "lower_char (CHR ''c'') = CHR ''c''"
  "lower_char (CHR ''d'') = CHR ''d''" "lower_char (CHR ''e'') = CHR ''e''"
  "lower_char (CHR ''f'') = CHR ''f''" "lower_char (CHR ''g'') = CHR ''g''"
  "lower_char (CHR ''h'') = CHR ''h''" "lower_char (CHR ''i'') = CHR ''i''"
  "lower_char (CHR ''j'') = CHR ''j''" "lower_char (CHR ''k'') = CHR ''k''"
  "lower_char (CHR ''l'') = CHR ''l''" "lower_char (CHR ''m'') = CHR ''m''"
  "lower_char (CHR ''n'') = CHR ''n''" "lower_char (CHR ''o'') = CHR ''o''"
  "lower_char (CHR ''p'') = CHR ''p''" "lower_char (CHR ''q'') = CHR ''q''"
  "lower_char (CHR ''r'') = CHR ''r''" "lower_char (CHR ''s'') = CHR ''s''"
  "lower_char (CHR ''t'') = CHR ''t''" "lower_char (CHR ''u'') = CHR ''u''"
  "lower_char (CHR ''v'') = CHR ''v''" "lower_char (CHR ''w'') = CHR ''w''"
  "lower_char (CHR ''x'') = CHR ''x''" "lower_char (CHR ''y'') = CHR ''y''"
  "lower_char (CHR ''z'') = CHR ''z''" "lower_char (CHR ''{'') = CHR ''{''"
  "lower_char (CHR ''|'') = CHR ''|''" "lower_char (CHR ''}'') = CHR ''}''"
  "lower_char (CHR ''~'') = CHR ''~''" "lower_char (CHR 0x7F) = CHR 0x7F"
  "lower_char (CHR 0x80) = CHR 0x80" "lower_char (CHR 0x81) = CHR 0x81"
  "lower_char (CHR 0x82) = CHR 0x82" "lower_char (CHR 0x83) = CHR 0x83"
  "lower_char (CHR 0x84) = CHR 0x84" "lower_char (CHR 0x85) = CHR 0x85"
  "lower_char (CHR 0x86) = CHR 0x86" "lower_char (CHR 0x87) = CHR 0x87"
  "lower_char (CHR 0x88) = CHR 0x88" "lower_char (CHR 0x89) = CHR 0x89"
  "lower_char (CHR 0x8A) = CHR 0x8A" "lower_char (CHR 0x8B) = CHR 0x8B"
  "lower_char (CHR 0x8C) = CHR 0x8C" "lower_char (CHR 0x8D) = CHR 0x8D"
  "lower_char (CHR 0x8E) = CHR 0x8E" "lower_char (CHR 0x8F) = CHR 0x8F"
  "lower_char (CHR 0x90) = CHR 0x90" "lower_char (CHR 0x91) = CHR 0x91"
  "lower_char (CHR 0x92) = CHR 0x92" "lower_char (CHR 0x93) = CHR 0x93"
  "lower_char (CHR 0x94) = CHR 0x94" "lower_char (CHR 0x95) = CHR 0x95"
  "lower_char (CHR 0x96) = CHR 0x96" "lower_char (CHR 0x97) = CHR 0x97"
  "lower_char (CHR 0x98) = CHR 0x98" "lower_char (CHR 0x99) = CHR 0x99"
  "lower_char (CHR 0x9A) = CHR 0x9A" "lower_char (CHR 0x9B) = CHR 0x9B"
  "lower_char (CHR 0x9C) = CHR 0x9C" "lower_char (CHR 0x9D) = CHR 0x9D"
  "lower_char (CHR 0x9E) = CHR 0x9E" "lower_char (CHR 0x9F) = CHR 0x9F"
  "lower_char (CHR 0xA0) = CHR 0xA0" "lower_char (CHR 0xA1) = CHR 0xA1"
  "lower_char (CHR 0xA2) = CHR 0xA2" "lower_char (CHR 0xA3) = CHR 0xA3"
  "lower_char (CHR 0xA4) = CHR 0xA4" "lower_char (CHR 0xA5) = CHR 0xA5"
  "lower_char (CHR 0xA6) = CHR 0xA6" "lower_char (CHR 0xA7) = CHR 0xA7"
  "lower_char (CHR 0xA8) = CHR 0xA8" "lower_char (CHR 0xA9) = CHR 0xA9"
  "lower_char (CHR 0xAA) = CHR 0xAA" "lower_char (CHR 0xAB) = CHR 0xAB"
  "lower_char (CHR 0xAC) = CHR 0xAC" "lower_char (CHR 0xAD) = CHR 0xAD"
  "lower_char (CHR 0xAE) = CHR 0xAE" "lower_char (CHR 0xAF) = CHR 0xAF"
  "lower_char (CHR 0xB0) = CHR 0xB0" "lower_char (CHR 0xB1) = CHR 0xB1"
  "lower_char (CHR 0xB2) = CHR 0xB2" "lower_char (CHR 0xB3) = CHR 0xB3"
  "lower_char (CHR 0xB4) = CHR 0xB4" "lower_char (CHR 0xB5) = CHR 0xB5"
  "lower_char (CHR 0xB6) = CHR 0xB6" "lower_char (CHR 0xB7) = CHR 0xB7"
  "lower_char (CHR 0xB8) = CHR 0xB8" "lower_char (CHR 0xB9) = CHR 0xB9"
  "lower_char (CHR 0xBA) = CHR 0xBA" "lower_char (CHR 0xBB) = CHR 0xBB"
  "lower_char (CHR 0xBC) = CHR 0xBC" "lower_char (CHR 0xBD) = CHR 0xBD"
  "lower_char (CHR 0xBE) = CHR 0xBE" "lower_char (CHR 0xBF) = CHR 0xBF"
  "lower_char (CHR 0xC0) = CHR 0xE0" "lower_char (CHR 0xC1) = CHR 0xE1"
  "lower_char (CHR 0xC2) = CHR 0xE2" "lower_char (CHR 0xC3) = CHR 0xE3"
  "lower_char (CHR 0xC4) = CHR 0xE4" "lower_char (CHR 0xC5) = CHR 0xE5"
  "lower_char (CHR 0xC6) = CHR 0xE6" "lower_char (CHR 0xC7) = CHR 0xE7"
  "lower_char (CHR 0xC8) = CHR 0xE8" "lower_char (CHR 0xC9) = CHR 0xE9"
  "lower_char (CHR 0xCA) = CHR 0xEA" "lower_char (CHR 0xCB) = CHR 0xEB"
  "lower_char (CHR 0xCC) = CHR 0xEC" "lower_char (CHR 0xCD) = CHR 0xED"
  "lower_char (CHR 0xCE) = CHR 0xEE" "lower_char (CHR 0xCF) = CHR 0xEF"
  "lower_char (CHR 0xD0) = CHR 0xF0" "lower_char (CHR 0xD1) = CHR 0xF1"
  "lower_char (CHR 0xD2) = CHR 0xF2" "lower_char (CHR 0xD3) = CHR 0xF3"
  "lower_char (CHR 0xD4) = CHR 0xF4" "lower_char (CHR 0xD5) = CHR 0xF5"
  "lower_char (CHR 0xD6) = CHR 0xF6" "lower_char (CHR 0xD7) = CHR 0xD7"
  "lower_char (CHR 0xD8) = CHR 0xF8" "lower_char (CHR 0xD9) = CHR 0xF9"
  "lower_char (CHR 0xDA) = CHR 0xFA" "lower_char (CHR 0xDB) = CHR 0xFB"
  "lower_char (CHR 0xDC) = CHR 0xFC" "lower_char (CHR 0xDD) = CHR 0xFD"
  "lower_char (CHR 0xDE) = CHR 0xFE" "lower_char (CHR 0xDF) = CHR 0xDF"
  "lower_char (CHR 0xE0) = CHR 0xE0" "lower_char (CHR 0xE1) = CHR 0xE1"
  "lower_char (CHR 0xE2) = CHR 0xE2" "lower_char (CHR 0xE3) = CHR 0xE3"
  "lower_char (CHR 0xE4) = CHR 0xE4" "lower_char (CHR 0xE5) = CHR 0xE5"
  "lower_char (CHR 0xE6) = CHR 0xE6" "lower_char (CHR 0xE7) = CHR 0xE7"
  "lower_char (CHR 0xE8) = CHR 0xE8" "lower_char (CHR 0xE9) = CHR 0xE9"
  "lower_char (CHR 0xEA) = CHR 0xEA" "lower_char (CHR 0xEB) = CHR 0xEB"
  "lower_char (CHR 0xEC) = CHR 0xEC" "lower_char (CHR 0xED) = CHR 0xED"
  "lower_char (CHR 0xEE) = CHR 0xEE" "lower_char (CHR 0xEF) = CHR 0xEF"
  "lower_char (CHR 0xF0) = CHR 0xF0" "lower_char (CHR 0xF1) = CHR 0xF1"
  "lower_char (CHR 0xF2) = CHR 0xF2" "lower_char (CHR 0xF3) = CHR 0xF3"
  "lower_char (CHR 0xF4) = CHR 0xF4" "lower_char (CHR 0xF5) = CHR 0xF5"
  "lower_char (CHR 0xF6) = CHR 0xF6" "lower_char (CHR 0xF7) = CHR 0xF7"
  "lower_char (CHR 0xF8) = CHR 0xF8" "lower_char (CHR 0xF9) = CHR 0xF9"
  "lower_char (CHR 0xFA) = CHR 0xFA" "lower_char (CHR 0xFB) = CHR 0xFB"
  "lower_char (CHR 0xFC) = CHR 0xFC" "lower_char (CHR 0xFD) = CHR 0xFD"
  "lower_char (CHR 0xFE) = CHR 0xFE" "lower_char (CHR 0xFF) = CHR 0xFF"
  by (simp_all add: lower_char_def) code_simp+

lemma upper_char_table [code]:
  "upper_char (CHR 0x00) = CHR 0x00" "upper_char (CHR 0x01) = CHR 0x01"
  "upper_char (CHR 0x02) = CHR 0x02" "upper_char (CHR 0x03) = CHR 0x03"
  "upper_char (CHR 0x04) = CHR 0x04" "upper_char (CHR 0x05) = CHR 0x05"
  "upper_char (CHR 0x06) = CHR 0x06" "upper_char (CHR 0x07) = CHR 0x07"
  "upper_char (CHR 0x08) = CHR 0x08" "upper_char (CHR 0x09) = CHR 0x09"
  "upper_char (CHR 0x0A) = CHR 0x0A" "upper_char (CHR 0x0B) = CHR 0x0B"
  "upper_char (CHR 0x0C) = CHR 0x0C" "upper_char (CHR 0x0D) = CHR 0x0D"
  "upper_char (CHR 0x0E) = CHR 0x0E" "upper_char (CHR 0x0F) = CHR 0x0F"
  "upper_char (CHR 0x10) = CHR 0x10" "upper_char (CHR 0x11) = CHR 0x11"
  "upper_char (CHR 0x12) = CHR 0x12" "upper_char (CHR 0x13) = CHR 0x13"
  "upper_char (CHR 0x14) = CHR 0x14" "upper_char (CHR 0x15) = CHR 0x15"
  "upper_char (CHR 0x16) = CHR 0x16" "upper_char (CHR 0x17) = CHR 0x17"
  "upper_char (CHR 0x18) = CHR 0x18" "upper_char (CHR 0x19) = CHR 0x19"
  "upper_char (CHR 0x1A) = CHR 0x1A" "upper_char (CHR 0x1B) = CHR 0x1B"
  "upper_char (CHR 0x1C) = CHR 0x1C" "upper_char (CHR 0x1D) = CHR 0x1D"
  "upper_char (CHR 0x1E) = CHR 0x1E" "upper_char (CHR 0x1F) = CHR 0x1F"
  "upper_char (CHR '' '') = CHR '' ''" "upper_char (CHR ''!'') = CHR ''!''"
  "upper_char (CHR 0x22) = CHR 0x22" "upper_char (CHR ''#'') = CHR ''#''"
  "upper_char (CHR ''$'') = CHR ''$''" "upper_char (CHR ''%'') = CHR ''%''"
  "upper_char (CHR ''&'') = CHR ''&''" "upper_char (CHR 0x27) = CHR 0x27"
  "upper_char (CHR ''('') = CHR ''(''" "upper_char (CHR '')'') = CHR '')''"
  "upper_char (CHR ''*'') = CHR ''*''" "upper_char (CHR ''+'') = CHR ''+''"
  "upper_char (CHR '','') = CHR '',''" "upper_char (CHR ''-'') = CHR ''-''"
  "upper_char (CHR ''.'') = CHR ''.''" "upper_char (CHR ''/'') = CHR ''/''"
  "upper_char (CHR ''0'') = CHR ''0''" "upper_char (CHR ''1'') = CHR ''1''"
  "upper_char (CHR ''2'') = CHR ''2''" "upper_char (CHR ''3'') = CHR ''3''"
  "upper_char (CHR ''4'') = CHR ''4''" "upper_char (CHR ''5'') = CHR ''5''"
  "upper_char (CHR ''6'') = CHR ''6''" "upper_char (CHR ''7'') = CHR ''7''"
  "upper_char (CHR ''8'') = CHR ''8''" "upper_char (CHR ''9'') = CHR ''9''"
  "upper_char (CHR '':'') = CHR '':''" "upper_char (CHR '';'') = CHR '';''"
  "upper_char (CHR ''<'') = CHR ''<''" "upper_char (CHR ''='') = CHR ''=''"
  "upper_char (CHR ''>'') = CHR ''>''" "upper_char (CHR ''?'') = CHR ''?''"
  "upper_char (CHR ''@'') = CHR ''@''" "upper_char (CHR ''A'') = CHR ''A''"
  "upper_char (CHR ''B'') = CHR ''B''" "upper_char (CHR ''C'') = CHR ''C''"
  "upper_char (CHR ''D'') = CHR ''D''" "upper_char (CHR ''E'') = CHR ''E''"
  "upper_char (CHR ''F'') = CHR ''F''" "upper_char (CHR ''G'') = CHR ''G''"
  "upper_char (CHR ''H'') = CHR ''H''" "upper_char (CHR ''I'') = CHR ''I''"
  "upper_char (CHR ''J'') = CHR ''J''" "upper_char (CHR ''K'') = CHR ''K''"
  "upper_char (CHR ''L'') = CHR ''L''" "upper_char (CHR ''M'') = CHR ''M''"
  "upper_char (CHR ''N'') = CHR ''N''" "upper_char (CHR ''O'') = CHR ''O''"
  "upper_char (CHR ''P'') = CHR ''P''" "upper_char (CHR ''Q'') = CHR ''Q''"
  "upper_char (CHR ''R'') = CHR ''R''" "upper_char (CHR ''S'') = CHR ''S''"
  "upper_char (CHR ''T'') = CHR ''T''" "upper_char (CHR ''U'') = CHR ''U''"
  "upper_char (CHR ''V'') = CHR ''V''" "upper_char (CHR ''W'') = CHR ''W''"
  "upper_char (CHR ''X'') = CHR ''X''" "upper_char (CHR ''Y'') = CHR ''Y''"
  "upper_char (CHR ''Z'') = CHR ''Z''" "upper_char (CHR ''['') = CHR ''[''"
  "upper_char (CHR 0x5C) = CHR 0x5C" "upper_char (CHR '']'') = CHR '']''"
  "upper_char (CHR ''^'') = CHR ''^''" "upper_char (CHR ''_'') = CHR ''_''"
  "upper_char (CHR 0x60) = CHR 0x60" "upper_char (CHR ''a'') = CHR ''A''"
  "upper_char (CHR ''b'') = CHR ''B''" "upper_char (CHR ''c'') = CHR ''C''"
  "upper_char (CHR ''d'') = CHR ''D''" "upper_char (CHR ''e'') = CHR ''E''"
  "upper_char (CHR ''f'') = CHR ''F''" "upper_char (CHR ''g'') = CHR ''G''"
  "upper_char (CHR ''h'') = CHR ''H''" "upper_char (CHR ''i'') = CHR ''I''"
  "upper_char (CHR ''j'') = CHR ''J''" "upper_char (CHR ''k'') = CHR ''K''"
  "upper_char (CHR ''l'') = CHR ''L''" "upper_char (CHR ''m'') = CHR ''M''"
  "upper_char (CHR ''n'') = CHR ''N''" "upper_char (CHR ''o'') = CHR ''O''"
  "upper_char (CHR ''p'') = CHR ''P''" "upper_char (CHR ''q'') = CHR ''Q''"
  "upper_char (CHR ''r'') = CHR ''R''" "upper_char (CHR ''s'') = CHR ''S''"
  "upper_char (CHR ''t'') = CHR ''T''" "upper_char (CHR ''u'') = CHR ''U''"
  "upper_char (CHR ''v'') = CHR ''V''" "upper_char (CHR ''w'') = CHR ''W''"
  "upper_char (CHR ''x'') = CHR ''X''" "upper_char (CHR ''y'') = CHR ''Y''"
  "upper_char (CHR ''z'') = CHR ''Z''" "upper_char (CHR ''{'') = CHR ''{''"
  "upper_char (CHR ''|'') = CHR ''|''" "upper_char (CHR ''}'') = CHR ''}''"
  "upper_char (CHR ''~'') = CHR ''~''" "upper_char (CHR 0x7F) = CHR 0x7F"
  "upper_char (CHR 0x80) = CHR 0x80" "upper_char (CHR 0x81) = CHR 0x81"
  "upper_char (CHR 0x82) = CHR 0x82" "upper_char (CHR 0x83) = CHR 0x83"
  "upper_char (CHR 0x84) = CHR 0x84" "upper_char (CHR 0x85) = CHR 0x85"
  "upper_char (CHR 0x86) = CHR 0x86" "upper_char (CHR 0x87) = CHR 0x87"
  "upper_char (CHR 0x88) = CHR 0x88" "upper_char (CHR 0x89) = CHR 0x89"
  "upper_char (CHR 0x8A) = CHR 0x8A" "upper_char (CHR 0x8B) = CHR 0x8B"
  "upper_char (CHR 0x8C) = CHR 0x8C" "upper_char (CHR 0x8D) = CHR 0x8D"
  "upper_char (CHR 0x8E) = CHR 0x8E" "upper_char (CHR 0x8F) = CHR 0x8F"
  "upper_char (CHR 0x90) = CHR 0x90" "upper_char (CHR 0x91) = CHR 0x91"
  "upper_char (CHR 0x92) = CHR 0x92" "upper_char (CHR 0x93) = CHR 0x93"
  "upper_char (CHR 0x94) = CHR 0x94" "upper_char (CHR 0x95) = CHR 0x95"
  "upper_char (CHR 0x96) = CHR 0x96" "upper_char (CHR 0x97) = CHR 0x97"
  "upper_char (CHR 0x98) = CHR 0x98" "upper_char (CHR 0x99) = CHR 0x99"
  "upper_char (CHR 0x9A) = CHR 0x9A" "upper_char (CHR 0x9B) = CHR 0x9B"
  "upper_char (CHR 0x9C) = CHR 0x9C" "upper_char (CHR 0x9D) = CHR 0x9D"
  "upper_char (CHR 0x9E) = CHR 0x9E" "upper_char (CHR 0x9F) = CHR 0x9F"
  "upper_char (CHR 0xA0) = CHR 0xA0" "upper_char (CHR 0xA1) = CHR 0xA1"
  "upper_char (CHR 0xA2) = CHR 0xA2" "upper_char (CHR 0xA3) = CHR 0xA3"
  "upper_char (CHR 0xA4) = CHR 0xA4" "upper_char (CHR 0xA5) = CHR 0xA5"
  "upper_char (CHR 0xA6) = CHR 0xA6" "upper_char (CHR 0xA7) = CHR 0xA7"
  "upper_char (CHR 0xA8) = CHR 0xA8" "upper_char (CHR 0xA9) = CHR 0xA9"
  "upper_char (CHR 0xAA) = CHR 0xAA" "upper_char (CHR 0xAB) = CHR 0xAB"
  "upper_char (CHR 0xAC) = CHR 0xAC" "upper_char (CHR 0xAD) = CHR 0xAD"
  "upper_char (CHR 0xAE) = CHR 0xAE" "upper_char (CHR 0xAF) = CHR 0xAF"
  "upper_char (CHR 0xB0) = CHR 0xB0" "upper_char (CHR 0xB1) = CHR 0xB1"
  "upper_char (CHR 0xB2) = CHR 0xB2" "upper_char (CHR 0xB3) = CHR 0xB3"
  "upper_char (CHR 0xB4) = CHR 0xB4" "upper_char (CHR 0xB5) = CHR 0xB5"
  "upper_char (CHR 0xB6) = CHR 0xB6" "upper_char (CHR 0xB7) = CHR 0xB7"
  "upper_char (CHR 0xB8) = CHR 0xB8" "upper_char (CHR 0xB9) = CHR 0xB9"
  "upper_char (CHR 0xBA) = CHR 0xBA" "upper_char (CHR 0xBB) = CHR 0xBB"
  "upper_char (CHR 0xBC) = CHR 0xBC" "upper_char (CHR 0xBD) = CHR 0xBD"
  "upper_char (CHR 0xBE) = CHR 0xBE" "upper_char (CHR 0xBF) = CHR 0xBF"
  "upper_char (CHR 0xC0) = CHR 0xC0" "upper_char (CHR 0xC1) = CHR 0xC1"
  "upper_char (CHR 0xC2) = CHR 0xC2" "upper_char (CHR 0xC3) = CHR 0xC3"
  "upper_char (CHR 0xC4) = CHR 0xC4" "upper_char (CHR 0xC5) = CHR 0xC5"
  "upper_char (CHR 0xC6) = CHR 0xC6" "upper_char (CHR 0xC7) = CHR 0xC7"
  "upper_char (CHR 0xC8) = CHR 0xC8" "upper_char (CHR 0xC9) = CHR 0xC9"
  "upper_char (CHR 0xCA) = CHR 0xCA" "upper_char (CHR 0xCB) = CHR 0xCB"
  "upper_char (CHR 0xCC) = CHR 0xCC" "upper_char (CHR 0xCD) = CHR 0xCD"
  "upper_char (CHR 0xCE) = CHR 0xCE" "upper_char (CHR 0xCF) = CHR 0xCF"
  "upper_char (CHR 0xD0) = CHR 0xD0" "upper_char (CHR 0xD1) = CHR 0xD1"
  "upper_char (CHR 0xD2) = CHR 0xD2" "upper_char (CHR 0xD3) = CHR 0xD3"
  "upper_char (CHR 0xD4) = CHR 0xD4" "upper_char (CHR 0xD5) = CHR 0xD5"
  "upper_char (CHR 0xD6) = CHR 0xD6" "upper_char (CHR 0xD7) = CHR 0xD7"
  "upper_char (CHR 0xD8) = CHR 0xD8" "upper_char (CHR 0xD9) = CHR 0xD9"
  "upper_char (CHR 0xDA) = CHR 0xDA" "upper_char (CHR 0xDB) = CHR 0xDB"
  "upper_char (CHR 0xDC) = CHR 0xDC" "upper_char (CHR 0xDD) = CHR 0xDD"
  "upper_char (CHR 0xDE) = CHR 0xDE" "upper_char (CHR 0xDF) = CHR 0xDF"
  "upper_char (CHR 0xE0) = CHR 0xC0" "upper_char (CHR 0xE1) = CHR 0xC1"
  "upper_char (CHR 0xE2) = CHR 0xC2" "upper_char (CHR 0xE3) = CHR 0xC3"
  "upper_char (CHR 0xE4) = CHR 0xC4" "upper_char (CHR 0xE5) = CHR 0xC5"
  "upper_char (CHR 0xE6) = CHR 0xC6" "upper_char (CHR 0xE7) = CHR 0xC7"
  "upper_char (CHR 0xE8) = CHR 0xC8" "upper_char (CHR 0xE9) = CHR 0xC9"
  "upper_char (CHR 0xEA) = CHR 0xCA" "upper_char (CHR 0xEB) = CHR 0xCB"
  "upper_char (CHR 0xEC) = CHR 0xCC" "upper_char (CHR 0xED) = CHR 0xCD"
  "upper_char (CHR 0xEE) = CHR 0xCE" "upper_char (CHR 0xEF) = CHR 0xCF"
  "upper_char (CHR 0xF0) = CHR 0xD0" "upper_char (CHR 0xF1) = CHR 0xD1"
  "upper_char (CHR 0xF2) = CHR 0xD2" "upper_char (CHR 0xF3) = CHR 0xD3"
  "upper_char (CHR 0xF4) = CHR 0xD4" "upper_char (CHR 0xF5) = CHR 0xD5"
  "upper_char (CHR 0xF6) = CHR 0xD6" "upper_char (CHR 0xF7) = CHR 0xF7"
  "upper_char (CHR 0xF8) = CHR 0xD8" "upper_char (CHR 0xF9) = CHR 0xD9"
  "upper_char (CHR 0xFA) = CHR 0xDA" "upper_char (CHR 0xFB) = CHR 0xDB"
  "upper_char (CHR 0xFC) = CHR 0xDC" "upper_char (CHR 0xFD) = CHR 0xDD"
  "upper_char (CHR 0xFE) = CHR 0xDE" "upper_char (CHR 0xFF) = CHR 0xFF"
  by (simp_all add: upper_char_def) code_simp+

lemma is_digit_table [code]:
  "is_digit (CHR 0x00) = False" "is_digit (CHR 0x01) = False" "is_digit (CHR 0x02) = False"
  "is_digit (CHR 0x03) = False" "is_digit (CHR 0x04) = False" "is_digit (CHR 0x05) = False"
  "is_digit (CHR 0x06) = False" "is_digit (CHR 0x07) = False" "is_digit (CHR 0x08) = False"
  "is_digit (CHR 0x09) = False" "is_digit (CHR 0x0A) = False" "is_digit (CHR 0x0B) = False"
  "is_digit (CHR 0x0C) = False" "is_digit (CHR 0x0D) = False" "is_digit (CHR 0x0E) = False"
  "is_digit (CHR 0x0F) = False" "is_digit (CHR 0x10) = False" "is_digit (CHR 0x11) = False"
  "is_digit (CHR 0x12) = False" "is_digit (CHR 0x13) = False" "is_digit (CHR 0x14) = False"
  "is_digit (CHR 0x15) = False" "is_digit (CHR 0x16) = False" "is_digit (CHR 0x17) = False"
  "is_digit (CHR 0x18) = False" "is_digit (CHR 0x19) = False" "is_digit (CHR 0x1A) = False"
  "is_digit (CHR 0x1B) = False" "is_digit (CHR 0x1C) = False" "is_digit (CHR 0x1D) = False"
  "is_digit (CHR 0x1E) = False" "is_digit (CHR 0x1F) = False" "is_digit (CHR '' '') = False"
  "is_digit (CHR ''!'') = False" "is_digit (CHR 0x22) = False" "is_digit (CHR ''#'') = False"
  "is_digit (CHR ''$'') = False" "is_digit (CHR ''%'') = False" "is_digit (CHR ''&'') = False"
  "is_digit (CHR 0x27) = False" "is_digit (CHR ''('') = False" "is_digit (CHR '')'') = False"
  "is_digit (CHR ''*'') = False" "is_digit (CHR ''+'') = False" "is_digit (CHR '','') = False"
  "is_digit (CHR ''-'') = False" "is_digit (CHR ''.'') = False" "is_digit (CHR ''/'') = False"
  "is_digit (CHR ''0'') = True" "is_digit (CHR ''1'') = True" "is_digit (CHR ''2'') = True"
  "is_digit (CHR ''3'') = True" "is_digit (CHR ''4'') = True" "is_digit (CHR ''5'') = True"
  "is_digit (CHR ''6'') = True" "is_digit (CHR ''7'') = True" "is_digit (CHR ''8'') = True"
  "is_digit (CHR ''9'') = True" "is_digit (CHR '':'') = False" "is_digit (CHR '';'') = False"
  "is_digit (CHR ''<'') = False" "is_digit (CHR ''='') = False" "is_digit (CHR ''>'') = False"
  "is_digit (CHR ''?'') = False" "is_digit (CHR ''@'') = False" "is_digit (CHR ''A'') = False"
  "is_digit (CHR ''B'') = False" "is_digit (CHR ''C'') = False" "is_digit (CHR ''D'') = False"
  "is_digit (CHR ''E'') = False" "is_digit (CHR ''F'') = False" "is_digit (CHR ''G'') = False"
  "is_digit (CHR ''H'') = False" "is_digit (CHR ''I'') = False" "is_digit (CHR ''J'') = False"
  "is_digit (CHR ''K'') = False" "is_digit (CHR ''L'') = False" "is_digit (CHR ''M'') = False"
  "is_digit (CHR ''N'') = False" "is_digit (CHR ''O'') = False" "is_digit (CHR ''P'') = False"
  "is_digit (CHR ''Q'') = False" "is_digit (CHR ''R'') = False" "is_digit (CHR ''S'') = False"
  "is_digit (CHR ''T'') = False" "is_digit (CHR ''U'') = False" "is_digit (CHR ''V'') = False"
  "is_digit (CHR ''W'') = False" "is_digit (CHR ''X'') = False" "is_digit (CHR ''Y'') = False"
  "is_digit (CHR ''Z'') = False" "is_digit (CHR ''['') = False" "is_digit (CHR 0x5C) = False"
  "is_digit (CHR '']'') = False" "is_digit (CHR ''^'') = False" "is_digit (CHR ''_'') = False"
  "is_digit (CHR 0x60) = False" "is_digit (CHR ''a'') = False" "is_digit (CHR ''b'') = False"
  "is_digit (CHR ''c'') = False" "is_digit (CHR ''d'') = False" "is_digit (CHR ''e'') = False"
  "is_digit (CHR ''f'') = False" "is_digit (CHR ''g'') = False" "is_digit (CHR ''h'') = False"
  "is_digit (CHR ''i'') = False" "is_digit (CHR ''j'') = False" "is_digit (CHR ''k'') = False"
  "is_digit (CHR ''l'') = False" "is_digit (CHR ''m'') = False" "is_digit (CHR ''n'') = False"
  "is_digit (CHR ''o'') = False" "is_digit (CHR ''p'') = False" "is_digit (CHR ''q'') = False"
  "is_digit (CHR ''r'') = False" "is_digit (CHR ''s'') = False" "is_digit (CHR ''t'') = False"
  "is_digit (CHR ''u'') = False" "is_digit (CHR ''v'') = False" "is_digit (CHR ''w'') = False"
  "is_digit (CHR ''x'') = False" "is_digit (CHR ''y'') = False" "is_digit (CHR ''z'') = False"
  "is_digit (CHR ''{'') = False" "is_digit (CHR ''|'') = False" "is_digit (CHR ''}'') = False"
  "is_digit (CHR ''~'') = False" "is_digit (CHR 0x7F) = False" "is_digit (CHR 0x80) = False"
  "is_digit (CHR 0x81) = False" "is_digit (CHR 0x82) = False" "is_digit (CHR 0x83) = False"
  "is_digit (CHR 0x84) = False" "is_digit (CHR 0x85) = False" "is_digit (CHR 0x86) = False"
  "is_digit (CHR 0x87) = False" "is_digit (CHR 0x88) = False" "is_digit (CHR 0x89) = False"
  "is_digit (CHR 0x8A) = False" "is_digit (CHR 0x8B) = False" "is_digit (CHR 0x8C) = False"
  "is_digit (CHR 0x8D) = False" "is_digit (CHR 0x8E) = False" "is_digit (CHR 0x8F) = False"
  "is_digit (CHR 0x90) = False" "is_digit (CHR 0x91) = False" "is_digit (CHR 0x92) = False"
  "is_digit (CHR 0x93) = False" "is_digit (CHR 0x94) = False" "is_digit (CHR 0x95) = False"
  "is_digit (CHR 0x96) = False" "is_digit (CHR 0x97) = False" "is_digit (CHR 0x98) = False"
  "is_digit (CHR 0x99) = False" "is_digit (CHR 0x9A) = False" "is_digit (CHR 0x9B) = False"
  "is_digit (CHR 0x9C) = False" "is_digit (CHR 0x9D) = False" "is_digit (CHR 0x9E) = False"
  "is_digit (CHR 0x9F) = False" "is_digit (CHR 0xA0) = False" "is_digit (CHR 0xA1) = False"
  "is_digit (CHR 0xA2) = False" "is_digit (CHR 0xA3) = False" "is_digit (CHR 0xA4) = False"
  "is_digit (CHR 0xA5) = False" "is_digit (CHR 0xA6) = False" "is_digit (CHR 0xA7) = False"
  "is_digit (CHR 0xA8) = False" "is_digit (CHR 0xA9) = False" "is_digit (CHR 0xAA) = False"
  "is_digit (CHR 0xAB) = False" "is_digit (CHR 0xAC) = False" "is_digit (CHR 0xAD) = False"
  "is_digit (CHR 0xAE) = False" "is_digit (CHR 0xAF) = False" "is_digit (CHR 0xB0) = False"
  "is_digit (CHR 0xB1) = False" "is_digit (CHR 0xB2) = False" "is_digit (CHR 0xB3) = False"
  "is_digit (CHR 0xB4) = False" "is_digit (CHR 0xB5) = False" "is_digit (CHR 0xB6) = False"
  "is_digit (CHR 0xB7) = False" "is_digit (CHR 0xB8) = False" "is_digit (CHR 0xB9) = False"
  "is_digit (CHR 0xBA) = False" "is_digit (CHR 0xBB) = False" "is_digit (CHR 0xBC) = False"
  "is_digit (CHR 0xBD) = False" "is_digit (CHR 0xBE) = False" "is_digit (CHR 0xBF) = False"
  "is_digit (CHR 0xC0) = False" "is_digit (CHR 0xC1) = False" "is_digit (CHR 0xC2) = False"
  "is_digit (CHR 0xC3) = False" "is_digit (CHR 0xC4) = False" "is_digit (CHR 0xC5) = False"
  "is_digit (CHR 0xC6) = False" "is_digit (CHR 0xC7) = False" "is_digit (CHR 0xC8) = False"
  "is_digit (CHR 0xC9) = False" "is_digit (CHR 0xCA) = False" "is_digit (CHR 0xCB) = False"
  "is_digit (CHR 0xCC) = False" "is_digit (CHR 0xCD) = False" "is_digit (CHR 0xCE) = False"
  "is_digit (CHR 0xCF) = False" "is_digit (CHR 0xD0) = False" "is_digit (CHR 0xD1) = False"
  "is_digit (CHR 0xD2) = False" "is_digit (CHR 0xD3) = False" "is_digit (CHR 0xD4) = False"
  "is_digit (CHR 0xD5) = False" "is_digit (CHR 0xD6) = False" "is_digit (CHR 0xD7) = False"
  "is_digit (CHR 0xD8) = False" "is_digit (CHR 0xD9) = False" "is_digit (CHR 0xDA) = False"
  "is_digit (CHR 0xDB) = False" "is_digit (CHR 0xDC) = False" "is_digit (CHR 0xDD) = False"
  "is_digit (CHR 0xDE) = False" "is_digit (CHR 0xDF) = False" "is_digit (CHR 0xE0) = False"
  "is_digit (CHR 0xE1) = False" "is_digit (CHR 0xE2) = False" "is_digit (CHR 0xE3) = False"
  "is_digit (CHR 0xE4) = False" "is_digit (CHR 0xE5) = False" "is_digit (CHR 0xE6) = False"
  "is_digit (CHR 0xE7) = False" "is_digit (CHR 0xE8) = False" "is_digit (CHR 0xE9) = False"
  "is_digit (CHR 0xEA) = False" "is_digit (CHR 0xEB) = False" "is_digit (CHR 0xEC) = False"
  "is_digit (CHR 0xED) = False" "is_digit (CHR 0xEE) = False" "is_digit (CHR 0xEF) = False"
  "is_digit (CHR 0xF0) = False" "is_digit (CHR 0xF1) = False" "is_digit (CHR 0xF2) = False"
  "is_digit (CHR 0xF3) = False" "is_digit (CHR 0xF4) = False" "is_digit (CHR 0xF5) = False"
  "is_digit (CHR 0xF6) = False" "is_digit (CHR 0xF7) = False" "is_digit (CHR 0xF8) = False"
  "is_digit (CHR 0xF9) = False" "is_digit (CHR 0xFA) = False" "is_digit (CHR 0xFB) = False"
  "is_digit (CHR 0xFC) = False" "is_digit (CHR 0xFD) = False" "is_digit (CHR 0xFE) = False"
  "is_digit (CHR 0xFF) = False"
  by (simp_all add: is_digit_def)

lemma is_space_table [code]:
  "is_space (CHR 0x00) = False" "is_space (CHR 0x01) = False" "is_space (CHR 0x02) = False"
  "is_space (CHR 0x03) = False" "is_space (CHR 0x04) = False" "is_space (CHR 0x05) = False"
  "is_space (CHR 0x06) = False" "is_space (CHR 0x07) = False" "is_space (CHR 0x08) = False"
  "is_space (CHR 0x09) = True" "is_space (CHR 0x0A) = True" "is_space (CHR 0x0B) = True"
  "is_space (CHR 0x0C) = True" "is_space (CHR 0x0D) = True" "is_space (CHR 0x0E) = False"
  "is_space (CHR 0x0F) = False" "is_space (CHR 0x10) = False" "is_space (CHR 0x11) = False"
  "is_space (CHR 0x12) = False" "is_space (CHR 0x13) = False" "is_space (CHR 0x14) = False"
  "is_space (CHR 0x15) = False" "is_space (CHR 0x16) = False" "is_space (CHR 0x17) = False"
  "is_space (CHR 0x18) = False" "is_space (CHR 0x19) = False" "is_space (CHR 0x1A) = False"
  "is_space (CHR 0x1B) = False" "is_space (CHR 0x1C) = True" "is_space (CHR 0x1D) = True"
  "is_space (CHR 0x1E) = True" "is_space (CHR 0x1F) = True" "is_space (CHR '' '') = True"
  "is_space (CHR ''!'') = False" "is_space (CHR 0x22) = False" "is_space (CHR ''#'') = False"
  "is_space (CHR ''$'') = False" "is_space (CHR ''%'') = False" "is_space (CHR ''&'') = False"
  "is_space (CHR 0x27) = False" "is_space (CHR ''('') = False" "is_space (CHR '')'') = False"
  "is_space (CHR ''*'') = False" "is_space (CHR ''+'') = False" "is_space (CHR '','') = False"
  "is_space (CHR ''-'') = False" "is_space (CHR ''.'') = False" "is_space (CHR ''/'') = False"
  "is_space (CHR ''0'') = False" "is_space (CHR ''1'') = False" "is_space (CHR ''2'') = False"
  "is_space (CHR ''3'') = False" "is_space (CHR ''4'') = False" "is_space (CHR ''5'') = False"
  "is_space (CHR ''6'') = False" "is_space (CHR ''7'') = False" "is_space (CHR ''8'') = False"
  "is_space (CHR ''9'') = False" "is_space (CHR '':'') = False" "is_space (CHR '';'') = False"
  "is_space (CHR ''<'') = False" "is_space (CHR ''='') = False" "is_space (CHR ''>'') = False"
  "is_space (CHR ''?'') = False" "is_space (CHR ''@'') = False" "is_space (CHR ''A'') = False"
  "is_space (CHR ''B'') = False" "is_space (CHR ''C'') = False" "is_space (CHR ''D'') = False"
  "is_space (CHR ''E'') = False" "is_space (CHR ''F'') = False" "is_space (CHR ''G'') = False"
  "is_space (CHR ''H'') = False" "is_space (CHR ''I'') = False" "is_space (CHR ''J'') = False"
  "is_space (CHR ''K'') = False" "is_space (CHR ''L'') = False" "is_space (CHR ''M'') = False"
  "is_space (CHR ''N'') = False" "is_space (CHR ''O'') = False" "is_space (CHR ''P'') = False"
  "is_space (CHR ''Q'') = False" "is_space (CHR ''R'') = False" "is_space (CHR ''S'') = False"
  "is_space (CHR ''T'') = False" "is_space (CHR ''U'') = False" "is_space (CHR ''V'') = False"
  "is_space (CHR ''W'') = False" "is_space (CHR ''X'') = False" "is_space (CHR ''Y'') = False"
  "is_space (CHR ''Z'') = False" "is_space (CHR ''['') = False" "is_space (CHR 0x5C) = False"
  "is_space (CHR '']'') = False" "is_space (CHR ''^'') = False" "is_space (CHR ''_'') = False"
  "is_space (CHR 0x60) = False" "is_space (CHR ''a'') = False" "is_space (CHR ''b'') = False"
  "is_space (CHR ''c'') = False" "is_space (CHR ''d'') = False" "is_space (CHR ''e'') = False"
  "is_space (CHR ''f'') = False" "is_space (CHR ''g'') = False" "is_space (CHR ''h'') = False"
  "is_space (CHR ''i'') = False" "is_space (CHR ''j'') = False" "is_space (CHR ''k'') = False"
  "is_space (CHR ''l'') = False" "is_space (CHR ''m'') = False" "is_space (CHR ''n'') = False"
  "is_space (CHR ''o'') = False" "is_space (CHR ''p'') = False" "is_space (CHR ''q'') = False"
  "is_space (CHR ''r'') = False" "is_space (CHR ''s'') = False" "is_space (CHR ''t'') = False"
  "is_space (CHR ''u'') = False" "is_space (CHR ''v'') = False" "is_space (CHR ''w'') = False"
  "is_space (CHR ''x'') = False" "is_space (CHR ''y'') = False" "is_space (CHR ''z'') = False"
  "is_space (CHR ''{'') = False" "is_space (CHR ''|'') = False" "is_space (CHR ''}'') = False"
  "is_space (CHR ''~'') = False" "is_space (CHR 0x7F) = False" "is_space (CHR 0x80) = False"
  "is_space (CHR 0x81) = False" "is_space (CHR 0x82) = False" "is_space (CHR 0x83) = False"
  "is_space (CHR 0x84) = False" "is_space (CHR 0x85) = True" "is_space (CHR 0x86) = False"
  "is_space (CHR 0x87) = False" "is_space (CHR 0x88) = False" "is_space (CHR 0x89) = False"
  "is_space (CHR 0x8A) = False" "is_space (CHR 0x8B) = False" "is_space (CHR 0x8C) = False"
  "is_space (CHR 0x8D) = False" "is_space (CHR 0x8E) = False" "is_space (CHR 0x8F) = False"
  "is_space (CHR 0x90) = False" "is_space (CHR 0x91) = False" "is_space (CHR 0x92) = False"
  "is_space (CHR 0x93) = False" "is_space (CHR 0x94) = False" "is_space (CHR 0x95) = False"
  "is_space (CHR 0x96) = False" "is_space (CHR 0x97) = False" "is_space (CHR 0x98) = False"
  "is_space (CHR 0x99) = False" "is_space (CHR 0x9A) = False" "is_space (CHR 0x9B) = False"
  "is_space (CHR 0x9C) = False" "is_space (CHR 0x9D) = False" "is_space (CHR 0x9E) = False"
  "is_space (CHR 0x9F) = False" "is_space (CHR 0xA0) = True" "is_space (CHR 0xA1) = False"
  "is_space (CHR 0xA2) = False" "is_space (CHR 0xA3) = False" "is_space (CHR 0xA4) = False"
  "is_space (CHR 0xA5) = False" "is_space (CHR 0xA6) = False" "is_space (CHR 0xA7) = False"
  "is_space (CHR 0xA8) = False" "is_space (CHR 0xA9) = False" "is_space (CHR 0xAA) = False"
  "is_space (CHR 0xAB) = False" "is_space (CHR 0xAC) = False" "is_space (CHR 0xAD) = False"
  "is_space (CHR 0xAE) = False" "is_space (CHR 0xAF) = False" "is_space (CHR 0xB0) = False"
  "is_space (CHR 0xB1) = False" "is_space (CHR 0xB2) = False" "is_space (CHR 0xB3) = False"
  "is_space (CHR 0xB4) = False" "is_space (CHR 0xB5) = False" "is_space (CHR 0xB6) = False"
  "is_space (CHR 0xB7) = False" "is_space (CHR 0xB8) = False" "is_space (CHR 0xB9) = False"
  "is_space (CHR 0xBA) = False" "is_space (CHR 0xBB) = False" "is_space (CHR 0xBC) = False"
  "is_space (CHR 0xBD) = False" "is_space (CHR 0xBE) = False" "is_space (CHR 0xBF) = False"
  "is_space (CHR 0xC0) = False" "is_space (CHR 0xC1) = False" "is_space (CHR 0xC2) = False"
  "is_space (CHR 0xC3) = False" "is_space (CHR 0xC4) = False" "is_space (CHR 0xC5) = False"
  "is_space (CHR 0xC6) = False" "is_space (CHR 0xC7) = False" "is_space (CHR 0xC8) = False"
  "is_space (CHR 0xC9) = False" "is_space (CHR 0xCA) = False" "is_space (CHR 0xCB) = False"
  "is_space (CHR 0xCC) = False" "is_space (CHR 0xCD) = False" "is_space (CHR 0xCE) = False"
  "is_space (CHR 0xCF) = False" "is_space (CHR 0xD0) = False" "is_space (CHR 0xD1) = False"
  "is_space (CHR 0xD2) = False" "is_space (CHR 0xD3) = False" "is_space (CHR 0xD4) = False"
  "is_space (CHR 0xD5) = False" "is_space (CHR 0xD6) = False" "is_space (CHR 0xD7) = False"
  "is_space (CHR 0xD8) = False" "is_space (CHR 0xD9) = False" "is_space (CHR 0xDA) = False"
  "is_space (CHR 0xDB) = False" "is_space (CHR 0xDC) = False" "is_space (CHR 0xDD) = False"
  "is_space (CHR 0xDE) = False" "is_space (CHR 0xDF) = False" "is_space (CHR 0xE0) = False"
  "is_space (CHR 0xE1) = False" "is_space (CHR 0xE2) = False" "is_space (CHR 0xE3) = False"
  "is_space (CHR 0xE4) = False" "is_space (CHR 0xE5) = False" "is_space (CHR 0xE6) = False"
  "is_space (CHR 0xE7) = False" "is_space (CHR 0xE8) = False" "is_space (CHR 0xE9) = False"
  "is_space (CHR 0xEA) = False" "is_space (CHR 0xEB) = False" "is_space (CHR 0xEC) = False"
  "is_space (CHR 0xED) = False" "is_space (CHR 0xEE) = False" "is_space (CHR 0xEF) = False"
  "is_space (CHR 0xF0) = False" "is_space (CHR 0xF1) = False" "is_space (CHR 0xF2) = False"
  "is_space (CHR 0xF3) = False" "is_space (CHR 0xF4) = False" "is_space (CHR 0xF5) = False"
  "is_space (CHR 0xF6) = False" "is_space (CHR 0xF7) = False" "is_space (CHR 0xF8) = False"
  "is_space (CHR 0xF9) = False" "is_space (CHR 0xFA) = False" "is_space (CHR 0xFB) = False"
  "is_space (CHR 0xFC) = False" "is_space (CHR 0xFD) = False" "is_space (CHR 0xFE) = False"
  "is_space (CHR 0xFF) = False"
  by (simp_all add: is_space_def)

lemma is_word_table [code]:
  "is_word (CHR 0x00) = False" "is_word (CHR 0x01) = False" "is_word (CHR 0x02) = False"
  "is_word (CHR 0x03) = False" "is_word (CHR 0x04) = False" "is_word (CHR 0x05) = False"
  "is_word (CHR 0x06) = False" "is_word (CHR 0x07) = False" "is_word (CHR 0x08) = False"
  "is_word (CHR 0x09) = False" "is_word (CHR 0x0A) = False" "is_word (CHR 0x0B) = False"
  "is_word (CHR 0x0C) = False" "is_word (CHR 0x0D) = False" "is_word (CHR 0x0E) = False"
  "is_word (CHR 0x0F) = False" "is_word (CHR 0x10) = False" "is_word (CHR 0x11) = False"
  "is_word (CHR 0x12) = False" "is_word (CHR 0x13) = False" "is_word (CHR 0x14) = False"
  "is_word (CHR 0x15) = False" "is_word (CHR 0x16) = False" "is_word (CHR 0x17) = False"
  "is_word (CHR 0x18) = False" "is_word (CHR 0x19) = False" "is_word (CHR 0x1A) = False"
  "is_word (CHR 0x1B) = False" "is_word (CHR 0x1C) = False" "is_word (CHR 0x1D) = False"
  "is_word (CHR 0x1E) = False" "is_word (CHR 0x1F) = False" "is_word (CHR '' '') = False"
  "is_word (CHR ''!'') = False" "is_word (CHR 0x22) = False" "is_word (CHR ''#'') = False"
  "is_word (CHR ''$'') = False" "is_word (CHR ''%'') = False" "is_word (CHR ''&'') = False"
  "is_word (CHR 0x27) = False" "is_word (CHR ''('') = False" "is_word (CHR '')'') = False"
  "is_word (CHR ''*'') = False" "is_word (CHR ''+'') = False" "is_word (CHR '','') = False"
  "is_word (CHR ''-'') = False" "is_word (CHR ''.'') = False" "is_word (CHR ''/'') = False"
  "is_word (CHR ''0'') = True" "is_word (CHR ''1'') = True" "is_word (CHR ''2'') = True"
  "is_word (CHR ''3'') = True" "is_word (CHR ''4'') = True" "is_word (CHR ''5'') = True"
  "is_word (CHR ''6'') = True" "is_word (CHR ''7'') = True" "is_word (CHR ''8'') = True"
  "is_word (CHR ''9'') = True" "is_word (CHR '':'') = False" "is_word (CHR '';'') = False"
  "is_word (CHR ''<'') = False" "is_word (CHR ''='') = False" "is_word (CHR ''>'') = False"
  "is_word (CHR ''?'') = False" "is_word (CHR ''@'') = False" "is_word (CHR ''A'') = True"
  "is_word (CHR ''B'') = True" "is_word (CHR ''C'') = True" "is_word (CHR ''D'') = True"
  "is_word (CHR ''E'') = True" "is_word (CHR ''F'') = True" "is_word (CHR ''G'') = True"
  "is_word (CHR ''H'') = True" "is_word (CHR ''I'') = True" "is_word (CHR ''J'') = True"
  "is_word (CHR ''K'') = True" "is_word (CHR ''L'') = True" "is_word (CHR ''M'') = True"
  "is_word (CHR ''N'') = True" "is_word (CHR ''O'') = True" "is_word (CHR ''P'') = True"
  "is_word (CHR ''Q'') = True" "is_word (CHR ''R'') = True" "is_word (CHR ''S'') = True"
  "is_word (CHR ''T'') = True" "is_word (CHR ''U'') = True" "is_word (CHR ''V'') = True"
  "is_word (CHR ''W'') = True" "is_word (CHR ''X'') = True" "is_word (CHR ''Y'') = True"
  "is_word (CHR ''Z'') = True" "is_word (CHR ''['') = False" "is_word (CHR 0x5C) = False"
  "is_word (CHR '']'') = False" "is_word (CHR ''^'') = False" "is_word (CHR ''_'') = True"
  "is_word (CHR 0x60) = False" "is_word (CHR ''a'') = True" "is_word (CHR ''b'') = True"
  "is_word (CHR ''c'') = True" "is_word (CHR ''d'') = True" "is_word (CHR ''e'') = True"
  "is_word (CHR ''f'') = True" "is_word (CHR ''g'') = True" "is_word (CHR ''h'') = True"
  "is_word (CHR ''i'') = True" "is_word (CHR ''j'') = True" "is_word (CHR ''k'') = True"
  "is_word (CHR ''l'') = True" "is_word (CHR ''m'') = True" "is_word (CHR ''n'') = True"
  "is_word (CHR ''o'') = True" "is_word (CHR ''p'') = True" "is_word (CHR ''q'') = True"
  "is_word (CHR ''r'') = True" "is_word (CHR ''s'') = True" "is_word (CHR ''t'') = True"
  "is_word (CHR ''u'') = True" "is_word (CHR ''v'') = True" "is_word (CHR ''w'') = True"
  "is_word (CHR ''x'') = True" "is_word (CHR ''y'') = True" "is_word (CHR ''z'') = True"
  "is_word (CHR ''{'') = False" "is_word (CHR ''|'') = False" "is_word (CHR ''}'') = False"
  "is_word (CHR ''~'') = False" "is_word (CHR 0x7F) = False" "is_word (CHR 0x80) = False"
  "is_word (CHR 0x81) = False" "is_word (CHR 0x82) = False" "is_word (CHR 0x83) = False"
  "is_word (CHR 0x84) = False" "is_word (CHR 0x85) = False" "is_word (CHR 0x86) = False"
  "is_word (CHR 0x87) = False" "is_word (CHR 0x88) = False" "is_word (CHR 0x89) = False"
  "is_word (CHR 0x8A) = False" "is_word (CHR 0x8B) = False" "is_word (CHR 0x8C) = False"
  "is_word (CHR 0x8D) = False" "is_word (CHR 0x8E) = False" "is_word (CHR 0x8F) = False"
  "is_word (CHR 0x90) = False" "is_word (CHR 0x91) = False" "is_word (CHR 0x92) = False"
  "is_word (CHR 0x93) = False" "is_word (CHR 0x94) = False" "is_word (CHR 0x95) = False"
  "is_word (CHR 0x96) = False" "is_word (CHR 0x97) = False" "is_word (CHR 0x98) = False"
  "is_word (CHR 0x99) = False" "is_word (CHR 0x9A) = False" "is_word (CHR 0x9B) = False"
  "is_word (CHR 0x9C) = False" "is_word (CHR 0x9D) = False" "is_word (CHR 0x9E) = False"
  "is_word (CHR 0x9F) = False" "is_word (CHR 0xA0) = False" "is_word (CHR 0xA1) = False"
  "is_word (CHR 0xA2) = False" "is_word (CHR 0xA3) = False" "is_word (CHR 0xA4) = False"
  "is_word (CHR 0xA5) = False" "is_word (CHR 0xA6) = False" "is_word (CHR 0xA7) = False"
  "is_word (CHR 0xA8) = False" "is_word (CHR 0xA9) = False" "is_word (CHR 0xAA) = True"
  "is_word (CHR 0xAB) = False" "is_word (CHR 0xAC) = False" "is_word (CHR 0xAD) = False"
  "is_word (CHR 0xAE) = False" "is_word (CHR 0xAF) = False" "is_word (CHR 0xB0) = False"
  "is_word (CHR 0xB1) = False" "is_word (CHR 0xB2) = True" "is_word (CHR 0xB3) = True"
  "is_word (CHR 0xB4) = False" "is_word (CHR 0xB5) = True" "is_word (CHR 0xB6) = False"
  "is_word (CHR 0xB7) = False" "is_word (CHR 0xB8) = False" "is_word (CHR 0xB9) = True"
  "is_word (CHR 0xBA) = True" "is_word (CHR 0xBB) = False" "is_word (CHR 0xBC) = True"
  "is_word (CHR 0xBD) = True" "is_word (CHR 0xBE) = True" "is_word (CHR 0xBF) = False"
  "is_word (CHR 0xC0) = True" "is_word (CHR 0xC1) = True" "is_word (CHR 0xC2) = True"
  "is_word (CHR 0xC3) = True" "is_word (CHR 0xC4) = True" "is_word (CHR 0xC5) = True"
  "is_word (CHR 0xC6) = True" "is_word (CHR 0xC7) = True" "is_word (CHR 0xC8) = True"
  "is_word (CHR 0xC9) = True" "is_word (CHR 0xCA) = True" "is_word (CHR 0xCB) = True"
  "is_word (CHR 0xCC) = True" "is_word (CHR 0xCD) = True" "is_word (CHR 0xCE) = True"
  "is_word (CHR 0xCF) = True" "is_word (CHR 0xD0) = True" "is_word (CHR 0xD1) = True"
  "is_word (CHR 0xD2) = True" "is_word (CHR 0xD3) = True" "is_word (CHR 0xD4) = True"
  "is_word (CHR 0xD5) = True" "is_word (CHR 0xD6) = True" "is_word (CHR 0xD7) = False"
  "is_word (CHR 0xD8) = True" "is_word (CHR 0xD9) = True" "is_word (CHR 0xDA) = True"
  "is_word (CHR 0xDB) = True" "is_word (CHR 0xDC) = True" "is_word (CHR 0xDD) = True"
  "is_word (CHR 0xDE) = True" "is_word (CHR 0xDF) = True" "is_word (CHR 0xE0) = True"
  "is_word (CHR 0xE1) = True" "is_word (CHR 0xE2) = True" "is_word (CHR 0xE3) = True"
  "is_word (CHR 0xE4) = True" "is_word (CHR 0xE5) = True" "is_word (CHR 0xE6) = True"
  "is_word (CHR 0xE7) = True" "is_word (CHR 0xE8) = True" "is_word (CHR 0xE9) = True"
  "is_word (CHR 0xEA) = True" "is_word (CHR 0xEB) = True" "is_word (CHR 0xEC) = True"
  "is_word (CHR 0xED) = True" "is_word (CHR 0xEE) = True" "is_word (CHR 0xEF) = True"
  "is_word (CHR 0xF0) = True" "is_word (CHR 0xF1) = True" "is_word (CHR 0xF2) = True"
  "is_word (CHR 0xF3) = True" "is_word (CHR 0xF4) = True" "is_word (CHR 0xF5) = True"
  "is_word (CHR 0xF6) = True" "is_word (CHR 0xF7) = False" "is_word (CHR 0xF8) = True"
  "is_word (CHR 0xF9) = True" "is_word (CHR 0xFA) = True" "is_word (CHR 0xFB) = True"
  "is_word (CHR 0xFC) = True" "is_word (CHR 0xFD) = True" "is_word (CHR 0xFE) = True"
  "is_word (CHR 0xFF) = True"
  by (simp_all add: is_word_def)

lemma is_alpha_table [code]:
  "is_alpha (CHR 0x00) = False" "is_alpha (CHR 0x01) = False" "is_alpha (CHR 0x02) = False"
  "is_alpha (CHR 0x03) = False" "is_alpha (CHR 0x04) = False" "is_alpha (CHR 0x05) = False"
  "is_alpha (CHR 0x06) = False" "is_alpha (CHR 0x07) = False" "is_alpha (CHR 0x08) = False"
  "is_alpha (CHR 0x09) = False" "is_alpha (CHR 0x0A) = False" "is_alpha (CHR 0x0B) = False"
  "is_alpha (CHR 0x0C) = False" "is_alpha (CHR 0x0D) = False" "is_alpha (CHR 0x0E) = False"
  "is_alpha (CHR 0x0F) = False" "is_alpha (CHR 0x10) = False" "is_alpha (CHR 0x11) = False"
  "is_alpha (CHR 0x12) = False" "is_alpha (CHR 0x13) = False" "is_alpha (CHR 0x14) = False"
  "is_alpha (CHR 0x15) = False" "is_alpha (CHR 0x16) = False" "is_alpha (CHR 0x17) = False"
  "is_alpha (CHR 0x18) = False" "is_alpha (CHR 0x19) = False" "is_alpha (CHR 0x1A) = False"
  "is_alpha (CHR 0x1B) = False" "is_alpha (CHR 0x1C) = False" "is_alpha (CHR 0x1D) = False"
  "is_alpha (CHR 0x1E) = False" "is_alpha (CHR 0x1F) = False" "is_alpha (CHR '' '') = False"
  "is_alpha (CHR ''!'') = False" "is_alpha (CHR 0x22) = False" "is_alpha (CHR ''#'') = False"
  "is_alpha (CHR ''$'') = False" "is_alpha (CHR ''%'') = False" "is_alpha (CHR ''&'') = False"
  "is_alpha (CHR 0x27) = False" "is_alpha (CHR ''('') = False" "is_alpha (CHR '')'') = False"
  "is_alpha (CHR ''*'') = False" "is_alpha (CHR ''+'') = False" "is_alpha (CHR '','') = False"
  "is_alpha (CHR ''-'') = False" "is_alpha (CHR ''.'') = False" "is_alpha (CHR ''/'') = False"
  "is_alpha (CHR ''0'') = False" "is_alpha (CHR ''1'') = False" "is_alpha (CHR ''2'') = False"
  "is_alpha (CHR ''3'') = False" "is_alpha (CHR ''4'') = False" "is_alpha (CHR ''5'') = False"
  "is_alpha (CHR ''6'') = False" "is_alpha (CHR ''7'') = False" "is_alpha (CHR ''8'') = False"
  "is_alpha (CHR ''9'') = False" "is_alpha (CHR '':'') = False" "is_alpha (CHR '';'') = False"
  "is_alpha (CHR ''<'') = False" "is_alpha (CHR ''='') = False" "is_alpha (CHR ''>'') = False"
  "is_alpha (CHR ''?'') = False" "is_alpha (CHR ''@'') = False" "is_alpha (CHR ''A'') = True"
  "is_alpha (CHR ''B'') = True" "is_alpha (CHR ''C'') = True" "is_alpha (CHR ''D'') = True"
  "is_alpha (CHR ''E'') = True" "is_alpha (CHR ''F'') = True" "is_alpha (CHR ''G'') = True"
  "is_alpha (CHR ''H'') = True" "is_alpha (CHR ''I'') = True" "is_alpha (CHR ''J'') = True"
  "is_alpha (CHR ''K'') = True" "is_alpha (CHR ''L'') = True" "is_alpha (CHR ''M'') = True"
  "is_alpha (CHR ''N'') = True" "is_alpha (CHR ''O'') = True" "is_alpha (CHR ''P'') = True"
  "is_alpha (CHR ''Q'') = True" "is_alpha (CHR ''R'') = True" "is_alpha (CHR ''S'') = True"
  "is_alpha (CHR ''T'') = True" "is_alpha (CHR ''U'') = True" "is_alpha (CHR ''V'') = True"
  "is_alpha (CHR ''W'') = True" "is_alpha (CHR ''X'') = True" "is_alpha (CHR ''Y'') = True"
  "is_alpha (CHR ''Z'') = True" "is_alpha (CHR ''['') = False" "is_alpha (CHR 0x5C) = False"
  "is_alpha (CHR '']'') = False" "is_alpha (CHR ''^'') = False" "is_alpha (CHR ''_'') = False"
  "is_alpha (CHR 0x60) = False" "is_alpha (CHR ''a'') = True" "is_alpha (CHR ''b'') = True"
  "is_alpha (CHR ''c'') = True" "is_alpha (CHR ''d'') = True" "is_alpha (CHR ''e'') = True"
  "is_alpha (CHR ''f'') = True" "is_alpha (CHR ''g'') = True" "is_alpha (CHR ''h'') = True"
  "is_alpha (CHR ''i'') = True" "is_alpha (CHR ''j'') = True" "is_alpha (CHR ''k'') = True"
  "is_alpha (CHR ''l'') = True" "is_alpha (CHR ''m'') = True" "is_alpha (CHR ''n'') = True"
  "is_alpha (CHR ''o'') = True" "is_alpha (CHR ''p'') = True" "is_alpha (CHR ''q'') = True"
  "is_alpha (CHR ''r'') = True" "is_alpha (CHR ''s'') = True" "is_alpha (CHR ''t'') = True"
  "is_alpha (CHR ''u'') = True" "is_alpha (CHR ''v'') = True" "is_alpha (CHR ''w'') = True"
  "is_alpha (CHR ''x'') = True" "is_alpha (CHR ''y'') = True" "is_alpha (CHR ''z'') = True"
  "is_alpha (CHR ''{'') = False" "is_alpha (CHR ''|'') = False" "is_alpha (CHR ''}'') = False"
  "is_alpha (CHR ''~'') = False" "is_alpha (CHR 0x7F) = False" "is_alpha (CHR 0x80) = False"
  "is_alpha (CHR 0x81) = False" "is_alpha (CHR 0x82) = False" "is_alpha (CHR 0x83) = False"
  "is_alpha (CHR 0x84) = False" "is_alpha (CHR 0x85) = False" "is_alpha (CHR 0x86) = False"
  "is_alpha (CHR 0x87) = False" "is_alpha (CHR 0x88) = False" "is_alpha (CHR 0x89) = False"
  "is_alpha (CHR 0x8A) = False" "is_alpha (CHR 0x8B) = False" "is_alpha (CHR 0x8C) = False"
  "is_alpha (CHR 0x8D) = False" "is_alpha (CHR 0x8E) = False" "is_alpha (CHR 0x8F) = False"
  "is_alpha (CHR 0x90) = False" "is_alpha (CHR 0x91) = False" "is_alpha (CHR 0x92) = False"
  "is_alpha (CHR 0x93) = False" "is_alpha (CHR 0x94) = False" "is_alpha (CHR 0x95) = False"
  "is_alpha (CHR 0x96) = False" "is_alpha (CHR 0x97) = False" "is_alpha (CHR 0x98) = False"
  "is_alpha (CHR 0x99) = False" "is_alpha (CHR 0x9A) = False" "is_alpha (CHR 0x9B) = False"
  "is_alpha (CHR 0x9C) = False" "is_alpha (CHR 0x9D) = False" "is_alpha (CHR 0x9E) = False"
  "is_alpha (CHR 0x9F) = False" "is_alpha (CHR 0xA0) = False" "is_alpha (CHR 0xA1) = False"
  "is_alpha (CHR 0xA2) = False" "is_alpha (CHR 0xA3) = False" "is_alpha (CHR 0xA4) = False"
  "is_alpha (CHR 0xA5) = False" "is_alpha (CHR 0xA6) = False" "is_alpha (CHR 0xA7) = False"
  "is_alpha (CHR 0xA8) = False" "is_alpha (CHR 0xA9) = False" "is_alpha (CHR 0xAA) = True"
  "is_alpha (CHR 0xAB) = False" "is_alpha (CHR 0xAC) = False" "is_alpha (CHR 0xAD) = False"
  "is_alpha (CHR 0xAE) = False" "is_alpha (CHR 0xAF) = False" "is_alpha (CHR 0xB0) = False"
  "is_alpha (CHR 0xB1) = False" "is_alpha (CHR 0xB2) = False" "is_alpha (CHR 0xB3) = False"
  "is_alpha (CHR 0xB4) = False" "is_alpha (CHR 0xB5) = True" "is_alpha (CHR 0xB6) = False"
  "is_alpha (CHR 0xB7) = False" "is_alpha (CHR 0xB8) = False" "is_alpha (CHR 0xB9) = False"
  "is_alpha (CHR 0xBA) = True" "is_alpha (CHR 0xBB) = False" "is_alpha (CHR 0xBC) = False"
  "is_alpha (CHR 0xBD) = False" "is_alpha (CHR 0xBE) = False" "is_alpha (CHR 0xBF) = False"
  "is_alpha (CHR 0xC0) = True" "is_alpha (CHR 0xC1) = True" "is_alpha (CHR 0xC2) = True"
  "is_alpha (CHR 0xC3) = True" "is_alpha (CHR 0xC4) = True" "is_alpha (CHR 0xC5) = True"
  "is_alpha (CHR 0xC6) = True" "is_alpha (CHR 0xC7) = True" "is_alpha (CHR 0xC8) = True"
  "is_alpha (CHR 0xC9) = True" "is_alpha (CHR 0xCA) = True" "is_alpha (CHR 0xCB) = True"
  "is_alpha (CHR 0xCC) = True" "is_alpha (CHR 0xCD) = True" "is_alpha (CHR 0xCE) = True"
  "is_alpha (CHR 0xCF) = True" "is_alpha (CHR 0xD0) = True" "is_alpha (CHR 0xD1) = True"
  "is_alpha (CHR 0xD2) = True" "is_alpha (CHR 0xD3) = True" "is_alpha (CHR 0xD4) = True"
  "is_alpha (CHR 0xD5) = True" "is_alpha (CHR 0xD6) = True" "is_alpha (CHR 0xD7) = False"
  "is_alpha (CHR 0xD8) = True" "is_alpha (CHR 0xD9) = True" "is_alpha (CHR 0xDA) = True"
  "is_alpha (CHR 0xDB) = True" "is_alpha (CHR 0xDC) = True" "is_alpha (CHR 0xDD) = True"
  "is_alpha (CHR 0xDE) = True" "is_alpha (CHR 0xDF) = True" "is_alpha (CHR 0xE0) = True"
  "is_alpha (CHR 0xE1) = True" "is_alpha (CHR 0xE2) = True" "is_alpha (CHR 0xE3) = True"
  "is_alpha (CHR 0xE4) = True" "is_alpha (CHR 0xE5) = True" "is_alpha (CHR 0xE6) = True"
  "is_alpha (CHR 0xE7) = True" "is_alpha (CHR 0xE8) = True" "is_alpha (CHR 0xE9) = True"
  "is_alpha (CHR 0xEA) = True" "is_alpha (CHR 0xEB) = True" "is_alpha (CHR 0xEC) = True"
  "is_alpha (CHR 0xED) = True" "is_alpha (CHR 0xEE) = True" "is_alpha (CHR 0xEF) = True"
  "is_alpha (CHR 0xF0) = True" "is_alpha (CHR 0xF1) = True" "is_alpha (CHR 0xF2) = True"
  "is_alpha (CHR 0xF3) = True" "is_alpha (CHR 0xF4) = True" "is_alpha (CHR 0xF5) = True"
  "is_alpha (CHR 0xF6) = True" "is_alpha (CHR 0xF7) = False" "is_alpha (CHR 0xF8) = True"
  "is_alpha (CHR 0xF9) = True" "is_alpha (CHR 0xFA) = True" "is_alpha (CHR 0xFB) = True"
  "is_alpha (CHR 0xFC) = True" "is_alpha (CHR 0xFD) = True" "is_alpha (CHR 0xFE) = True"
  "is_alpha (CHR 0xFF) = True"
  by (simp_all add: is_alpha_def)

section \<open>Properties of the dialogue state\<close>

subsection \<open>Helper facts\<close>

lemma not_empty_value_cases:
  "not_empty_value v \<longleftrightarrow> v \<noteq> PNone \<and> v \<noteq> PStr [] \<and> v \<noteq> PBool False \<and> v \<noteq> PInt 0 \<and> v \<noteq> PFloat 0"
  by (cases v) (auto simp: not_empty_value_def py_in_def)

lemma merge_durable_empty: "merge_durable d Map.empty = d"
  by (simp add: merge_durable_def)

lemma merge_durable_keeps:
  "cur k = Some v \<Longrightarrow> \<not> not_empty_value v \<Longrightarrow> merge_durable d cur k = d k"
  by (simp add: merge_durable_def)

lemma merge_durable_ephemeral:
  "k \<in> set ephemeral \<Longrightarrow> merge_durable d cur k = d k"
  by (simp add: merge_durable_def split: option.splits)

lemma merged_slots_keeps:
  "cur k = Some v \<Longrightarrow> \<not> not_empty_value v \<Longrightarrow> merged_slots d cur k = durable_mem d k"
  by (simp add: merged_slots_def)

lemma slots_add_user_turn [simp]:
  "slots (add_user_turn text am asub intent sl mood st) = merge_durable (slots st) sl"
  by (simp add: add_user_turn_def)

lemma slots_add_assistant_turn [simp]: "slots (add_assistant_turn text sl st) = slots st"
  by (simp add: add_assistant_turn_def)

lemma slots_attach_tool_event [simp]: "slots (attach_tool_event ev st) = slots st"
  by (simp add: attach_tool_event_def Let_def)

lemma slots_log_db_result [simp]: "slots (log_db_result sql params rows ms err st) = slots st"
  by (simp add: log_db_result_def)

lemma slots_log_kg_result [simp]: "slots (log_kg_result sparql rows ms err st) = slots st"
  by (simp add: log_kg_result_def Let_def)

lemma slots_update_user_identity [simp]:
  "slots (update_user_identity n sid r rl d pm st) = slots st"
  by (simp add: update_user_identity_def Let_def)

lemma slots_update_topics_cases:
  "slots (update_topics_and_entities H intent sl st) k = slots st k
   \<or> slots (update_topics_and_entities H intent sl st) k = None"
  by (simp add: update_topics_and_entities_def clear_topic_def Let_def)

subsection \<open>Identity derivation\<close>

text \<open>
  C4. After every call of \<open>update_user_identity\<close> the triple tone/verbosity/price band
  is the entry of the tier table for \<open>bool(staff_id)\<close>, the privacy mode and the role
  level of the call, these three are what the profile stores as \<open>verified\<close>,
  \<open>privacy_mode\<close> and \<open>role_level\<close>, and a second call with the same arguments yields
  the same triple.
\<close>

theorem update_user_identity_tier_table:
  "derived_prefs (update_user_identity n sid r rl d pm st) = tier_table (bool_of_id sid) pm rl
   \<and> up_verified (user_profile (update_user_identity n sid r rl d pm st)) = bool_of_id sid
   \<and> up_privacy_mode (user_profile (update_user_identity n sid r rl d pm st)) = pm
   \<and> up_role_level (user_profile (update_user_identity n sid r rl d pm st)) = rl
   \<and> derived_prefs (update_user_identity n sid r rl d pm (update_user_identity n sid r rl d pm st))
     = derived_prefs (update_user_identity n sid r rl d pm st)"
  by (cases rl) (auto simp: derived_prefs_def tier_table_def update_user_identity_def Let_def)

text \<open>
  One call for each row of the table: a verified director of level 1, the head of
  operations of level 3, an engineer of level 6, a verified member of staff with no role
  level, an unverified visitor, and a verified director who asked to stay anonymous.
\<close>

theorem update_user_identity_tier_table_witness:
  "derived_prefs (update_user_identity (Some ''Maria Pappas'') (Some 3) (Some ''Director'')
       (Some 1) (Some ''Board'') ''identified'' new_state) = (''formal'', ''brief'', ''premium'')
   \<and> derived_prefs (update_user_identity (Some ''Danielle Smith'') (Some 7) (Some ''Head of Ops'')
       (Some 3) (Some ''Operations'') ''identified'' new_state) = (''neutral'', ''normal'', ''mid'')
   \<and> derived_prefs (update_user_identity (Some ''Alex Johnson'') (Some 12) (Some ''Engineer'')
       (Some 6) (Some ''Engineering'') ''identified'' new_state) = (''casual'', ''detailed'', ''budget'')
   \<and> derived_prefs (update_user_identity (Some ''Alex Johnson'') (Some 12) (Some ''Engineer'')
       None (Some ''Engineering'') ''identified'' new_state) = (''casual'', ''detailed'', ''budget'')
   \<and> derived_prefs (update_user_identity (Some ''Maria Pappas'') None None
       (Some 1) None ''identified'' new_state) = (''neutral'', ''normal'', ''mid'')
   \<and> derived_prefs (update_user_identity (Some ''Maria Pappas'') (Some 3) (Some ''Director'')
       (Some 1) (Some ''Board'') ''anonymous'' new_state) = (''neutral'', ''normal'', ''mid'')
   \<and> derived_prefs (update_user_identity (Some ''Maria Pappas'') (Some 3) (Some ''Director'')
       (Some 1) (Some ''Board'') ''identified''
         (update_user_identity (Some ''Maria Pappas'') (Some 3) (Some ''Director'')
            (Some 1) (Some ''Board'') ''identified'' new_state)) = (''formal'', ''brief'', ''premium'')"
  using update_user_identity_tier_table
          [of "Some ''Maria Pappas''" "Some 3" "Some ''Director''" "Some 1"
              "Some ''Board''" "''identified''" new_state]
        update_user_identity_tier_table
          [of "Some ''Danielle Smith''" "Some 7" "Some ''Head of Ops''" "Some 3"
              "Some ''Operations''" "''identified''" new_state]
        update_user_identity_tier_table
          [of "Some ''Alex Johnson''" "Some 12" "Some ''Engineer''" "Some 6"
              "Some ''Engineering''" "''identified''" new_state]
        update_user_identity_tier_table
          [of "Some ''Alex Johnson''" "Some 12" "Some ''Engineer''" None
              "Some ''Engineering''" "''identified''" new_state]
        update_user_identity_tier_table
          [of "Some ''Maria Pappas''" None None "Some 1" None "''identified''" new_state]
        update_user_identity_tier_table
          [of "Some ''Maria Pappas''" "Some 3" "Some ''Director''" "Some 1"
              "Some ''Board''" "''anonymous''" new_state]
  by (simp add: tier_table_def bool_of_id_def)

subsection \<open>The durable merge\<close>

text \<open>
  C6. Merging an empty current-turn slot map in \<open>add_user_turn\<close> leaves the durable map
  unchanged, and a key whose current-turn value is \<open>False\<close>, the empty string or \<open>None\<close>
  keeps whatever the durable map held for it.
\<close>

theorem add_user_turn_merge_identity:
  "slots (add_user_turn text am asub intent Map.empty mood st) = slots st
   \<and> (sl k = Some (PBool False) \<or> sl k = Some (PStr []) \<or> sl k = Some PNone
        \<longrightarrow> slots (add_user_turn text am asub intent sl mood st) k = slots st k)"
  by (auto simp: merge_durable_empty merge_durable_keeps not_empty_value_cases)

theorem add_user_turn_merge_identity_witness:
  "slots (add_user_turn ''hm'' ''CONSTATIVE'' (Some ''STATE'') ''generic'' Map.empty ''neutral''
            (new_state\<lparr> slots := [''type'' \<mapsto> PStr ''bar''] \<rparr>))
     = [''type'' \<mapsto> PStr ''bar'']
   \<and> slots (add_user_turn ''hm'' ''CONSTATIVE'' (Some ''STATE'') ''generic''
              [''type'' \<mapsto> PStr []] ''neutral''
              (new_state\<lparr> slots := [''type'' \<mapsto> PStr ''bar''] \<rparr>)) ''type''
     = Some (PStr ''bar'')"
  using add_user_turn_merge_identity
          [of "''hm''" "''CONSTATIVE''" "Some ''STATE''" "''generic''" "''neutral''"
              "new_state\<lparr> slots := [''type'' \<mapsto> PStr ''bar''] \<rparr>"
              "[''type'' \<mapsto> PStr []]" "''type''"]
  by simp

text \<open>
  C10. A slot whose value is the number \<open>0\<close> or \<open>0.0\<close> fails the emptiness test
  (\<open>0 == False\<close>), so neither \<open>add_user_turn\<close> nor the router's merge stores it: the key
  keeps its durable value.
\<close>

theorem zero_valued_slot_not_merged:
  "sl k = Some (PInt 0) \<or> sl k = Some (PFloat 0)
   \<Longrightarrow> slots (add_user_turn text am asub intent sl mood st) k = slots st k
       \<and> merged_slots (slots st) sl k = durable_mem (slots st) k"
  by (auto simp: merge_durable_keeps merged_slots_keeps not_empty_value_cases)

theorem zero_valued_slot_not_merged_witness:
  "slots (add_user_turn ''under 0'' ''CONSTATIVE'' (Some ''STATE'') ''generic''
            [''price_max'' \<mapsto> PInt 0] ''neutral''
            (new_state\<lparr> slots := [''price_max'' \<mapsto> PInt 20] \<rparr>)) ''price_max''
     = Some (PInt 20)
   \<and> merged_slots [''price_max'' \<mapsto> PInt 20] [''price_max'' \<mapsto> PInt 0] ''price_max''
     = Some (PInt 20)"
  using zero_valued_slot_not_merged
          [of "[''price_max'' \<mapsto> PInt 0]" "''price_max''" "''under 0''" "''CONSTATIVE''"
              "Some ''STATE''" "''generic''" "''neutral''"
              "new_state\<lparr> slots := [''price_max'' \<mapsto> PInt 20] \<rparr>"]
  by (simp add: durable_mem_def)

subsection \<open>Topic shifts and the knowledge-graph caches\<close>

text \<open>
  The state of the example is the state after the two turns "cafes in plaka" and "bars"
  with the listing logged: the second turn shifts the topic, the shift clears the
  durable venue slots, and the turn's own \<open>type\<close> is merged back.
\<close>

lemma after_cafes_fields:
  "slots after_cafes = [''type'' \<mapsto> PStr ''cafe'', ''neighborhood'' \<mapsto> PStr ''Plaka'']"
  "topic_id after_cafes = Some ''d26a8360d7aa629e''"
  by (rule ext)
     (simp_all add: after_cafes_def add_user_turn_def update_topics_and_entities_def Let_def
        merge_durable_def merged_slots_def durable_mem_def cafes_in_plaka_slots_def new_state_def
        not_empty_value_def py_in_def ephemeral_def topic_fingerprint_def blake2b_known_def
        fingerprint_keys_def sget_def domain_intents_def track_entities_def)

lemma bar_listing_state_arises:
  "slots after_bars = slots bar_listing_state"
  "topic_id after_bars = topic_id bar_listing_state"
  "last_kg_rows after_bars = last_kg_rows bar_listing_state"
proof -
  have m: "merged_slots (slots after_cafes) bars_slots
             = [''type'' \<mapsto> PStr ''bar'', ''neighborhood'' \<mapsto> PStr ''Plaka'']"
    by (rule ext)
       (simp add: after_cafes_fields merged_slots_def durable_mem_def bars_slots_def
          not_empty_value_def py_in_def)
  have f: "topic_fingerprint blake2b_known ''food_search''
             [''type'' \<mapsto> PStr ''bar'', ''neighborhood'' \<mapsto> PStr ''Plaka''] = ''588912d9876485ed''"
    by (simp add: topic_fingerprint_def blake2b_known_def fingerprint_keys_def sget_def)
  let ?u = "update_topics_and_entities blake2b_known ''food_search''
              [''type'' \<mapsto> PStr ''bar'', ''neighborhood'' \<mapsto> PStr ''Plaka''] after_cafes"
  have u: "slots ?u = Map.empty" "topic_id ?u = Some ''588912d9876485ed''"
    by (rule ext)
       (simp_all add: update_topics_and_entities_def Let_def f after_cafes_fields clear_topic_def
          domain_intents_def domain_keys_def)
  show "slots after_bars = slots bar_listing_state"
    unfolding after_bars_def m
    by (rule ext)
       (simp add: u log_kg_result_def attach_tool_event_def add_user_turn_def Let_def
          merge_durable_def bars_slots_def bar_listing_state_def
          not_empty_value_def py_in_def ephemeral_def)
  show "topic_id after_bars = topic_id bar_listing_state"
    unfolding after_bars_def m
    by (simp add: u log_kg_result_def attach_tool_event_def add_user_turn_def
          Let_def bar_listing_state_def)
  show "last_kg_rows after_bars = last_kg_rows bar_listing_state"
    by (simp add: after_bars_def log_kg_result_def attach_tool_event_def Let_def
          bar_listing_state_def)
qed



text \<open>
  The guard reads the map the method receives, and the router hands over the merged map.
  A direct call with intent \<open>place_info\<close> on a merged map that carries the truthy
  durable \<open>type\<close> of an earlier turn gets the normal topic shift, as the hash of
  \<open>{type: bar}\<close> differs from the stored fingerprint. No session of the router makes
  such a call (subsection "The intents handed to topic tracking").
\<close>

lemma place_info_guard_reads_received_map:
  "H (map (\<lambda>k. (k, sget [''type'' \<mapsto> PStr ''bar''] k)) fingerprint_keys) \<noteq> ''588912d9876485ed''
   \<Longrightarrow> last_kg_rows (update_topics_and_entities H ''place_info''
             (merged_slots (slots bar_listing_state) Map.empty) bar_listing_state) = []
       \<and> slots (update_topics_and_entities H ''place_info''
             (merged_slots (slots bar_listing_state) Map.empty) bar_listing_state) ''type'' = None"
proof -
  assume h: "H (map (\<lambda>k. (k, sget [''type'' \<mapsto> PStr ''bar''] k)) fingerprint_keys) \<noteq> ''588912d9876485ed''"
  have m: "merged_slots (slots bar_listing_state) Map.empty = [''type'' \<mapsto> PStr ''bar'']"
    by (rule ext) (simp add: merged_slots_def durable_mem_def bar_listing_state_def)
  have t: "topic_id bar_listing_state = Some ''588912d9876485ed''"
    by (simp add: bar_listing_state_def)
  show ?thesis
    unfolding m using h
    by (simp add: update_topics_and_entities_def topic_fingerprint_def Let_def t
        clear_topic_def domain_keys_def domain_intents_def sget_def has_key_def)
qed

subsection \<open>Reference resolution\<close>


lemma rr_fst:
  "fst (resolve_references tx sl st) =
     (let sl1 = (if pronoun_in tx \<and> \<not> truthy (sget sl ''person'') \<and> truthy (le_person (last_entities st))
                 then sl(''person'' \<mapsto> le_person (last_entities st)) else sl)
      in if deictic_in tx \<and> \<not> truthy (sget sl ''place'') \<and> \<not> truthy (sget sl ''neighborhood'')
         then (case le_venue (last_entities st) of
                 None \<Rightarrow> sl1
               | Some v \<Rightarrow>
                   let sa = (if truthy (v_neighborhood v)
                             then sl1(''neighborhood'' \<mapsto> v_neighborhood v) else sl1)
                   in if truthy (v_type v) \<and> \<not> truthy (sget sl ''type'')
                      then sa(''type'' \<mapsto> v_type v) else sa)
         else sl1)"
  unfolding resolve_references_def Let_def
  unfolding pronoun_in_def [symmetric] deictic_in_def [symmetric]
  by (auto simp: sget_def split: option.splits)









section \<open>Properties of the extraction stage\<close>

subsection \<open>Evaluation of the stages on "next 5" and "next 5 tasks"\<close>

lemma next5_repair:
  "apply_self_repair ''next 5'' = (''next 5'', False)"
  "apply_self_repair ''next 5 tasks'' = (''next 5 tasks'', False)"
  by code_simp+

lemma next5_text:
  "normalize_typos (strip ''next 5'') = ''next 5''" "lower ''next 5'' = ''next 5''"
  "normalize_typos (strip ''next 5 tasks'') = ''next 5 tasks''"
  "lower ''next 5 tasks'' = ''next 5 tasks''"
  by code_simp+

lemma next5_decide:
  "decide_act_and_intent ''next 5'' = (''CONSTATIVE'', ''STATE'', ''generic'')"
  "decide_act_and_intent ''next 5 tasks'' = (''CONSTATIVE'', ''STATE'', ''db_query'')"
  by code_simp+

lemma next5_price:
  "rx_search True PRICE_MAX_PAT ''next 5'' = None"
  "rx_search True PRICE_RANGE_PAT ''next 5'' = None"
  "rx_search True PRICE_MAX_PAT ''next 5 tasks'' = None"
  "rx_search True PRICE_RANGE_PAT ''next 5 tasks'' = None"
  by code_simp+

lemma next5_limit:
  "case rx_search True LIMIT_PAT ''next 5'' of
     None \<Rightarrow> False
   | Some m \<Rightarrow> grp m 1 = None \<and> grp m 2 = None \<and> grp m 3 = Some ''5''"
  by code_simp

lemma next5_tasks_limit:
  "case rx_search True LIMIT_PAT ''next 5 tasks'' of
     None \<Rightarrow> False
   | Some m \<Rightarrow> grp m 1 = None \<and> grp m 2 = None \<and> grp m 3 = Some ''5''"
  by code_simp

lemma next5_tasks_db: "matches DB_HARD ''next 5 tasks''"
  by code_simp

lemma limit_slot_next5: "limit_slot ''next 5'' sl = Inl TypeError"
  using next5_limit
  by (cases "rx_search True LIMIT_PAT ''next 5''") (simp_all add: limit_slot_def py_int_def str_or_def)

lemma limit_slot_next5_tasks: "limit_slot ''next 5 tasks'' sl = Inl TypeError"
  using next5_tasks_limit
  by (cases "rx_search True LIMIT_PAT ''next 5 tasks''") (simp_all add: limit_slot_def py_int_def str_or_def)

lemma analyze_next5: "analyze ''next 5'' st = Inl TypeError"
  by (simp add: analyze_def Let_def next5_text next5_decide smalltalk_intents_def
        price_max_slot_def price_range_slot_def next5_price limit_slot_next5)

lemma analyze_next5_tasks: "analyze ''next 5 tasks'' st = Inl TypeError"
  by (simp add: analyze_def Let_def next5_text next5_decide smalltalk_intents_def
        price_max_slot_def price_range_slot_def next5_price limit_slot_next5_tasks)

text \<open>The two sibling forms of the limit pattern are converted as intended.\<close>

lemma analyze_top5:
  "case analyze ''top 5'' (Some st) of
     Inl e \<Rightarrow> False
   | Inr r \<Rightarrow> snd (snd r) ''limit'' = Some (PInt 5) \<and> fst (snd r) = ''generic''"
  by code_simp

lemma analyze_first3_tasks:
  "case analyze ''first 3 tasks'' (Some st) of
     Inl e \<Rightarrow> False
   | Inr r \<Rightarrow> snd (snd r) ''limit'' = Some (PInt 3) \<and> fst (snd r) = ''db_query''"
  by code_simp

subsection \<open>Scenarios of the specification\<close>

lemma scenario_cafe_near_plaka:
  "case analyze ''cafe near plaka that is open now'' (Some new_state) of
     Inl e \<Rightarrow> False
   | Inr r \<Rightarrow> fst (snd r) = ''food_search'' \<and> snd (snd r) ''type'' = Some (PStr ''cafe'')
              \<and> snd (snd r) ''neighborhood'' = Some (PStr ''Plaka'')
              \<and> snd (snd r) ''open_now'' = Some (PBool True)"
  by code_simp

lemma scenario_more_there_with_venue:
  "case analyze ''show me more there'' (Some kolonaki_state) of
     Inl e \<Rightarrow> False
   | Inr r \<Rightarrow> fst (snd r) = ''food_search'' \<and> snd (snd r) ''type'' = Some (PStr ''bar'')
              \<and> snd (snd r) ''neighborhood'' = Some (PStr ''Kolonaki'')"
  by code_simp

lemma scenario_more_there_fresh:
  "case analyze ''show me more there'' (Some new_state) of
     Inl e \<Rightarrow> False
   | Inr r \<Rightarrow> fst (snd r) = ''generic'' \<and> snd (snd r) ''neighborhood'' = None"
  by code_simp

lemma scenario_cafes_in_plaka:
  "case analyze ''cafes in plaka'' (Some new_state) of
     Inl e \<Rightarrow> False
   | Inr r \<Rightarrow> fst r = ''CONSTATIVE'' \<and> fst (snd r) = ''food_search''
              \<and> map (snd (snd r)) [''act_subtype'', ''type'', ''neighborhood'', ''cuisine'']
                  = map cafes_in_plaka_slots [''act_subtype'', ''type'', ''neighborhood'', ''cuisine'']"
  by code_simp

lemma scenario_bars:
  "case analyze ''bars'' (Some new_state) of
     Inl e \<Rightarrow> False
   | Inr r \<Rightarrow> fst r = ''CONSTATIVE'' \<and> fst (snd r) = ''food_search''
              \<and> map (snd (snd r)) [''act_subtype'', ''type'', ''neighborhood'', ''cuisine'']
                  = map bars_slots [''act_subtype'', ''type'', ''neighborhood'', ''cuisine'']"
  by code_simp

lemma scenario_name_capture:
  "extract_full_name ''My name is Danielle Smith'' = Some ''Danielle Smith''"
  "extract_full_name ''my name is danielle smith'' = None"
  by code_simp+

subsection \<open>The limit of "next N"\<close>

text \<open>
  C1. The utterance "next 5" matches the third alternative of the limit pattern, whose
  number is group 3; \<open>analyze\<close> converts \<open>m.group(1) or m.group(2)\<close>, which is \<open>None\<close>,
  and \<open>int(None)\<close> raises \<open>TypeError\<close>. The exception leaves \<open>analyze\<close> and
  \<open>route_request\<close>, for every state and every collaborator.
\<close>

theorem analyze_raises_on_next_n:
  "analyze ''next 5'' (Some st) = Inl TypeError
   \<and> classify (user_says ''next 5'') st = Inl TypeError
   \<and> route_request co (user_says ''next 5'') st = Inl TypeError"
  by (simp add: route_request_def classify_def Let_def user_says_def latest_user_def
        next5_repair analyze_next5)

subsection \<open>Database keywords\<close>

text \<open>
  \<open>analyze\<close> strips the text and normalises typos; \<open>decide_act_and_intent\<close> strips its
  argument again. The second strip changes nothing, because a replacement never puts
  white space at either end of the text, so both functions match the database pattern
  against the same text.
\<close>

lemma strip_fixed: "clean_edges s \<Longrightarrow> strip s = s"
proof (cases "s = []")
  case True
  then show ?thesis by (simp add: strip_def)
next
  case False
  assume "clean_edges s"
  with False have h: "\<not> is_space (hd s)" and l: "\<not> is_space (last s)"
    by (auto simp: clean_edges_def)
  from False h have a: "dropWhile is_space s = s" by (cases s) auto
  from False l have "dropWhile is_space (rev s) = rev s"
    by (cases "rev s") (auto simp: last_rev hd_rev dest: arg_cong [where f = hd])
  with a show ?thesis by (simp add: strip_def)
qed

lemma last_dropWhile: "dropWhile P xs \<noteq> [] \<Longrightarrow> last (dropWhile P xs) = last xs"
  by (induction xs) (auto split: if_splits)

lemma strip_clean: "clean_edges (strip s)"
proof -
  let ?a = "dropWhile is_space s"
  let ?b = "dropWhile is_space (rev ?a)"
  show ?thesis
  proof (cases "?b = []")
    case True
    then show ?thesis by (simp add: strip_def clean_edges_def)
  next
    case False
    then have hb: "\<not> is_space (hd ?b)" by (rule hd_dropWhile)
    have a: "?a \<noteq> []"
    proof
      assume "?a = []"
      with False show False by (metis dropWhile.simps(1) rev.simps(1))
    qed
    then have ha: "\<not> is_space (hd ?a)" by (rule hd_dropWhile)
    from False have "last ?b = last (rev ?a)" by (rule last_dropWhile)
    with a have lb: "last ?b = hd ?a" by (simp add: last_rev)
    from False hb ha lb show ?thesis
      by (simp add: strip_def clean_edges_def hd_rev last_rev)
  qed
qed

lemma sub_walk_edges:
  assumes r: "repl \<noteq> []"
  shows "s \<noteq> [] \<Longrightarrow>
         (skip = 0 \<longrightarrow> sub_walk ic rx repl p skip s \<noteq> []
                       \<and> (hd (sub_walk ic rx repl p skip s) = hd s \<or> hd (sub_walk ic rx repl p skip s) = hd repl))
         \<and> (sub_walk ic rx repl p skip s = []
              \<or> last (sub_walk ic rx repl p skip s) = last s
              \<or> last (sub_walk ic rx repl p skip s) = last repl)"
proof (induction s arbitrary: p skip)
  case Nil
  then show ?case by simp
next
  case (Cons c cs)
  show ?case
  proof (cases "cs = []")
    case True
    with r show ?thesis by (auto simp: Let_def split: list.splits)
  next
    case False
    note IH = Cons.IH [OF False]
    show ?thesis
    proof (cases "0 < skip")
      case True
      with IH [where p = "Some c" and skip = "skip - 1"] False show ?thesis by auto
    next
      case sk: False
      from IH [where p = "Some c" and skip = 0] have n0: "sub_walk ic rx repl (Some c) 0 cs \<noteq> []"
        and l0: "last (sub_walk ic rx repl (Some c) 0 cs) = last cs
                 \<or> last (sub_walk ic rx repl (Some c) 0 cs) = last repl" by auto
      show ?thesis
      proof (cases "rx_run ic rx \<lparr> prev = p, rest = c # cs, caps = [] \<rparr>")
        case Nil
        with sk n0 l0 False show ?thesis by auto
      next
        case (Cons m ms)
        let ?n = "length (c # cs) - length (rest m)"
        show ?thesis
        proof (cases "?n = 0")
          case True
          with sk Cons n0 l0 False show ?thesis by (auto simp: Let_def)
        next
          case nz: False
          from IH [where p = "Some c" and skip = "?n - 1"]
          have "sub_walk ic rx repl (Some c) (?n - 1) cs = []
                \<or> last (sub_walk ic rx repl (Some c) (?n - 1) cs) = last cs
                \<or> last (sub_walk ic rx repl (Some c) (?n - 1) cs) = last repl" by auto
          with sk Cons nz r False show ?thesis by (auto simp: Let_def last_append)
        qed
      qed
    qed
  qed
qed

lemma rx_sub_clean:
  assumes "repl \<noteq> []" "\<not> is_space (hd repl)" "\<not> is_space (last repl)" "clean_edges s"
  shows "clean_edges (rx_sub ic rx repl s)"
proof (cases "s = []")
  case True
  then show ?thesis by (simp add: rx_sub_def clean_edges_def)
next
  case False
  from sub_walk_edges [OF assms(1) False, where skip = 0 and ic = ic and rx = rx and p = None] assms False
  show ?thesis by (auto simp: rx_sub_def clean_edges_def)
qed

lemma fixes_clean:
  "\<forall>(w, r) \<in> set typo_fixes. r \<noteq> [] \<and> \<not> is_space (hd r) \<and> \<not> is_space (last r)"
  by (simp add: typo_fixes_def is_space_table)

lemma foldl_fixes_clean:
  "\<forall>(w, r) \<in> set fs. r \<noteq> [] \<and> \<not> is_space (hd r) \<and> \<not> is_space (last r) \<Longrightarrow> clean_edges s \<Longrightarrow>
   clean_edges (foldl (\<lambda>low (wrong, right). rx_sub True (seqs [WordB, Str wrong, WordB]) right low) s fs)"
proof (induction fs arbitrary: s)
  case Nil
  then show ?case by simp
next
  case (Cons f fs)
  obtain w r where f: "f = (w, r)" by (cases f)
  with Cons.prems have "clean_edges (rx_sub True (seqs [WordB, Str w, WordB]) r s)"
    by (auto intro: rx_sub_clean)
  with Cons f show ?case by simp
qed

lemma normalize_typos_stripped: "strip (normalize_typos (strip x)) = normalize_typos (strip x)"
  unfolding normalize_typos_def
  by (rule strip_fixed, rule foldl_fixes_clean [OF fixes_clean strip_clean])

lemma decide_db_like:
  "matches DB_HARD (lower (strip u)) \<Longrightarrow> snd (snd (decide_act_and_intent u)) = ''db_query''"
  by (simp add: decide_act_and_intent_def Let_def)

text \<open>
  The final override: whenever \<open>analyze\<close> returns on an utterance that matches the
  strong database keyword pattern, the intent it returns is \<open>db_query\<close>, whatever the
  state remembers.
\<close>

lemma analyze_db_override:
  assumes "analyze tx st = Inr (am, intent, sl)"
      and "matches DB_HARD (lower (normalize_typos (strip tx)))"
  shows "intent = ''db_query''"
proof -
  let ?t = "normalize_typos (strip tx)"
  from assms(2) have "matches DB_HARD (lower (strip ?t))" by (simp add: normalize_typos_stripped)
  then have d: "snd (snd (decide_act_and_intent ?t)) = ''db_query''" by (rule decide_db_like)
  from assms show ?thesis
    by (auto simp: analyze_def Let_def d smalltalk_intents_def split: sum.splits)
qed

text \<open>
  C8. "next 5 tasks" matches the strong database keyword pattern, and \<open>analyze\<close> does
  not return an intent for it: the limit conversion raises before the final override
  is reached.
\<close>

theorem db_keyword_utterance_raises:
  "matches DB_HARD (lower (normalize_typos (strip ''next 5 tasks'')))
   \<and> analyze ''next 5 tasks'' (Some st) = Inl TypeError
   \<and> route_request co (user_says ''next 5 tasks'') st = Inl TypeError"
  by (simp add: route_request_def classify_def Let_def user_says_def latest_user_def
        next5_repair next5_text next5_tasks_db analyze_next5_tasks)

section \<open>Properties of the router\<close>

subsection \<open>What the stages leave unchanged\<close>

lemma apply_effect_frame:
  "asked_name_once (apply_effect e st) = asked_name_once st"
  "pending_action (apply_effect e st) = pending_action st"
  "slots (apply_effect e st) = slots st"
  "user_profile (apply_effect e st) = user_profile st"
  by (cases e; simp add: log_kg_result_def log_db_result_def attach_tool_event_def Let_def)+

lemma apply_effects_frame:
  "asked_name_once (apply_effects es st) = asked_name_once st
   \<and> pending_action (apply_effects es st) = pending_action st
   \<and> slots (apply_effects es st) = slots st
   \<and> user_profile (apply_effects es st) = user_profile st"
  unfolding apply_effects_def
  by (induction es arbitrary: st) (simp_all add: apply_effect_frame)

lemma dispatch_tools_frame:
  "asked_name_once (fst (snd (dispatch_tools co payload ut ei merged st))) = asked_name_once st
   \<and> pending_action (fst (snd (dispatch_tools co payload ut ei merged st))) = pending_action st
   \<and> slots (fst (snd (dispatch_tools co payload ut ei merged st))) = slots st
   \<and> user_profile (fst (snd (dispatch_tools co payload ut ei merged st))) = user_profile st"
  by (simp add: dispatch_tools_def Let_def apply_effects_frame)

lemma verify_identity_frame:
  "pending_action (fst (verify_identity co name st)) = pending_action st"
  "asked_name_once st \<Longrightarrow> asked_name_once (fst (verify_identity co name st))"
  by (simp_all add: verify_identity_def update_user_identity_def Let_def split: option.splits)

lemma update_topics_frame:
  "pending_action (update_topics_and_entities H i sl st) = pending_action st"
  "asked_name_once (update_topics_and_entities H i sl st) = asked_name_once st"
  "user_profile (update_topics_and_entities H i sl st) = user_profile st"
  by (simp_all add: update_topics_and_entities_def clear_topic_def Let_def)

lemma add_user_turn_frame:
  "pending_action (add_user_turn tx am asub i sl mood st) = pending_action st"
  "asked_name_once (add_user_turn tx am asub i sl mood st) = asked_name_once st"
  "user_profile (add_user_turn tx am asub i sl mood st) = user_profile st"
  by (simp_all add: add_user_turn_def)

lemma track_turn_frame:
  "pending_action (tr_state (track_turn co ut tfc am i sl st)) = pending_action st"
  "asked_name_once st \<Longrightarrow> asked_name_once (tr_state (track_turn co ut tfc am i sl st))"
  by (simp_all add: track_turn_def Let_def add_user_turn_frame update_topics_frame verify_identity_frame)

lemma track_turn_calls:
  "CallKG \<notin> set (tr_calls (track_turn co ut tfc am i sl st))"
  "CallDB \<notin> set (tr_calls (track_turn co ut tfc am i sl st))"
  by (simp_all add: track_turn_def Let_def split: option.splits)

lemma respond_asked:
  "asked_name_once (tr_state tr) \<Longrightarrow>
     asked_name_once (fst (snd (respond co payload ut i sl tr))) \<and> fst (respond co payload ut i sl tr) \<noteq> OnboardingPrompt"
  by (simp add: respond_def Let_def needs_onboarding_def dispatch_tools_frame)

lemma respond_onboarding:
  "fst (respond co payload ut i sl tr) = OnboardingPrompt \<Longrightarrow> asked_name_once (fst (snd (respond co payload ut i sl tr)))"
  by (simp add: respond_def Let_def split: if_splits)

lemma respond_cancel:
  "truthy (sget sl ''cancel'') \<Longrightarrow>
     CallKG \<notin> set (tr_calls tr) \<Longrightarrow> CallDB \<notin> set (tr_calls tr) \<Longrightarrow>
     CallKG \<notin> set (snd (snd (respond co payload ut i sl tr)))
     \<and> CallDB \<notin> set (snd (snd (respond co payload ut i sl tr)))
     \<and> (fst (respond co payload ut i sl tr) \<noteq> OnboardingPrompt \<and> \<not> py_in (sget sl ''act_subtype'') quick_ack_subtypes
          \<longrightarrow> pending_action (fst (snd (respond co payload ut i sl tr))) = None)
     \<and> (fst (respond co payload ut i sl tr) = OnboardingPrompt \<or> py_in (sget sl ''act_subtype'') quick_ack_subtypes
          \<longrightarrow> pending_action (fst (snd (respond co payload ut i sl tr))) = pending_action (tr_state tr))"
  by (simp add: respond_def Let_def)

lemma respond_frame_pending:
  "fst (respond co payload ut i sl tr) = OnboardingPrompt
   \<or> py_in (sget sl ''act_subtype'') quick_ack_subtypes
   \<Longrightarrow> pending_action (fst (snd (respond co payload ut i sl tr))) = pending_action (tr_state tr)"
  by (auto simp: respond_def Let_def split: if_splits)

subsection \<open>The intents handed to topic tracking\<close>

text \<open>
  \<open>analyze\<close> returns one of twelve intents, and the effective intent of a turn is the
  intent of the turn or one that an earlier turn stored in \<open>history_intents\<close>. In a
  session that starts from \<open>DialogueState()\<close> the router therefore never calls
  \<open>update_topics_and_entities\<close> with the intent \<open>place_info\<close>: the guard for that
  intent is reached only by a direct call of the method.
\<close>

lemma decide_intent_range:
  "snd (snd (decide_act_and_intent u)) \<in> set classifier_intents"
  by (simp add: decide_act_and_intent_def Let_def classifier_intents_def)

lemma anaphora_intent:
  "fst (anaphora ul state i sl) = i \<or> fst (anaphora ul state i sl) = ''food_search''"
  by (simp add: anaphora_def Let_def split: option.splits)

lemma analyze_intent_range:
  assumes "analyze tx state = Inr r"
  shows "fst (snd r) \<in> set classifier_intents"
proof -
  let ?t = "normalize_typos (strip tx)"
  have d: "snd (snd (decide_act_and_intent ?t)) \<in> set classifier_intents"
    by (rule decide_intent_range)
  have a: "fst (anaphora ul state (snd (snd (decide_act_and_intent ?t))) sl) \<in> set classifier_intents" for ul sl
    using anaphora_intent [of ul state "snd (snd (decide_act_and_intent ?t))" sl] d
    by (auto simp: classifier_intents_def)
  have q: "''db_query'' \<in> set classifier_intents" by (simp add: classifier_intents_def)
  from assms show ?thesis
    unfolding analyze_def Let_def
    using d a q by (auto split: if_splits sum.splits)
qed


lemma history_frames:
  "history_intents (fst (verify_identity co name st)) = history_intents st"
  "history_intents (update_topics_and_entities H i sl st) = history_intents st"
  "history_intents (apply_effect e st) = history_intents st"
  "set (history_intents (add_user_turn tx am asub i sl mood st)) \<subseteq> insert i (set (history_intents st))"
proof -
  show "history_intents (fst (verify_identity co name st)) = history_intents st"
    by (simp add: verify_identity_def update_user_identity_def Let_def split: option.splits)
  show "history_intents (update_topics_and_entities H i sl st) = history_intents st"
    by (simp add: update_topics_and_entities_def clear_topic_def Let_def)
  show "history_intents (apply_effect e st) = history_intents st"
    by (cases e; simp add: log_kg_result_def log_db_result_def attach_tool_event_def Let_def)
  have "set (drop n (history_intents st @ [i])) \<subseteq> insert i (set (history_intents st))" for n
    using set_drop_subset [of n "history_intents st @ [i]"] by auto
  then show "set (history_intents (add_user_turn tx am asub i sl mood st)) \<subseteq> insert i (set (history_intents st))"
    by (simp add: add_user_turn_def last6_def)
qed

lemma history_apply_effects:
  "history_intents (apply_effects es st) = history_intents st"
  unfolding apply_effects_def
  by (induction es arbitrary: st) (simp_all add: history_frames)

lemma history_respond:
  "history_intents (fst (snd (respond co payload ut i sl tr))) = history_intents (tr_state tr)"
  by (simp add: respond_def dispatch_tools_def Let_def history_apply_effects)

lemma history_track_turn:
  "set (history_intents (tr_state (track_turn co ut tfc am i sl st))) \<subseteq> insert i (set (history_intents st))"
  using history_frames(4) [of ut am _ i sl _ "update_topics_and_entities (hash8 co) _ _ (fst (verify_identity co (extract_full_name ut) st))"]
  by (simp add: track_turn_def Let_def history_frames)

lemma find_in_set: "find P xs = Some x \<Longrightarrow> x \<in> set xs"
  by (induction xs) (auto split: if_splits)

lemma effective_intent_range:
  assumes "i \<in> set classifier_intents" and "set (history_intents st) \<subseteq> set classifier_intents"
  shows "tr_effective_intent (track_turn co ut tfc am i sl st) \<in> set classifier_intents"
proof -
  have p: "prev_domain (fst (verify_identity co (extract_full_name ut) st)) = Some q
           \<Longrightarrow> q \<in> set classifier_intents" for q
    using assms(2) find_in_set [of _ "rev (history_intents st)" q]
    by (auto simp: prev_domain_def history_frames)
  show ?thesis
    using assms(1) p
    by (auto simp: track_turn_def Let_def effective_intent_of_def split: option.splits)
qed

lemma classify_intent_range:
  "classify p st = Inr c \<Longrightarrow> fst (snd (snd c)) \<in> set classifier_intents"
  using analyze_intent_range
  by (fastforce simp: classify_def Let_def split: sum.splits prod.splits)

lemma route_history:
  assumes "route_request co p st = Inr r" and "set (history_intents st) \<subseteq> set classifier_intents"
  shows "set (history_intents (fst (snd r))) \<subseteq> set classifier_intents"
proof (cases "classify p st")
  case (Inl e)
  with assms(1) show ?thesis by (simp add: route_request_def)
next
  case (Inr c)
  obtain tfc am i sl where c: "c = (tfc, am, i, sl)" by (cases c) auto
  from classify_intent_range [OF Inr] c have i: "i \<in> set classifier_intents" by simp
  from Inr c assms(1)
  have r: "r = respond co p (latest_user p) i sl (track_turn co (latest_user p) tfc am i sl st)"
    by (simp add: route_request_def)
  from history_track_turn [of co "latest_user p" tfc am i sl st] i assms(2)
  show ?thesis unfolding r history_respond by auto
qed

lemma topic_intents_range:
  "set (history_intents st) \<subseteq> set classifier_intents
   \<Longrightarrow> set (topic_intents co ps st) \<subseteq> set classifier_intents"
proof (induction ps arbitrary: st)
  case Nil
  show ?case by simp
next
  case (Cons p ps)
  show ?case
  proof (cases "classify p st")
    case (Inl e)
    with Cons show ?thesis by simp
  next
    case (Inr c)
    then have "\<exists>r. route_request co p st = Inr r"
      by (cases c) (simp add: route_request_def, metis prod_cases3)
    then obtain r where r: "route_request co p st = Inr r" ..
    from route_history [OF r Cons.prems]
    have h: "set (history_intents (snd (run_session co [p] st))) \<subseteq> set classifier_intents"
      by (simp add: r)
    from classify_intent_range [OF Inr]
    have "tr_effective_intent (track_turn co (latest_user p) (fst c) (fst (snd c)) (fst (snd (snd c)))
            (snd (snd (snd c))) st) \<in> set classifier_intents"
      by (rule effective_intent_range) (rule Cons.prems)
    with Cons.IH [OF h] Inr show ?thesis by simp
  qed
qed

lemma router_never_passes_place_info:
  "''place_info'' \<notin> set (topic_intents co ps new_state)"
  using topic_intents_range [of new_state co ps]
  by (auto simp: new_state_def classifier_intents_def)

subsection \<open>Ephemeral keys\<close>

lemma route_request_slots:
  assumes "route_request co p st = Inr (rep, st', cs)" and "k \<in> set ephemeral"
      and "slots st k = None"
  shows "slots st' k = None"
proof (cases "classify p st")
  case (Inl e)
  with assms(1) show ?thesis by (simp add: route_request_def)
next
  case (Inr c)
  obtain tfc am intent sl where c: "c = (tfc, am, intent, sl)" by (cases c) auto
  let ?ut = "latest_user p"
  let ?tr = "track_turn co ?ut tfc am intent sl st"
  have v: "slots (fst (verify_identity co name st)) = slots st" for name
    by (simp add: verify_identity_def Let_def split: option.splits)
  have "slots (tr_state ?tr) k = None"
    using assms(2,3) slots_update_topics_cases
            [of "hash8 co" _ _ "fst (verify_identity co (extract_full_name ?ut) st)" k]
    by (auto simp: track_turn_def Let_def merge_durable_ephemeral v)
  moreover have "slots (fst (snd (respond co p ?ut intent sl ?tr))) = slots (tr_state ?tr)"
    by (simp add: respond_def Let_def dispatch_tools_frame)
  moreover from Inr c assms(1) have "st' = fst (snd (respond co p ?ut intent sl ?tr))"
    by (auto simp: route_request_def)
  ultimately show ?thesis by simp
qed

lemma evolves_ephemeral:
  "evolves co st0 st \<Longrightarrow> k \<in> set ephemeral \<Longrightarrow> slots st0 k = None \<Longrightarrow> slots st k = None"
proof (induction rule: evolves.induct)
  case (e_route st st1 p rep st2 cs)
  then show ?case using route_request_slots by blast
next
  case (e_topics st st1 H intent sl)
  with slots_update_topics_cases [of H intent sl st1 k] show ?case by auto
qed (simp_all add: merge_durable_ephemeral)

text \<open>
  C5. In every state a session reaches from \<open>DialogueState()\<close>, by router invocations,
  public operations and outside field writes, none of the keys \<open>confirm\<close>, \<open>cancel\<close>,
  \<open>act_subtype\<close> is in the durable slot map: \<open>add_user_turn\<close> skips them for every input
  slot map and no other operation writes them.
\<close>

theorem ephemeral_keys_never_durable:
  "evolves co new_state st \<Longrightarrow> \<forall>k \<in> set ephemeral. slots st k = None"
  using evolves_ephemeral [of co new_state st] by (simp add: new_state_def)

theorem ephemeral_keys_never_durable_witness:
  "slots (add_user_turn ''yes, cancel that'' ''CONSTATIVE'' (Some ''CONFIRM'') ''affirm''
            [''confirm'' \<mapsto> PBool True, ''cancel'' \<mapsto> PBool True,
             ''act_subtype'' \<mapsto> PStr ''CONFIRM'', ''type'' \<mapsto> PStr ''bar'']
            ''neutral'' new_state) ''cancel'' = None"
  using ephemeral_keys_never_durable
          [OF e_user_turn [OF e_refl, of demo new_state "''yes, cancel that''" "''CONSTATIVE''"
                "Some ''CONFIRM''" "''affirm''"
                "[''confirm'' \<mapsto> PBool True, ''cancel'' \<mapsto> PBool True,
                  ''act_subtype'' \<mapsto> PStr ''CONFIRM'', ''type'' \<mapsto> PStr ''bar'']"
                "''neutral''"]]
  by (simp add: ephemeral_def)


subsection \<open>Evaluation of the stages on "stop" and "sorry nvm"\<close>

lemma stop_repair: "apply_self_repair ''stop'' = (''stop'', False)"
  by code_simp

lemma stop_text: "normalize_typos (strip ''stop'') = ''stop''" "lower ''stop'' = ''stop''"
  by code_simp+

lemma stop_flags: "matches CANCEL_PAT ''stop''" "\<not> matches CONFIRM_PAT ''stop''"
  by code_simp+

lemma stop_decide: "decide_act_and_intent ''stop'' = (''CONSTATIVE'', ''DENY'', ''deny'')"
  by code_simp

lemma stop_refs: "\<not> pronoun_in ''stop''" "\<not> deictic_in ''stop''"
  by code_simp+

lemma stop_rest:
  "get_mood ''stop'' = ''neutral''" "extract_full_name ''stop'' = None"
  "\<not> mentions_anonymous ''stop''"
  by code_simp+

lemma analyze_stop: "analyze ''stop'' st = Inr (''CONSTATIVE'', ''deny'', stop_slots)"
  by (simp add: analyze_def Let_def stop_text stop_flags stop_decide smalltalk_intents_def
        set_if_def stop_slots_def)

lemma classify_stop:
  "classify (user_says ''stop'') st = Inr (''stop'', ''CONSTATIVE'', ''deny'', stop_slots)"
  by (simp add: classify_def Let_def user_says_def latest_user_def stop_repair analyze_stop
        rr_fst stop_refs)

lemma latest_user_says: "latest_user (user_says s) = s"
  by (simp add: user_says_def latest_user_def)

lemma stop_slots_read:
  "sget stop_slots ''cancel'' = PBool True" "sget stop_slots ''act_subtype'' = PStr ''DENY''"
  by (simp_all add: stop_slots_def sget_def)

lemma track_stop_calls: "tr_calls (track_turn co ''stop'' tfc am i sl st) = []"
  by (simp add: track_turn_def Let_def stop_rest)

text \<open>
  "stop" on any state: the onboarding prompt if the state needs onboarding, else the
  cancellation branch.
\<close>

lemma route_stop:
  "route_request co (user_says ''stop'') st =
     Inr (if needs_onboarding st
          then (OnboardingPrompt,
                (tr_state (track_turn co ''stop'' ''stop'' ''CONSTATIVE'' ''deny'' stop_slots st))
                  \<lparr> asked_name_once := True \<rparr>, [])
          else (QuickAck (quick_ack ''APOLOGIZE'' (user_profile st)),
                (tr_state (track_turn co ''stop'' ''stop'' ''CONSTATIVE'' ''deny'' stop_slots st))
                  \<lparr> pending_action := None \<rparr>, []))"
proof -
  let ?tr = "track_turn co ''stop'' ''stop'' ''CONSTATIVE'' ''deny'' stop_slots st"
  have st3: "tr_state ?tr =
      add_user_turn ''stop'' ''CONSTATIVE'' (Some ''DENY'') ''deny'' stop_slots ''neutral''
        (update_topics_and_entities (hash8 co) ''deny'' (merged_slots (slots st) stop_slots) st)"
    by (simp add: track_turn_def Let_def stop_rest verify_identity_def effective_intent_of_def
          stop_slots_read str_of_def split: option.splits)
  have n: "needs_onboarding (tr_state ?tr) = needs_onboarding st"
    by (simp add: st3 needs_onboarding_def add_user_turn_frame update_topics_frame)
  have u: "user_profile (tr_state ?tr) = user_profile st"
    by (simp add: st3 add_user_turn_frame update_topics_frame)
  show ?thesis
    by (simp add: route_request_def classify_stop latest_user_says respond_def Let_def n u
          track_stop_calls stop_slots_read SMALLTALK_INTENTS_def py_in_def quick_ack_subtypes_def)
qed

lemma nvm_repair: "apply_self_repair ''sorry nvm'' = (''sorry nvm'', False)"
  by code_simp

lemma nvm_text:
  "normalize_typos (strip ''sorry nvm'') = ''sorry nvm''" "lower ''sorry nvm'' = ''sorry nvm''"
  by code_simp+

lemma nvm_flags: "matches CANCEL_PAT ''sorry nvm''" "\<not> matches CONFIRM_PAT ''sorry nvm''"
  by code_simp+

lemma nvm_decide:
  "decide_act_and_intent ''sorry nvm'' = (''ACKNOWLEDGMENT'', ''APOLOGIZE'', ''apology'')"
  by code_simp

lemma nvm_refs: "\<not> pronoun_in ''sorry nvm''" "\<not> deictic_in ''sorry nvm''"
  by code_simp+

lemma nvm_rest:
  "get_mood ''sorry nvm'' = ''neutral''" "extract_full_name ''sorry nvm'' = None"
  "\<not> mentions_anonymous ''sorry nvm''"
  by code_simp+

lemma analyze_nvm:
  "analyze ''sorry nvm'' st = Inr (''ACKNOWLEDGMENT'', ''apology'', nvm_slots)"
  by (simp add: analyze_def Let_def nvm_text nvm_flags nvm_decide
        smalltalk_intents_def set_if_def nvm_slots_def)

lemma classify_nvm:
  "classify (user_says ''sorry nvm'') st
     = Inr (''sorry nvm'', ''ACKNOWLEDGMENT'', ''apology'', nvm_slots)"
  by (simp add: classify_def Let_def user_says_def latest_user_def nvm_repair
        analyze_nvm rr_fst nvm_refs)

lemma nvm_slots_read:
  "sget nvm_slots ''cancel'' = PBool True"
  "sget nvm_slots ''act_subtype'' = PStr ''APOLOGIZE''"
  by (simp_all add: nvm_slots_def sget_def)

text \<open>"sorry nvm" on any state: the quick acknowledgment, before the cancellation branch.\<close>

lemma route_nvm:
  "route_request co (user_says ''sorry nvm'') st =
     Inr (QuickAck (quick_ack ''APOLOGIZE'' (user_profile st)),
          tr_state (track_turn co ''sorry nvm'' ''sorry nvm'' ''ACKNOWLEDGMENT'' ''apology''
                      nvm_slots st),
          [])"
proof -
  let ?tr = "track_turn co ''sorry nvm'' ''sorry nvm'' ''ACKNOWLEDGMENT'' ''apology'' nvm_slots st"
  have u: "user_profile (tr_state ?tr) = user_profile st"
    by (simp add: track_turn_def Let_def nvm_rest verify_identity_def add_user_turn_frame
          update_topics_frame)
  have k: "tr_calls ?tr = []"
    by (simp add: track_turn_def Let_def nvm_rest)
  show ?thesis
    by (simp add: route_request_def classify_nvm latest_user_says respond_def Let_def u k
          nvm_slots_read SMALLTALK_INTENTS_def py_in_def quick_ack_subtypes_def str_of_def)
qed

lemma example_states:
  "needs_onboarding pending_state"
  "\<not> needs_onboarding anonymous_pending_state"
  "pending_action pending_state = Some [(''kind'', PStr ''send_summary'')]"
  "pending_action anonymous_pending_state = Some [(''kind'', PStr ''send_summary'')]"
  by (simp_all add: needs_onboarding_def pending_state_def anonymous_pending_state_def
        new_state_def default_profile_def update_user_identity_def bool_of_id_def Let_def)

subsection \<open>Cancellation\<close>

text \<open>
  C2, as stated, fails. "stop" sets the cancel flag; on a fresh session the onboarding
  gate returns first and the pending action stays. "sorry nvm" sets the cancel flag; on
  an anonymous session the quick acknowledgment returns first and the pending action
  stays.
\<close>

theorem cancel_flag_pending_action_kept:
  "truthy (sget (turn_slots (user_says ''stop'') pending_state) ''cancel'')
   \<and> reply_of (route_request demo (user_says ''stop'') pending_state) = Some OnboardingPrompt
   \<and> map_option pending_action (state_of (route_request demo (user_says ''stop'') pending_state))
       = Some (Some [(''kind'', PStr ''send_summary'')])
   \<and> truthy (sget (turn_slots (user_says ''sorry nvm'') anonymous_pending_state) ''cancel'')
   \<and> map_option pending_action
         (state_of (route_request demo (user_says ''sorry nvm'') anonymous_pending_state))
       = Some (Some [(''kind'', PStr ''send_summary'')])"
  by (simp add: turn_slots_def classify_stop classify_nvm stop_slots_read
        nvm_slots_read route_stop route_nvm example_states reply_of_def state_of_def
        track_turn_frame)

text \<open>
  C2, amended. For every router invocation that returns and whose extracted slots set
  the cancel flag, neither the knowledge-graph nor the database collaborator is called;
  unless the invocation returns the onboarding prompt or the act subtype is one of
  GREET, THANK, GOODBYE, APOLOGIZE, the pending action is null at the end; in those two
  cases it is what it was.
\<close>

theorem cancel_turn_clears_pending_action:
  assumes "truthy (sget (turn_slots payload st) ''cancel'')"
      and "route_request co payload st = Inr (rep, st', cs)"
  shows "CallKG \<notin> set cs \<and> CallDB \<notin> set cs
         \<and> (rep \<noteq> OnboardingPrompt
              \<and> \<not> py_in (sget (turn_slots payload st) ''act_subtype'') quick_ack_subtypes
              \<longrightarrow> pending_action st' = None)
         \<and> (rep = OnboardingPrompt
              \<or> py_in (sget (turn_slots payload st) ''act_subtype'') quick_ack_subtypes
              \<longrightarrow> pending_action st' = pending_action st)"
proof (cases "classify payload st")
  case (Inl e)
  with assms(2) show ?thesis by (simp add: route_request_def)
next
  case (Inr c)
  obtain tfc am intent sl where c: "c = (tfc, am, intent, sl)" by (cases c) auto
  let ?ut = "latest_user payload"
  let ?tr = "track_turn co ?ut tfc am intent sl st"
  let ?r = "respond co payload ?ut intent sl ?tr"
  from Inr c have sl: "turn_slots payload st = sl" by (simp add: turn_slots_def)
  from Inr c assms(2) have r: "rep = fst ?r" "st' = fst (snd ?r)" "cs = snd (snd ?r)"
    by (auto simp: route_request_def)
  from assms(1) sl have k: "truthy (sget sl ''cancel'')" by simp
  have p: "pending_action (tr_state ?tr) = pending_action st"
    by (rule track_turn_frame)
  show ?thesis
    unfolding r sl
    using respond_cancel [where sl = sl and tr = "?tr" and co = co and payload = payload
                            and ut = "?ut" and i = intent] k p
          track_turn_calls [of co ?ut tfc am intent sl st]
    by simp
qed

lemma quick_ack_default: "quick_ack ''APOLOGIZE'' (user_profile anonymous_pending_state) = (AckNoLevel, ''APOLOGIZE'')"
  "quick_ack ''APOLOGIZE'' (user_profile pending_state) = (AckNoLevel, ''APOLOGIZE'')"
  by (simp_all add: quick_ack_def ack_for_level_def ack_keys_def anonymous_pending_state_def
        pending_state_def new_state_def default_profile_def update_user_identity_def Let_def)

theorem cancel_turn_clears_pending_action_witness:
  "truthy (sget (turn_slots (user_says ''stop'') anonymous_pending_state) ''cancel'')
   \<and> pending_action anonymous_pending_state = Some [(''kind'', PStr ''send_summary'')]
   \<and> map_option pending_action (state_of (route_request demo (user_says ''stop'') anonymous_pending_state))
       = Some None
   \<and> reply_of (route_request demo (user_says ''stop'') anonymous_pending_state)
       = Some (QuickAck (AckNoLevel, ''APOLOGIZE''))"
proof -
  let ?st3 = "tr_state (track_turn demo ''stop'' ''stop'' ''CONSTATIVE'' ''deny'' stop_slots
                          anonymous_pending_state)"
  have c: "truthy (sget (turn_slots (user_says ''stop'') anonymous_pending_state) ''cancel'')"
    by (simp add: turn_slots_def classify_stop stop_slots_read)
  have a: "\<not> py_in (sget (turn_slots (user_says ''stop'') anonymous_pending_state) ''act_subtype'')
               quick_ack_subtypes"
    by (simp add: turn_slots_def classify_stop stop_slots_read py_in_def quick_ack_subtypes_def)
  have r: "route_request demo (user_says ''stop'') anonymous_pending_state
             = Inr (QuickAck (AckNoLevel, ''APOLOGIZE''), ?st3\<lparr> pending_action := None \<rparr>, [])"
    by (simp add: route_stop example_states quick_ack_default)
  from cancel_turn_clears_pending_action [OF c r] a
  have "pending_action (?st3\<lparr> pending_action := None \<rparr>) = None" by simp
  with c r show ?thesis
    by (simp add: example_states reply_of_def state_of_def)
qed

subsection \<open>Onboarding\<close>

lemma asked_frames:
  "asked_name_once (add_assistant_turn tx sl st) = asked_name_once st"
  "asked_name_once (log_db_result sql params rows ms err st) = asked_name_once st"
  "asked_name_once (log_kg_result sparql bindings ms err st) = asked_name_once st"
  "asked_name_once st \<Longrightarrow> asked_name_once (update_user_identity n sid r rl d pm st)"
  by (simp_all add: add_assistant_turn_def log_db_result_def log_kg_result_def
        attach_tool_event_def update_user_identity_def Let_def)

lemma route_asked:
  assumes "route_request co p st = Inr (rep, st', cs)" and "asked_name_once st"
  shows "asked_name_once st' \<and> rep \<noteq> OnboardingPrompt"
proof (cases "classify p st")
  case (Inl e)
  with assms(1) show ?thesis by (simp add: route_request_def)
next
  case (Inr c)
  obtain tfc am intent sl where c: "c = (tfc, am, intent, sl)" by (cases c) auto
  let ?tr = "track_turn co (latest_user p) tfc am intent sl st"
  from assms(2) have "asked_name_once (tr_state ?tr)" by (rule track_turn_frame)
  from respond_asked [OF this, of co p "latest_user p" intent sl] Inr c assms(1)
  show ?thesis by (auto simp: route_request_def)
qed

lemma route_onboarding_sets_asked:
  assumes "route_request co p st = Inr (OnboardingPrompt, st', cs)"
  shows "asked_name_once st'"
proof (cases "classify p st")
  case (Inl e)
  with assms show ?thesis by (simp add: route_request_def)
next
  case (Inr c)
  obtain tfc am intent sl where c: "c = (tfc, am, intent, sl)" by (cases c) auto
  let ?tr = "track_turn co (latest_user p) tfc am intent sl st"
  from Inr c assms
  have "fst (respond co p (latest_user p) intent sl ?tr) = OnboardingPrompt"
       "st' = fst (snd (respond co p (latest_user p) intent sl ?tr))"
    by (auto simp: route_request_def)
  with respond_onboarding [of co p "latest_user p" intent sl ?tr] show ?thesis by simp
qed

lemma evolves_asked:
  "evolves co st st' \<Longrightarrow> asked_name_once st \<Longrightarrow> asked_name_once st'"
proof (induction rule: evolves.induct)
  case (e_route st st1 p rep st2 cs)
  then show ?case using route_asked by blast
qed (simp_all add: asked_frames add_user_turn_frame update_topics_frame)

lemma session_after_asked:
  "asked_name_once st \<Longrightarrow>
     Some OnboardingPrompt \<notin> set (fst (run_session co ps st)) \<and> asked_name_once (snd (run_session co ps st))"
proof (induction ps arbitrary: st)
  case Nil
  then show ?case by simp
next
  case (Cons p ps)
  show ?case
  proof (cases "route_request co p st")
    case (Inl e)
    with Cons show ?thesis by simp
  next
    case (Inr r)
    obtain rep st' cs where r: "r = (rep, st', cs)" by (cases r) auto
    from route_asked [of co p st rep st' cs] Inr r Cons.prems
    have "asked_name_once st'" "rep \<noteq> OnboardingPrompt" by auto
    with Cons.IH [of st'] Inr r show ?thesis by simp
  qed
qed

lemma session_at_most_once:
  "length (filter (\<lambda>r. r = Some OnboardingPrompt) (fst (run_session co ps st))) \<le> 1"
proof (induction ps arbitrary: st)
  case Nil
  show ?case by simp
next
  case (Cons p ps)
  show ?case
  proof (cases "route_request co p st")
    case (Inl e)
    with Cons.IH [of st] show ?thesis by simp
  next
    case (Inr r)
    obtain rep st' cs where r: "r = (rep, st', cs)" by (cases r) auto
    show ?thesis
    proof (cases "rep = OnboardingPrompt")
      case True
      with Inr r have "asked_name_once st'" using route_onboarding_sets_asked by blast
      from session_after_asked [OF this, of co ps]
      have "filter (\<lambda>r. r = Some OnboardingPrompt) (fst (run_session co ps st')) = []"
        by (auto simp: filter_empty_conv)
      with Inr r True show ?thesis by simp
    next
      case False
      with Cons.IH [of st'] Inr r show ?thesis by simp
    qed
  qed
qed

text \<open>
  C7. \<open>needs_onboarding\<close> is the conjunction of the three conditions; in a session the
  router returns the onboarding prompt at most once; and once it has returned it, no
  later state of the session needs onboarding and no later invocation returns the prompt,
  whatever the router, the public operations and outside writes to the profile do in
  between.
\<close>

theorem onboarding_prompt_at_most_once:
  "(needs_onboarding st \<longleftrightarrow>
      up_privacy_mode (user_profile st) = ''ask'' \<and> \<not> up_verified (user_profile st)
      \<and> \<not> asked_name_once st)
   \<and> length (filter (\<lambda>r. r = Some OnboardingPrompt) (fst (run_session co ps st))) \<le> 1
   \<and> (route_request co p st = Inr (OnboardingPrompt, st1, cs) \<and> evolves co st1 st2
        \<longrightarrow> \<not> needs_onboarding st2
            \<and> reply_of (route_request co q st2) \<noteq> Some OnboardingPrompt)"
proof -
  have "\<not> needs_onboarding st2 \<and> reply_of (route_request co q st2) \<noteq> Some OnboardingPrompt"
    if h: "route_request co p st = Inr (OnboardingPrompt, st1, cs)" "evolves co st1 st2"
  proof -
    from h(1) have "asked_name_once st1" by (rule route_onboarding_sets_asked)
    with h(2) have a: "asked_name_once st2" by (rule evolves_asked)
    have "reply_of (route_request co q st2) \<noteq> Some OnboardingPrompt"
    proof (cases "route_request co q st2")
      case (Inl e)
      then show ?thesis by (simp add: reply_of_def)
    next
      case (Inr r)
      obtain rep st' cs' where r: "r = (rep, st', cs')" by (cases r) auto
      from route_asked [of co q st2 rep st' cs'] Inr r a show ?thesis
        by (simp add: reply_of_def)
    qed
    with a show ?thesis by (simp add: needs_onboarding_def)
  qed
  then show ?thesis
    using session_at_most_once [of co ps st] by (auto simp: needs_onboarding_def)
qed

theorem onboarding_prompt_at_most_once_witness:
  "needs_onboarding pending_state
   \<and> fst (run_session demo [user_says ''stop'', user_says ''stop''] pending_state)
       = [Some OnboardingPrompt, Some (QuickAck (AckNoLevel, ''APOLOGIZE''))]
   \<and> length (filter (\<lambda>r. r = Some OnboardingPrompt)
               (fst (run_session demo [user_says ''stop'', user_says ''stop''] pending_state))) \<le> 1"
proof -
  let ?st3 = "tr_state (track_turn demo ''stop'' ''stop'' ''CONSTATIVE'' ''deny'' stop_slots pending_state)"
  let ?st1 = "?st3\<lparr> asked_name_once := True \<rparr>"
  have r1: "route_request demo (user_says ''stop'') pending_state = Inr (OnboardingPrompt, ?st1, [])"
    by (simp add: route_stop example_states)
  have n: "\<not> needs_onboarding ?st1" by (simp add: needs_onboarding_def)
  have u: "user_profile ?st1 = user_profile pending_state"
    by (simp add: track_turn_def Let_def stop_rest verify_identity_def add_user_turn_frame
          update_topics_frame)
  have r2: "route_request demo (user_says ''stop'') ?st1
              = Inr (QuickAck (AckNoLevel, ''APOLOGIZE''),
                     (tr_state (track_turn demo ''stop'' ''stop'' ''CONSTATIVE'' ''deny'' stop_slots ?st1))
                       \<lparr> pending_action := None \<rparr>, [])"
    using n by (simp add: route_stop u quick_ack_default)
  have s: "fst (run_session demo [user_says ''stop'', user_says ''stop''] pending_state)
             = [Some OnboardingPrompt, Some (QuickAck (AckNoLevel, ''APOLOGIZE''))]"
    by (simp add: r1 r2)
  from onboarding_prompt_at_most_once
         [of pending_state demo "[user_says ''stop'', user_says ''stop'']" "user_says ''stop''"
             ?st1 "[]" ?st1 "user_says ''stop''"]
       r1 e_refl [of demo ?st1] s
  show ?thesis by (simp add: example_states)
qed

end
